theory Spec2Isabelle
  imports Main "HOL-Library.AList" "HOL-Library.Sublist"
begin

section \<open>JavaScript values, exceptions and promises\<close>

text \<open>
  The values the Supabase client hands back are untyped JSON (the TypeScript interfaces are
  erased at run time), and the source tests them with JavaScript truthiness
  (\<^verbatim>\<open>data || []\<close>, \<^verbatim>\<open>if (!result)\<close>, \<^verbatim>\<open>count || 0\<close>). Numbers are modelled as
  integers (counts and quotas); an object is an association list in insertion order.
\<close>

datatype jsval = Undefined | Null | Bool bool | Num int | Str string
  | Arr "jsval list" | Obj "(string \<times> jsval) list"

fun truthy :: "jsval \<Rightarrow> bool" where
  "truthy Undefined = False"
| "truthy Null = False"
| "truthy (Bool b) = b"
| "truthy (Num n) = (n \<noteq> 0)"
| "truthy (Str s) = (s \<noteq> [])"
| "truthy (Arr xs) = True"
| "truthy (Obj kvs) = True"

definition js_or :: "jsval \<Rightarrow> jsval \<Rightarrow> jsval" where
  \<comment> \<open>\<^verbatim>\<open>a || b\<close>\<close>
  "js_or a b = (if truthy a then a else b)"

fun isArray :: "jsval \<Rightarrow> bool" where
  "isArray (Arr xs) = True"
| "isArray v = False"

fun index0 :: "jsval \<Rightarrow> jsval" where
  \<comment> \<open>\<^verbatim>\<open>data[0]\<close> on an array: \<^verbatim>\<open>undefined\<close> when the array is empty.\<close>
  "index0 (Arr (x # xs)) = x"
| "index0 v = Undefined"

subsection \<open>Strings\<close>

text \<open>
  A JavaScript string is held as the UTF-8 bytes of its text (a string of the source is
  written out as those bytes). Concatenation, equality, \<^verbatim>\<open>startsWith\<close> and \<^verbatim>\<open>includes\<close> of
  strings are those of the byte lists. What JavaScript counts in UTF-16 code units
  (\<^verbatim>\<open>length\<close>, the index keys of a string) and what it decides per character (\<^verbatim>\<open>trim\<close>) goes
  through the code points of the bytes.
\<close>

fun is_continuation :: "char \<Rightarrow> bool" where
  \<comment> \<open>A byte \<^verbatim>\<open>10xxxxxx\<close>, which continues a code point.\<close>
  "is_continuation (Char b0 b1 b2 b3 b4 b5 b6 b7) = (b7 \<and> \<not> b6)"

fun is_lead4 :: "char \<Rightarrow> bool" where
  \<comment> \<open>A byte \<^verbatim>\<open>1111xxxx\<close>, which starts a code point beyond U+FFFF.\<close>
  "is_lead4 (Char b0 b1 b2 b3 b4 b5 b6 b7) = (b7 \<and> b6 \<and> b5 \<and> b4)"

function code_points :: "string \<Rightarrow> string list" where
  \<comment> \<open>The bytes of each code point: a byte with the continuation bytes that follow it.\<close>
  "code_points [] = []"
| "code_points (c # cs) =
     (c # takeWhile is_continuation cs) # code_points (dropWhile is_continuation cs)"
  by pat_completeness auto

termination code_points
  by (relation "measure length") (simp_all add: length_dropWhile_le le_imp_less_Suc)

definition utf16_unit :: "nat \<Rightarrow> string" where
  \<comment> \<open>One UTF-16 code unit from U+0800 on, in three bytes; a surrogate is written this way
      too.\<close>
  "utf16_unit u =
     [char_of (224 + u div 4096), char_of (128 + (u div 64) mod 64), char_of (128 + u mod 64)]"

definition code_units_of :: "string \<Rightarrow> string list" where
  \<comment> \<open>The UTF-16 code units of one code point: itself up to U+FFFF, its two surrogates
      beyond.\<close>
  "code_units_of g =
     (case g of
        [b0, b1, b2, b3] \<Rightarrow>
          if is_lead4 b0
          then (let cp = (of_char b0 mod 8) * 262144 + (of_char b1 mod 64) * 4096
                         + (of_char b2 mod 64) * 64 + (of_char b3 mod 64 :: nat);
                    v = cp - 65536
                in [utf16_unit (55296 + v div 1024), utf16_unit (56320 + v mod 1024)])
          else [g]
      | other \<Rightarrow> [g])"

definition code_units :: "string \<Rightarrow> string list" where
  "code_units s = concat (map code_units_of (code_points s))"

definition js_length :: "string \<Rightarrow> nat" where
  \<comment> \<open>\<^verbatim>\<open>s.length\<close>, the number of UTF-16 code units: one for each code point, and one more
      for each code point beyond U+FFFF.\<close>
  "js_length s = length (filter (\<lambda>c. \<not> is_continuation c) s) + length (filter is_lead4 s)"

definition white_space :: "string list" where
  \<comment> \<open>The code points \<^verbatim>\<open>trim\<close> strips, ECMAScript's WhiteSpace and LineTerminator: U+0009
      to U+000D, U+0020, U+00A0, U+1680, U+2000 to U+200A, U+2028, U+2029, U+202F, U+205F,
      U+3000 and U+FEFF.\<close>
  "white_space =
     '' '' # [CHR 0x09] # [CHR 0x0A] # [CHR 0x0B] # [CHR 0x0C] # [CHR 0x0D]
     # [CHR 0xC2, CHR 0xA0] # [CHR 0xE1, CHR 0x9A, CHR 0x80]
     # [CHR 0xE2, CHR 0x80, CHR 0x80] # [CHR 0xE2, CHR 0x80, CHR 0x81]
     # [CHR 0xE2, CHR 0x80, CHR 0x82] # [CHR 0xE2, CHR 0x80, CHR 0x83]
     # [CHR 0xE2, CHR 0x80, CHR 0x84] # [CHR 0xE2, CHR 0x80, CHR 0x85]
     # [CHR 0xE2, CHR 0x80, CHR 0x86] # [CHR 0xE2, CHR 0x80, CHR 0x87]
     # [CHR 0xE2, CHR 0x80, CHR 0x88] # [CHR 0xE2, CHR 0x80, CHR 0x89]
     # [CHR 0xE2, CHR 0x80, CHR 0x8A] # [CHR 0xE2, CHR 0x80, CHR 0xA8]
     # [CHR 0xE2, CHR 0x80, CHR 0xA9] # [CHR 0xE2, CHR 0x80, CHR 0xAF]
     # [CHR 0xE2, CHR 0x81, CHR 0x9F] # [CHR 0xE3, CHR 0x80, CHR 0x80]
     # [CHR 0xEF, CHR 0xBB, CHR 0xBF] # []"

definition is_space :: "string \<Rightarrow> bool" where
  "is_space g = (g \<in> set white_space)"

definition trim :: "string \<Rightarrow> string" where
  \<comment> \<open>\<^verbatim>\<open>s.trim()\<close>: the white space at both ends goes, code point by code point.\<close>
  "trim s = concat (rev (dropWhile is_space (rev (dropWhile is_space (code_points s)))))"

fun decimal :: "nat \<Rightarrow> string" where
  \<comment> \<open>The decimal digits of a number, as a template literal or a property key writes it.\<close>
  "decimal n =
     (if n < 10 then [char_of (48 + n)] else decimal (n div 10) @ [char_of (48 + n mod 10)])"

declare decimal.simps [simp del]

definition index_keys :: "'a list \<Rightarrow> (string \<times> 'a) list" where
  \<comment> \<open>The elements under the keys \<^verbatim>\<open>"0"\<close>, \<^verbatim>\<open>"1"\<close>, ...\<close>
  "index_keys xs = zip (map decimal [0 ..< length xs]) xs"

text \<open>
  What a \<^verbatim>\<open>throw\<close> (or a rejected promise under \<^verbatim>\<open>await\<close>) carries: an instance of
  \<^verbatim>\<open>Error\<close> with its message, or any other value.
\<close>

datatype thrown = ErrorObj string | Thrown jsval

datatype 'a outcome = Throws thrown | Returns 'a

definition await :: "'a outcome \<Rightarrow> ('a \<Rightarrow> 'b outcome) \<Rightarrow> 'b outcome" where
  \<comment> \<open>\<^verbatim>\<open>const v = await p; k(v)\<close>: a rejection of \<open>p\<close> is thrown at the \<^verbatim>\<open>await\<close>.\<close>
  "await p k = (case p of Throws e \<Rightarrow> Throws e | Returns v \<Rightarrow> k v)"

definition try_catch :: "'a outcome \<Rightarrow> (thrown \<Rightarrow> 'a outcome) \<Rightarrow> 'a outcome" where
  \<comment> \<open>\<^verbatim>\<open>try { body } catch (e) { handler(e) }\<close>\<close>
  "try_catch body handler = (case body of Throws e \<Rightarrow> handler e | Returns v \<Rightarrow> Returns v)"

definition TypeError :: thrown where
  "TypeError = ErrorObj ''TypeError''"

fun js_get :: "jsval \<Rightarrow> string \<Rightarrow> jsval outcome" where
  \<comment> \<open>\<^verbatim>\<open>v.key\<close>: a TypeError on \<^verbatim>\<open>null\<close> and \<^verbatim>\<open>undefined\<close>, \<^verbatim>\<open>undefined\<close> for a key the value
      does not have (the keys read in this file are not properties of numbers, strings or arrays).\<close>
  "js_get Undefined k = Throws TypeError"
| "js_get Null k = Throws TypeError"
| "js_get (Obj kvs) k = Returns (case map_of kvs k of None \<Rightarrow> Undefined | Some v \<Rightarrow> v)"
| "js_get v k = Returns Undefined"

fun spread :: "jsval \<Rightarrow> (string \<times> jsval) list" where
  \<comment> \<open>The own enumerable properties \<^verbatim>\<open>{...v}\<close> copies: those of an object, the elements of an
      array and the code units of a string under their index keys; \<^verbatim>\<open>null\<close>, \<^verbatim>\<open>undefined\<close>,
      numbers and booleans spread to nothing.\<close>
  "spread (Obj kvs) = kvs"
| "spread (Arr xs) = index_keys xs"
| "spread (Str s) = index_keys (map Str (code_units s))"
| "spread v = []"

fun promise_all :: "'a outcome list \<Rightarrow> 'a list outcome" where
  \<comment> \<open>\<^verbatim>\<open>await Promise.all(ps)\<close>: the results in order, or a rejection when one rejects.\<close>
  "promise_all [] = Returns []"
| "promise_all (p # ps) =
     (case p of
        Throws e \<Rightarrow> Throws e
      | Returns v \<Rightarrow> (case promise_all ps of Throws e \<Rightarrow> Throws e | Returns vs \<Rightarrow> Returns (v # vs)))"

fun array_map :: "(jsval \<Rightarrow> 'a) \<Rightarrow> jsval \<Rightarrow> 'a list outcome" where
  \<comment> \<open>\<^verbatim>\<open>v.map(f)\<close>: only an array has \<^verbatim>\<open>map\<close>.\<close>
  "array_map f (Arr xs) = Returns (map f xs)"
| "array_map f v = Throws TypeError"

section \<open>The Result wrapper and the Supabase client\<close>

text \<open>
  \<^verbatim>\<open>success(data)\<close> and \<^verbatim>\<open>failure(new Error(message))\<close> of \<^verbatim>\<open>@lib/types/result\<close>, as the
  callers read them: \<^verbatim>\<open>result.success\<close>, \<^verbatim>\<open>result.data\<close>, \<^verbatim>\<open>result.error\<close>.
\<close>

datatype js_error = Error string

datatype 'a Result = success 'a | failure js_error

text \<open>
  A query is what the builder chain of the source describes; the client is the service
  that answers it: it resolves to \<^verbatim>\<open>{ data, error, count }\<close> or rejects.
\<close>

datatype filter =
    Eq string jsval  \<comment> \<open>\<^verbatim>\<open>.eq(column, value)\<close>\<close>
  | NotOp string string string  \<comment> \<open>\<^verbatim>\<open>.not(column, operator, value)\<close>\<close>
  | OrFilter string  \<comment> \<open>\<^verbatim>\<open>.or(filters)\<close>\<close>

datatype verb =
    Select string "(string \<times> jsval) list"  \<comment> \<open>\<^verbatim>\<open>.select(columns, options)\<close>\<close>
  | Insert "jsval list"
  | Update jsval
  | Upsert "jsval list"
  | Delete

record request =
  table :: string
  verb :: verb
  returning :: "string option"  \<comment> \<open>\<^verbatim>\<open>.select(columns)\<close> chained after a write\<close>
  filters :: "filter list"
  order :: "(string \<times> bool) option"  \<comment> \<open>column, ascending\<close>
  limit :: "nat option"
  single :: bool

datatype call = Query request | Rpc string "(string \<times> jsval) list"

record response =
  data :: jsval
  error :: "string option"  \<comment> \<open>the \<^verbatim>\<open>message\<close> of the error object, \<open>None\<close> for \<^verbatim>\<open>null\<close>\<close>
  count :: jsval

type_synonym supabase = "call \<Rightarrow> response outcome"

definition from_table :: "string \<Rightarrow> verb \<Rightarrow> request" where
  \<comment> \<open>\<^verbatim>\<open>supabase.from(table)\<close> followed by the verb, nothing else chained yet.\<close>
  "from_table t v =
     \<lparr>table = t, verb = v, returning = None, filters = [], order = None, limit = None,
      single = False\<rparr>"

section \<open>The data layer: \<^verbatim>\<open>lib/db/group-permissions.ts\<close>\<close>

text \<open>
  Each exported function takes the outcome of \<^verbatim>\<open>createClient()\<close> (a client, or an exception)
  and returns what the \<^verbatim>\<open>async\<close> function settles to: \<open>Returns\<close> a Result, or \<open>Throws\<close> when
  the promise rejects. The literals of the source that are not ASCII are kept as their UTF-8
  bytes, with a translation beside them.
\<close>

definition msg_getGroups :: string where
  \<comment> \<open>UTF-8 bytes of the source literal (\<open>failed to get the group list\<close>)\<close>
  "msg_getGroups = [CHR 0xE8, CHR 0x8E, CHR 0xB7, CHR 0xE5, CHR 0x8F, CHR 0x96, CHR 0xE7,
     CHR 0xBE, CHR 0xA4, CHR 0xE7, CHR 0xBB, CHR 0x84, CHR 0xE5, CHR 0x88, CHR 0x97, CHR 0xE8,
     CHR 0xA1, CHR 0xA8, CHR 0xE5, CHR 0xA4, CHR 0xB1, CHR 0xE8, CHR 0xB4, CHR 0xA5]"

definition msg_createGroup :: string where
  \<comment> \<open>UTF-8 bytes of the source literal (\<open>failed to create the group\<close>)\<close>
  "msg_createGroup = [CHR 0xE5, CHR 0x88, CHR 0x9B, CHR 0xE5, CHR 0xBB, CHR 0xBA, CHR 0xE7,
     CHR 0xBE, CHR 0xA4, CHR 0xE7, CHR 0xBB, CHR 0x84, CHR 0xE5, CHR 0xA4, CHR 0xB1, CHR 0xE8,
     CHR 0xB4, CHR 0xA5]"

definition msg_updateGroup :: string where
  \<comment> \<open>UTF-8 bytes of the source literal (\<open>failed to update the group\<close>)\<close>
  "msg_updateGroup = [CHR 0xE6, CHR 0x9B, CHR 0xB4, CHR 0xE6, CHR 0x96, CHR 0xB0, CHR 0xE7,
     CHR 0xBE, CHR 0xA4, CHR 0xE7, CHR 0xBB, CHR 0x84, CHR 0xE5, CHR 0xA4, CHR 0xB1, CHR 0xE8,
     CHR 0xB4, CHR 0xA5]"

definition msg_deleteGroup :: string where
  \<comment> \<open>UTF-8 bytes of the source literal (\<open>failed to delete the group\<close>)\<close>
  "msg_deleteGroup = [CHR 0xE5, CHR 0x88, CHR 0xA0, CHR 0xE9, CHR 0x99, CHR 0xA4, CHR 0xE7,
     CHR 0xBE, CHR 0xA4, CHR 0xE7, CHR 0xBB, CHR 0x84, CHR 0xE5, CHR 0xA4, CHR 0xB1, CHR 0xE8,
     CHR 0xB4, CHR 0xA5]"

definition msg_getGroupMembers :: string where
  \<comment> \<open>UTF-8 bytes of the source literal (\<open>failed to get the group members\<close>)\<close>
  "msg_getGroupMembers = [CHR 0xE8, CHR 0x8E, CHR 0xB7, CHR 0xE5, CHR 0x8F, CHR 0x96, CHR 0xE7,
     CHR 0xBE, CHR 0xA4, CHR 0xE7, CHR 0xBB, CHR 0x84, CHR 0xE6, CHR 0x88, CHR 0x90, CHR 0xE5,
     CHR 0x91, CHR 0x98, CHR 0xE5, CHR 0xA4, CHR 0xB1, CHR 0xE8, CHR 0xB4, CHR 0xA5]"

definition msg_addGroupMember :: string where
  \<comment> \<open>UTF-8 bytes of the source literal (\<open>failed to add the group member\<close>)\<close>
  "msg_addGroupMember = [CHR 0xE6, CHR 0xB7, CHR 0xBB, CHR 0xE5, CHR 0x8A, CHR 0xA0, CHR 0xE7,
     CHR 0xBE, CHR 0xA4, CHR 0xE7, CHR 0xBB, CHR 0x84, CHR 0xE6, CHR 0x88, CHR 0x90, CHR 0xE5,
     CHR 0x91, CHR 0x98, CHR 0xE5, CHR 0xA4, CHR 0xB1, CHR 0xE8, CHR 0xB4, CHR 0xA5]"

definition msg_removeGroupMember :: string where
  \<comment> \<open>UTF-8 bytes of the source literal (\<open>failed to remove the group member\<close>)\<close>
  "msg_removeGroupMember = [CHR 0xE7, CHR 0xA7, CHR 0xBB, CHR 0xE9, CHR 0x99, CHR 0xA4,
     CHR 0xE7, CHR 0xBE, CHR 0xA4, CHR 0xE7, CHR 0xBB, CHR 0x84, CHR 0xE6, CHR 0x88, CHR 0x90,
     CHR 0xE5, CHR 0x91, CHR 0x98, CHR 0xE5, CHR 0xA4, CHR 0xB1, CHR 0xE8, CHR 0xB4, CHR 0xA5]"

definition msg_getGroupAppPermissions :: string where
  \<comment> \<open>UTF-8 bytes of the source literal (\<open>failed to get the group's app permissions\<close>)\<close>
  "msg_getGroupAppPermissions = [CHR 0xE8, CHR 0x8E, CHR 0xB7, CHR 0xE5, CHR 0x8F, CHR 0x96,
     CHR 0xE7, CHR 0xBE, CHR 0xA4, CHR 0xE7, CHR 0xBB, CHR 0x84, CHR 0xE5, CHR 0xBA, CHR 0x94,
     CHR 0xE7, CHR 0x94, CHR 0xA8, CHR 0xE6, CHR 0x9D, CHR 0x83, CHR 0xE9, CHR 0x99, CHR 0x90,
     CHR 0xE5, CHR 0xA4, CHR 0xB1, CHR 0xE8, CHR 0xB4, CHR 0xA5]"

definition msg_setGroupAppPermission :: string where
  \<comment> \<open>UTF-8 bytes of the source literal (\<open>failed to set the group's app permission\<close>)\<close>
  "msg_setGroupAppPermission = [CHR 0xE8, CHR 0xAE, CHR 0xBE, CHR 0xE7, CHR 0xBD, CHR 0xAE,
     CHR 0xE7, CHR 0xBE, CHR 0xA4, CHR 0xE7, CHR 0xBB, CHR 0x84, CHR 0xE5, CHR 0xBA, CHR 0x94,
     CHR 0xE7, CHR 0x94, CHR 0xA8, CHR 0xE6, CHR 0x9D, CHR 0x83, CHR 0xE9, CHR 0x99, CHR 0x90,
     CHR 0xE5, CHR 0xA4, CHR 0xB1, CHR 0xE8, CHR 0xB4, CHR 0xA5]"

definition msg_removeGroupAppPermission :: string where
  \<comment> \<open>UTF-8 bytes of the source literal (\<open>failed to delete the group's app permission\<close>)\<close>
  "msg_removeGroupAppPermission = [CHR 0xE5, CHR 0x88, CHR 0xA0, CHR 0xE9, CHR 0x99, CHR 0xA4,
     CHR 0xE7, CHR 0xBE, CHR 0xA4, CHR 0xE7, CHR 0xBB, CHR 0x84, CHR 0xE5, CHR 0xBA, CHR 0x94,
     CHR 0xE7, CHR 0x94, CHR 0xA8, CHR 0xE6, CHR 0x9D, CHR 0x83, CHR 0xE9, CHR 0x99, CHR 0x90,
     CHR 0xE5, CHR 0xA4, CHR 0xB1, CHR 0xE8, CHR 0xB4, CHR 0xA5]"

definition msg_removeAllGroupAppPermissions :: string where
  \<comment> \<open>UTF-8 bytes of the source literal (\<open>failed to delete all group permissions of the app\<close>)\<close>
  "msg_removeAllGroupAppPermissions = [CHR 0xE5, CHR 0x88, CHR 0xA0, CHR 0xE9, CHR 0x99,
     CHR 0xA4, CHR 0xE5, CHR 0xBA, CHR 0x94, CHR 0xE7, CHR 0x94, CHR 0xA8, CHR 0xE7, CHR 0x9A,
     CHR 0x84, CHR 0xE6, CHR 0x89, CHR 0x80, CHR 0xE6, CHR 0x9C, CHR 0x89, CHR 0xE7, CHR 0xBB,
     CHR 0x84, CHR 0xE6, CHR 0x9D, CHR 0x83, CHR 0xE9, CHR 0x99, CHR 0x90, CHR 0xE5, CHR 0xA4,
     CHR 0xB1, CHR 0xE8, CHR 0xB4, CHR 0xA5]"

definition msg_getUserAccessibleApps :: string where
  \<comment> \<open>UTF-8 bytes of the source literal (\<open>failed to get the app list\<close>)\<close>
  "msg_getUserAccessibleApps = [CHR 0xE8, CHR 0x8E, CHR 0xB7, CHR 0xE5, CHR 0x8F, CHR 0x96,
     CHR 0xE5, CHR 0xBA, CHR 0x94, CHR 0xE7, CHR 0x94, CHR 0xA8, CHR 0xE5, CHR 0x88, CHR 0x97,
     CHR 0xE8, CHR 0xA1, CHR 0xA8, CHR 0xE5, CHR 0xA4, CHR 0xB1, CHR 0xE8, CHR 0xB4, CHR 0xA5]"

definition msg_checkUserAppPermission :: string where
  \<comment> \<open>UTF-8 bytes of the source literal (\<open>permission check failed\<close>)\<close>
  "msg_checkUserAppPermission = [CHR 0xE6, CHR 0x9D, CHR 0x83, CHR 0xE9, CHR 0x99, CHR 0x90,
     CHR 0xE6, CHR 0xA3, CHR 0x80, CHR 0xE6, CHR 0x9F, CHR 0xA5, CHR 0xE5, CHR 0xA4, CHR 0xB1,
     CHR 0xE8, CHR 0xB4, CHR 0xA5]"

definition msg_incrementAppUsage :: string where
  \<comment> \<open>UTF-8 bytes of the source literal (\<open>failed to update the usage count\<close>)\<close>
  "msg_incrementAppUsage = [CHR 0xE4, CHR 0xBD, CHR 0xBF, CHR 0xE7, CHR 0x94, CHR 0xA8,
     CHR 0xE8, CHR 0xAE, CHR 0xA1, CHR 0xE6, CHR 0x95, CHR 0xB0, CHR 0xE6, CHR 0x9B, CHR 0xB4,
     CHR 0xE6, CHR 0x96, CHR 0xB0, CHR 0xE5, CHR 0xA4, CHR 0xB1, CHR 0xE8, CHR 0xB4, CHR 0xA5]"

definition msg_searchUsersForGroup :: string where
  \<comment> \<open>UTF-8 bytes of the source literal (\<open>user search failed\<close>)\<close>
  "msg_searchUsersForGroup = [CHR 0xE6, CHR 0x90, CHR 0x9C, CHR 0xE7, CHR 0xB4, CHR 0xA2,
     CHR 0xE7, CHR 0x94, CHR 0xA8, CHR 0xE6, CHR 0x88, CHR 0xB7, CHR 0xE5, CHR 0xA4, CHR 0xB1,
     CHR 0xE8, CHR 0xB4, CHR 0xA5]"

definition select_members :: string where
  \<comment> \<open>The template literal of \<^verbatim>\<open>getGroupMembers\<close> and \<^verbatim>\<open>addGroupMember\<close>, with its line feeds
      and indentation.\<close>
  "select_members =
     [CHR 0x0A] @ ''        *,'' @
     [CHR 0x0A] @ ''        user:profiles(id, username, full_name, email)'' @
     [CHR 0x0A] @ ''      ''"

definition select_permissions :: string where
  \<comment> \<open>The template literal of \<^verbatim>\<open>getGroupAppPermissions\<close>.\<close>
  "select_permissions =
     [CHR 0x0A] @ ''        *,'' @
     [CHR 0x0A] @ ''        app:service_instances(id, display_name, instance_id, visibility)'' @
     [CHR 0x0A] @ ''      ''"

definition select_permissions_upsert :: string where
  \<comment> \<open>The template literal of \<^verbatim>\<open>setGroupAppPermission\<close>, indented two columns more.\<close>
  "select_permissions_upsert =
     [CHR 0x0A] @ ''          *,'' @
     [CHR 0x0A] @ ''          app:service_instances(id, display_name, instance_id, visibility)'' @
     [CHR 0x0A] @ ''        ''"

subsection \<open>Groups\<close>

definition groups_request :: request where
  "groups_request = (from_table ''groups'' (Select ''*'' []))\<lparr>order := Some (''created_at'', False)\<rparr>"

definition member_count_request :: "jsval \<Rightarrow> request" where
  "member_count_request group_id =
     (from_table ''group_members'' (Select ''*'' [(''count'', Str ''exact''), (''head'', Bool True)]))
       \<lparr>filters := [Eq ''group_id'' group_id]\<rparr>"

definition with_member_count :: "supabase \<Rightarrow> jsval \<Rightarrow> jsval outcome" where
  \<comment> \<open>The \<^verbatim>\<open>async group => ...\<close> callback of \<^verbatim>\<open>getGroups\<close>: a count query that reports an
      error is logged with \<^verbatim>\<open>console.warn\<close> and the group gets \<^verbatim>\<open>member_count: 0\<close>.\<close>
  "with_member_count supabase group_row =
     await (js_get group_row ''id'') (\<lambda>group_id.
     await (supabase (Query (member_count_request group_id))) (\<lambda>r.
       case error r of
         Some countError \<Rightarrow>
           Returns (Obj (AList.update ''member_count'' (Num 0) (spread group_row)))
       | None \<Rightarrow>
           Returns (Obj (AList.update ''member_count'' (js_or (count r) (Num 0)) (spread group_row)))))"

definition getGroups :: "supabase outcome \<Rightarrow> jsval Result outcome" where
  "getGroups createClient =
     try_catch
       (await createClient (\<lambda>supabase.
        await (supabase (Query groups_request)) (\<lambda>r.
          case error r of
            Some groupsError \<Rightarrow> Returns (failure (Error groupsError))
          | None \<Rightarrow>
              await (array_map (with_member_count supabase) (js_or (data r) (Arr []))) (\<lambda>promises.
              await (promise_all promises) (\<lambda>groups.
                Returns (success (Arr groups)))))))
       (\<lambda>e. Returns (failure (Error msg_getGroups)))"

fun opt_str :: "string option \<Rightarrow> jsval" where
  \<comment> \<open>An optional string property: \<^verbatim>\<open>undefined\<close> when absent.\<close>
  "opt_str None = Undefined"
| "opt_str (Some s) = Str s"

definition createGroup_request :: "string \<Rightarrow> string option \<Rightarrow> request" where
  "createGroup_request name description =
     (from_table ''groups''
        (Insert [Obj [(''name'', Str name), (''description'', js_or (opt_str description) Null)]]))
       \<lparr>returning := Some ''*'', single := True\<rparr>"

definition createGroup :: "supabase outcome \<Rightarrow> string \<Rightarrow> string option \<Rightarrow> jsval Result outcome" where
  "createGroup createClient name description =
     try_catch
       (await createClient (\<lambda>supabase.
        await (supabase (Query (createGroup_request name description))) (\<lambda>r.
          case error r of
            Some m \<Rightarrow> Returns (failure (Error m))
          | None \<Rightarrow> Returns (success (data r)))))
       (\<lambda>e. Returns (failure (Error msg_createGroup)))"

definition updateGroup_request :: "string \<Rightarrow> jsval \<Rightarrow> request" where
  "updateGroup_request groupId d =
     (from_table ''groups'' (Update d))
       \<lparr>filters := [Eq ''id'' (Str groupId)], returning := Some ''*'', single := True\<rparr>"

definition updateGroup :: "supabase outcome \<Rightarrow> string \<Rightarrow> jsval \<Rightarrow> jsval Result outcome" where
  "updateGroup createClient groupId d =
     try_catch
       (await createClient (\<lambda>supabase.
        await (supabase (Query (updateGroup_request groupId d))) (\<lambda>r.
          case error r of
            Some m \<Rightarrow> Returns (failure (Error m))
          | None \<Rightarrow> Returns (success (data r)))))
       (\<lambda>e. Returns (failure (Error msg_updateGroup)))"

definition deleteGroup_request :: "string \<Rightarrow> request" where
  "deleteGroup_request groupId = (from_table ''groups'' Delete)\<lparr>filters := [Eq ''id'' (Str groupId)]\<rparr>"

definition deleteGroup :: "supabase outcome \<Rightarrow> string \<Rightarrow> jsval Result outcome" where
  "deleteGroup createClient groupId =
     try_catch
       (await createClient (\<lambda>supabase.
        await (supabase (Query (deleteGroup_request groupId))) (\<lambda>r.
          case error r of
            Some m \<Rightarrow> Returns (failure (Error m))
          | None \<Rightarrow> Returns (success Undefined))))
       (\<lambda>e. Returns (failure (Error msg_deleteGroup)))"

subsection \<open>Group members\<close>

definition getGroupMembers_request :: "string \<Rightarrow> request" where
  "getGroupMembers_request groupId =
     (from_table ''group_members'' (Select select_members []))
       \<lparr>filters := [Eq ''group_id'' (Str groupId)], order := Some (''created_at'', False)\<rparr>"

definition getGroupMembers :: "supabase outcome \<Rightarrow> string \<Rightarrow> jsval Result outcome" where
  "getGroupMembers createClient groupId =
     try_catch
       (await createClient (\<lambda>supabase.
        await (supabase (Query (getGroupMembers_request groupId))) (\<lambda>r.
          case error r of
            Some m \<Rightarrow> Returns (failure (Error m))
          | None \<Rightarrow> Returns (success (js_or (data r) (Arr []))))))
       (\<lambda>e. Returns (failure (Error msg_getGroupMembers)))"

definition addGroupMember_request :: "string \<Rightarrow> string \<Rightarrow> request" where
  "addGroupMember_request groupId userId =
     (from_table ''group_members''
        (Insert [Obj [(''group_id'', Str groupId), (''user_id'', Str userId)]]))
       \<lparr>returning := Some select_members, single := True\<rparr>"

definition addGroupMember :: "supabase outcome \<Rightarrow> string \<Rightarrow> string \<Rightarrow> jsval Result outcome" where
  "addGroupMember createClient groupId userId =
     try_catch
       (await createClient (\<lambda>supabase.
        await (supabase (Query (addGroupMember_request groupId userId))) (\<lambda>r.
          case error r of
            Some m \<Rightarrow> Returns (failure (Error m))
          | None \<Rightarrow> Returns (success (data r)))))
       (\<lambda>e. Returns (failure (Error msg_addGroupMember)))"

definition removeGroupMember_request :: "string \<Rightarrow> string \<Rightarrow> request" where
  "removeGroupMember_request groupId userId =
     (from_table ''group_members'' Delete)
       \<lparr>filters := [Eq ''group_id'' (Str groupId), Eq ''user_id'' (Str userId)]\<rparr>"

definition removeGroupMember :: "supabase outcome \<Rightarrow> string \<Rightarrow> string \<Rightarrow> jsval Result outcome" where
  "removeGroupMember createClient groupId userId =
     try_catch
       (await createClient (\<lambda>supabase.
        await (supabase (Query (removeGroupMember_request groupId userId))) (\<lambda>r.
          case error r of
            Some m \<Rightarrow> Returns (failure (Error m))
          | None \<Rightarrow> Returns (success Undefined))))
       (\<lambda>e. Returns (failure (Error msg_removeGroupMember)))"

subsection \<open>Group app permissions\<close>

definition getGroupAppPermissions_request :: "string \<Rightarrow> request" where
  "getGroupAppPermissions_request groupId =
     (from_table ''group_app_permissions'' (Select select_permissions []))
       \<lparr>filters := [Eq ''group_id'' (Str groupId)], order := Some (''created_at'', False)\<rparr>"

definition getGroupAppPermissions :: "supabase outcome \<Rightarrow> string \<Rightarrow> jsval Result outcome" where
  "getGroupAppPermissions createClient groupId =
     try_catch
       (await createClient (\<lambda>supabase.
        await (supabase (Query (getGroupAppPermissions_request groupId))) (\<lambda>r.
          case error r of
            Some m \<Rightarrow> Returns (failure (Error m))
          | None \<Rightarrow> Returns (success (js_or (data r) (Arr []))))))
       (\<lambda>e. Returns (failure (Error msg_getGroupAppPermissions)))"

definition permission_upsert_request :: "string \<Rightarrow> string \<Rightarrow> jsval \<Rightarrow> request" where
  \<comment> \<open>The enable branch: \<^verbatim>\<open>usage_quota: data.usage_quota || null\<close>.\<close>
  "permission_upsert_request groupId serviceInstanceId usage_quota =
     (from_table ''group_app_permissions''
        (Upsert [Obj [(''group_id'', Str groupId),
                      (''service_instance_id'', Str serviceInstanceId),
                      (''is_enabled'', Bool True),
                      (''usage_quota'', js_or usage_quota Null)]]))
       \<lparr>returning := Some select_permissions_upsert, single := True\<rparr>"

definition permission_delete_request :: "string \<Rightarrow> string \<Rightarrow> request" where
  "permission_delete_request groupId serviceInstanceId =
     (from_table ''group_app_permissions'' Delete)
       \<lparr>filters := [Eq ''group_id'' (Str groupId),
                    Eq ''service_instance_id'' (Str serviceInstanceId)]\<rparr>"

definition disabled_permission :: "string \<Rightarrow> string \<Rightarrow> string \<Rightarrow> jsval" where
  \<comment> \<open>The record the disable branch returns; \<open>now\<close> is \<^verbatim>\<open>new Date().toISOString()\<close>.\<close>
  "disabled_permission groupId serviceInstanceId now =
     Obj [(''id'', Str ''''),
          (''group_id'', Str groupId),
          (''service_instance_id'', Str serviceInstanceId),
          (''is_enabled'', Bool False),
          (''usage_quota'', Null),
          (''used_count'', Num 0),
          (''created_at'', Str now),
          (''app'', Undefined)]"

definition setGroupAppPermission ::
  "supabase outcome \<Rightarrow> string \<Rightarrow> string \<Rightarrow> string \<Rightarrow> bool \<Rightarrow> jsval \<Rightarrow> jsval Result outcome" where
  \<comment> \<open>\<open>is_enabled\<close> and \<open>usage_quota\<close> are the fields of the \<^verbatim>\<open>data\<close> argument
      (\<open>usage_quota\<close> a number, \<^verbatim>\<open>null\<close>, or \<^verbatim>\<open>undefined\<close> when left out).\<close>
  "setGroupAppPermission createClient now groupId serviceInstanceId is_enabled usage_quota =
     try_catch
       (await createClient (\<lambda>supabase.
          if is_enabled then
            await (supabase (Query (permission_upsert_request groupId serviceInstanceId usage_quota)))
              (\<lambda>r. case error r of
                     Some m \<Rightarrow> Returns (failure (Error m))
                   | None \<Rightarrow> Returns (success (data r)))
          else
            await (supabase (Query (permission_delete_request groupId serviceInstanceId)))
              (\<lambda>r. case error r of
                     Some m \<Rightarrow> Returns (failure (Error m))
                   | None \<Rightarrow>
                       Returns (success (disabled_permission groupId serviceInstanceId now)))))
       (\<lambda>e. Returns (failure (Error msg_setGroupAppPermission)))"

definition removeGroupAppPermission ::
  "supabase outcome \<Rightarrow> string \<Rightarrow> string \<Rightarrow> jsval Result outcome" where
  "removeGroupAppPermission createClient groupId serviceInstanceId =
     try_catch
       (await createClient (\<lambda>supabase.
        await (supabase (Query (permission_delete_request groupId serviceInstanceId))) (\<lambda>r.
          case error r of
            Some m \<Rightarrow> Returns (failure (Error m))
          | None \<Rightarrow> Returns (success Undefined))))
       (\<lambda>e. Returns (failure (Error msg_removeGroupAppPermission)))"

definition removeAllGroupAppPermissions_request :: "string \<Rightarrow> request" where
  "removeAllGroupAppPermissions_request serviceInstanceId =
     (from_table ''group_app_permissions'' Delete)
       \<lparr>filters := [Eq ''service_instance_id'' (Str serviceInstanceId)]\<rparr>"

definition removeAllGroupAppPermissions :: "supabase outcome \<Rightarrow> string \<Rightarrow> jsval Result outcome" where
  "removeAllGroupAppPermissions createClient serviceInstanceId =
     try_catch
       (await createClient (\<lambda>supabase.
        await (supabase (Query (removeAllGroupAppPermissions_request serviceInstanceId))) (\<lambda>r.
          case error r of
            Some m \<Rightarrow> Returns (failure (Error m))
          | None \<Rightarrow> Returns (success Undefined))))
       (\<lambda>e. Returns (failure (Error msg_removeAllGroupAppPermissions)))"

subsection \<open>Permission queries: the three RPCs\<close>

definition getUserAccessibleApps_call :: "string \<Rightarrow> call" where
  "getUserAccessibleApps_call userId = Rpc ''get_user_accessible_apps'' [(''p_user_id'', Str userId)]"

definition getUserAccessibleApps :: "supabase outcome \<Rightarrow> string \<Rightarrow> jsval Result outcome" where
  "getUserAccessibleApps createClient userId =
     try_catch
       (await createClient (\<lambda>supabase.
        await (supabase (getUserAccessibleApps_call userId)) (\<lambda>r.
          case error r of
            Some m \<Rightarrow> Returns (failure (Error m))
          | None \<Rightarrow> Returns (success (js_or (data r) (Arr []))))))
       (\<lambda>e. Returns (failure (Error msg_getUserAccessibleApps)))"

definition first_row :: "jsval \<Rightarrow> jsval" where
  \<comment> \<open>\<^verbatim>\<open>Array.isArray(data) ? data[0] : data\<close>\<close>
  "first_row d = (if isArray d then index0 d else d)"

definition checkUserAppPermission_call :: "string \<Rightarrow> string \<Rightarrow> call" where
  "checkUserAppPermission_call userId serviceInstanceId =
     Rpc ''check_user_app_permission''
       [(''p_user_id'', Str userId), (''p_service_instance_id'', Str serviceInstanceId)]"

definition no_permission_row :: jsval where
  \<comment> \<open>What \<^verbatim>\<open>checkUserAppPermission\<close> answers when the RPC gave no row.\<close>
  "no_permission_row =
     Obj [(''has_access'', Bool False),
          (''quota_remaining'', Null),
          (''error_message'', Str msg_checkUserAppPermission)]"

definition checkUserAppPermission ::
  "supabase outcome \<Rightarrow> string \<Rightarrow> string \<Rightarrow> jsval Result outcome" where
  "checkUserAppPermission createClient userId serviceInstanceId =
     try_catch
       (await createClient (\<lambda>supabase.
        await (supabase (checkUserAppPermission_call userId serviceInstanceId)) (\<lambda>r.
          case error r of
            Some m \<Rightarrow> Returns (failure (Error m))
          | None \<Rightarrow>
              (let result = first_row (data r)
               in if \<not> truthy result then Returns (success no_permission_row)
                  else Returns (success result)))))
       (\<lambda>e. Returns (failure (Error msg_checkUserAppPermission)))"

definition incrementAppUsage_call :: "string \<Rightarrow> string \<Rightarrow> int option \<Rightarrow> call" where
  \<comment> \<open>\<^verbatim>\<open>increment: number = 1\<close>: the default stands in for an argument left out.\<close>
  "incrementAppUsage_call userId serviceInstanceId increment =
     Rpc ''increment_app_usage''
       [(''p_user_id'', Str userId),
        (''p_service_instance_id'', Str serviceInstanceId),
        (''p_increment'', Num (case increment of None \<Rightarrow> 1 | Some n \<Rightarrow> n))]"

definition incrementAppUsage ::
  "supabase outcome \<Rightarrow> string \<Rightarrow> string \<Rightarrow> int option \<Rightarrow> jsval Result outcome" where
  "incrementAppUsage createClient userId serviceInstanceId increment =
     try_catch
       (await createClient (\<lambda>supabase.
        await (supabase (incrementAppUsage_call userId serviceInstanceId increment)) (\<lambda>r.
          case error r of
            Some m \<Rightarrow> Returns (failure (Error m))
          | None \<Rightarrow> Returns (success (first_row (data r))))))
       (\<lambda>e. Returns (failure (Error msg_incrementAppUsage)))"

subsection \<open>User search\<close>

fun join :: "string \<Rightarrow> string list \<Rightarrow> string" where
  \<comment> \<open>\<^verbatim>\<open>xs.join(sep)\<close>\<close>
  "join sep [] = []"
| "join sep [x] = x"
| "join sep (x # y # ys) = x @ sep @ join sep (y # ys)"

definition search_filter :: "string \<Rightarrow> string" where
  "search_filter searchTerm =
     ''username.ilike.%'' @ searchTerm @ ''%,full_name.ilike.%'' @ searchTerm
       @ ''%,email.ilike.%'' @ searchTerm @ ''%''"

definition searchUsersForGroup_request :: "string \<Rightarrow> string list \<Rightarrow> request" where
  "searchUsersForGroup_request searchTerm excludeUserIds =
     (let query =
            (from_table ''profiles''
               (Select ''id, username, full_name, email, avatar_url, role, status'' []))
              \<lparr>filters := [Eq ''status'' (Str ''active'')], limit := Some 20\<rparr>;
          query =
            (if length excludeUserIds > 0
             then query\<lparr>filters := filters query
                          @ [NotOp ''id'' ''in'' (''('' @ join '','' excludeUserIds @ '')'')]\<rparr>
             else query);
          query =
            (if trim searchTerm \<noteq> []
             then query\<lparr>filters := filters query @ [OrFilter (search_filter searchTerm)]\<rparr>
             else query)
      in query\<lparr>order := Some (''created_at'', False)\<rparr>)"

definition searchUsersForGroup ::
  "supabase outcome \<Rightarrow> string \<Rightarrow> string list option \<Rightarrow> jsval Result outcome" where
  \<comment> \<open>\<^verbatim>\<open>excludeUserIds: string[] = []\<close>: \<open>None\<close> is the argument left out.\<close>
  "searchUsersForGroup createClient searchTerm excludeUserIds =
     try_catch
       (await createClient (\<lambda>supabase.
        await (supabase (Query (searchUsersForGroup_request searchTerm
                  (case excludeUserIds of None \<Rightarrow> [] | Some ids \<Rightarrow> ids)))) (\<lambda>r.
          case error r of
            Some m \<Rightarrow> Returns (failure (Error m))
          | None \<Rightarrow> Returns (success (js_or (data r) (Arr []))))))
       (\<lambda>e. Returns (failure (Error msg_searchUsersForGroup)))"

section \<open>The chat store\<close>

text \<open>
  The hook \<^verbatim>\<open>use-chat-interface.ts\<close> keeps its messages in the Zustand store of
  \<^verbatim>\<open>@lib/stores/chat-store\<close>, which is not among the sources. The message and the state are
  the fields the hook reads and writes. A field whose name Isabelle reserves carries the
  prefix \<open>msg_\<close>: \<open>msg_id\<close>, \<open>msg_text\<close> and \<open>msg_error\<close> are \<^verbatim>\<open>id\<close>, \<^verbatim>\<open>text\<close> and \<^verbatim>\<open>error\<close>.
\<close>

datatype persistence = status_pending | status_saved | status_error

record ChatMessage =
  msg_id :: string
  msg_text :: string
  isUser :: bool
  isStreaming :: bool
  wasManuallyStopped :: bool
  msg_error :: "string option"
  attachments :: jsval
  persistenceStatus :: "persistence option"  \<comment> \<open>\<open>None\<close>: the property is absent\<close>
  db_id :: "string option"
  metadata :: jsval
  token_count :: jsval

record ChatState =
  messages :: "ChatMessage list"
  streamingMessageId :: "string option"
  isWaitingForResponse :: bool
  currentConversationId :: "string option"
  currentTaskId :: "string option"

definition present :: "string option \<Rightarrow> bool" where
  \<comment> \<open>Truthiness of a \<^verbatim>\<open>string | null | undefined\<close>: the empty string is falsy too.\<close>
  "present x = (case x of None \<Rightarrow> False | Some s \<Rightarrow> s \<noteq> [])"

definition new_message :: "string \<Rightarrow> bool \<Rightarrow> ChatMessage" where
  \<comment> \<open>The argument of \<^verbatim>\<open>addMessage\<close> with only \<^verbatim>\<open>text\<close> and \<^verbatim>\<open>isUser\<close> given; the caller
      sets the other properties it passes.\<close>
  "new_message t u =
     \<lparr>msg_id = [], msg_text = t, isUser = u, isStreaming = False, wasManuallyStopped = False,
      msg_error = None, attachments = Undefined, persistenceStatus = None, db_id = None,
      metadata = Undefined, token_count = Undefined\<rparr>"

definition find_message :: "string \<Rightarrow> ChatState \<Rightarrow> ChatMessage option" where
  \<comment> \<open>\<^verbatim>\<open>state.messages.find(m => m.id === id)\<close>\<close>
  "find_message i st = find (\<lambda>m. msg_id m = i) (messages st)"

definition addMessage :: "string \<Rightarrow> ChatMessage \<Rightarrow> ChatState \<Rightarrow> ChatMessage \<times> ChatState" where
  \<comment> \<open>Modelled from the spec: the store's \<^verbatim>\<open>addMessage\<close> is missing from the sources. It
      appends the message it is given under a new id and returns it; the id the store
      generates is an input here.\<close>
  "addMessage new_id partial st =
     (let m = partial\<lparr>msg_id := new_id\<rparr> in (m, st\<lparr>messages := messages st @ [m]\<rparr>))"

definition updateMessage :: "string \<Rightarrow> (ChatMessage \<Rightarrow> ChatMessage) \<Rightarrow> ChatState \<Rightarrow> ChatState" where
  \<comment> \<open>Modelled from the spec: the store's \<^verbatim>\<open>updateMessage(id, updates)\<close> is missing from
      the sources. It merges the given properties into the message of that id; \<open>updates\<close> is
      the assignment of those properties.\<close>
  "updateMessage i updates st =
     st\<lparr>messages := map (\<lambda>m. if msg_id m = i then updates m else m) (messages st)\<rparr>"

definition appendMessageChunk :: "string \<Rightarrow> string \<Rightarrow> ChatState \<Rightarrow> ChatState" where
  \<comment> \<open>Modelled from the spec: the store's \<^verbatim>\<open>appendMessageChunk\<close> is missing from the
      sources (the spec: the store appends message chunks). It appends the chunk to the text
      of the message of that id.\<close>
  "appendMessageChunk i chunk st = updateMessage i (\<lambda>m. m\<lparr>msg_text := msg_text m @ chunk\<rparr>) st"

definition finalizeStreamingMessage :: "string \<Rightarrow> ChatState \<Rightarrow> ChatState" where
  \<comment> \<open>Modelled from the spec: the store's \<^verbatim>\<open>finalizeStreamingMessage\<close> is missing from the
      sources. It clears the streaming flag of the message and, as the hook's next
      submission relies on, the store's \<^verbatim>\<open>streamingMessageId\<close> when it is that message's.\<close>
  "finalizeStreamingMessage i st =
     (updateMessage i (\<lambda>m. m\<lparr>isStreaming := False\<rparr>) st)
       \<lparr>streamingMessageId :=
          (if streamingMessageId st = Some i then None else streamingMessageId st)\<rparr>"

definition markAsManuallyStopped :: "string \<Rightarrow> ChatState \<Rightarrow> ChatState" where
  \<comment> \<open>Modelled from the spec: the store's \<^verbatim>\<open>markAsManuallyStopped\<close> is missing from the
      sources. It sets \<^verbatim>\<open>wasManuallyStopped\<close> on the message and, as the stream loop's test
      for an external stop relies on, clears the store's \<^verbatim>\<open>streamingMessageId\<close> when it is
      that message's.\<close>
  "markAsManuallyStopped i st =
     (updateMessage i (\<lambda>m. m\<lparr>wasManuallyStopped := True\<rparr>) st)
       \<lparr>streamingMessageId :=
          (if streamingMessageId st = Some i then None else streamingMessageId st)\<rparr>"

definition setMessageError :: "string \<Rightarrow> string \<Rightarrow> ChatState \<Rightarrow> ChatState" where
  \<comment> \<open>Modelled from the spec: the store's \<^verbatim>\<open>setMessageError\<close> is missing from the sources.
      It records the error text on the message.\<close>
  "setMessageError i e st = updateMessage i (\<lambda>m. m\<lparr>msg_error := Some e\<rparr>) st"

definition setIsWaitingForResponse :: "bool \<Rightarrow> ChatState \<Rightarrow> ChatState" where
  "setIsWaitingForResponse b st = st\<lparr>isWaitingForResponse := b\<rparr>"

definition setCurrentConversationId :: "string option \<Rightarrow> ChatState \<Rightarrow> ChatState" where
  "setCurrentConversationId c st = st\<lparr>currentConversationId := c\<rparr>"

definition setCurrentTaskId :: "string option \<Rightarrow> ChatState \<Rightarrow> ChatState" where
  "setCurrentTaskId t st = st\<lparr>currentTaskId := t\<rparr>"

definition selectIsProcessing :: "ChatState \<Rightarrow> bool" where
  \<comment> \<open>Modelled from the spec: the selector is missing from the sources. The store is
      processing while it waits for a response or a message streams.\<close>
  "selectIsProcessing st = (isWaitingForResponse st \<or> streamingMessageId st \<noteq> None)"

section \<open>The chat hook: \<^verbatim>\<open>lib/hooks/use-chat-interface.ts\<close>\<close>

text \<open>
  The hook's state is the store, its three React state variables, its refs and the
  browser's location. Calls to the services around it (persistence, Dify, the router) are
  recorded in \<open>effects\<close>, in order; what those services answer comes from the environment.
  An \<^verbatim>\<open>await\<close> is a point where another handler may run: the model runs one handler at a
  time, settles a promise that is not awaited (\<^verbatim>\<open>saveMessage(...).catch(...)\<close>) where it is
  made, and what \<^verbatim>\<open>saveMessage\<close> itself writes to the store is outside it.
\<close>

subsection \<open>Strings\<close>

definition startsWith :: "string \<Rightarrow> string \<Rightarrow> bool" where
  \<comment> \<open>\<^verbatim>\<open>s.startsWith(p)\<close>\<close>
  "startsWith s p = prefix p s"

fun str_includes :: "string \<Rightarrow> string \<Rightarrow> bool" where
  \<comment> \<open>\<^verbatim>\<open>s.includes(p)\<close>\<close>
  "str_includes [] p = (p = [])"
| "str_includes (c # cs) p = (prefix p (c # cs) \<or> str_includes cs p)"

fun replace :: "string \<Rightarrow> string \<Rightarrow> string \<Rightarrow> string" where
  \<comment> \<open>\<^verbatim>\<open>s.replace(p, r)\<close> with a string pattern: the first occurrence only.\<close>
  "replace [] p r = (if p = [] then r else [])"
| "replace (c # cs) p r =
     (if prefix p (c # cs) then r @ drop (length p) (c # cs) else c # replace cs p r)"

subsection \<open>State, effects and environment\<close>

record conversation =
  conv_id :: string
  app_id :: "string option"

record streaming_check =
  messageId :: string
  content :: string
  lastUpdateTime :: int

datatype effect =
    SaveMessage ChatMessage string
  | SaveStoppedAssistantMessage ChatMessage string
  | SaveErrorPlaceholder string string string
  | GetConversationByExternalId string
  | ValidateConfig string string
  | EnsureAppReady
  | InitiateNewConversation jsval string string
  | StreamDifyChat jsval string
  | StopDifyStreamingTask string string string
  | UpdatePendingStatus string string
  | RouterReplace string
  | HistoryReplaceState string
  | SetIsWelcomeScreen bool
  | SelectItem string string bool

record hook =
  store :: ChatState
  difyConversationId :: "string option"
  dbConversationUUID :: "string option"
  conversationAppId :: "string option"
  isSubmittingRef :: bool
  chunkBufferRef :: string
  appendTimerRef :: bool  \<comment> \<open>the ref holds a timeout (it is not \<^verbatim>\<open>null\<close>)\<close>
  timerPending :: bool  \<comment> \<open>that timeout has neither fired nor been cleared\<close>
  lastStreamingCheckRef :: "streaming_check option"
  location :: string  \<comment> \<open>\<^verbatim>\<open>window.location.pathname\<close>\<close>
  effects :: "effect list"

definition log_effect :: "effect \<Rightarrow> hook \<Rightarrow> hook" where
  \<comment> \<open>A call to a service outside the hook.\<close>
  "log_effect e h = h\<lparr>effects := effects h @ [e]\<rparr>"

definition on_store :: "(ChatState \<Rightarrow> ChatState) \<Rightarrow> hook \<Rightarrow> hook" where
  \<comment> \<open>A store action, applied to the store of the hook's state.\<close>
  "on_store f h = h\<lparr>store := f (store h)\<rparr>"

subsection \<open>\<^verbatim>\<open>flushChunkBuffer\<close>\<close>

definition CHUNK_APPEND_INTERVAL :: int where
  "CHUNK_APPEND_INTERVAL = 30"

definition clear_append_timer :: "hook \<Rightarrow> hook" where
  \<comment> \<open>\<^verbatim>\<open>if (appendTimerRef.current) { clearTimeout(appendTimerRef.current);
      appendTimerRef.current = null }\<close>\<close>
  "clear_append_timer h =
     (if appendTimerRef h then h\<lparr>appendTimerRef := False, timerPending := False\<rparr> else h)"

definition flushChunkBuffer :: "string option \<Rightarrow> hook \<Rightarrow> hook" where
  "flushChunkBuffer i h =
     (let h1 = (case i of
                  None \<Rightarrow> h
                | Some j \<Rightarrow>
                    if j \<noteq> [] \<and> chunkBufferRef h \<noteq> []
                    then (on_store (appendMessageChunk j (chunkBufferRef h)) h)
                           \<lparr>chunkBufferRef := []\<rparr>
                    else h)
      in clear_append_timer h1)"

subsection \<open>The environment of a handler\<close>

text \<open>
  What happens while the stream is read, in order: a chunk arrives (with the two readings
  of \<^verbatim>\<open>Date.now()\<close> its iteration makes, at the test and after the flush), the pending append
  timer fires (with its reading), or the user presses stop, which runs
  \<^verbatim>\<open>handleStopProcessing\<close> between two chunks.
\<close>

datatype stream_event = Chunk string int int | TimerFired int | StopPressed

record stream_handle =
  open_error :: "thrown option"  \<comment> \<open>\<^verbatim>\<open>creationResult.error\<close>\<close>
  answerStream :: bool  \<comment> \<open>the stream is defined\<close>
  realConvId :: "string option"  \<comment> \<open>\<^verbatim>\<open>realConvId\<close>, \<^verbatim>\<open>getConversationId()\<close>\<close>
  taskId :: "string option"  \<comment> \<open>\<^verbatim>\<open>taskId\<close>, \<^verbatim>\<open>getTaskId()\<close>\<close>
  completionPromise :: bool  \<comment> \<open>the promise is defined\<close>

record env =
  currentUserId :: "string option"  \<comment> \<open>\<^verbatim>\<open>session?.user?.id\<close>\<close>
  currentAppId :: "string option"
  currentAppInstance :: bool  \<comment> \<open>the instance is not \<^verbatim>\<open>null\<close>\<close>
  currentPathname :: "string option"  \<comment> \<open>\<^verbatim>\<open>usePathname()\<close>\<close>
  isWelcomeScreen :: bool
  dateNow :: int  \<comment> \<open>\<^verbatim>\<open>Date.now()\<close> when the handler starts\<close>
  isoNow :: string  \<comment> \<open>\<^verbatim>\<open>new Date().toISOString()\<close>\<close>
  getConversationByExternalId :: "string \<Rightarrow> conversation option Result outcome"
  saveMessage :: "ChatMessage \<Rightarrow> string \<Rightarrow> bool"  \<comment> \<open>the promise resolves\<close>
  saveStoppedAssistantMessage :: "ChatMessage \<Rightarrow> string \<Rightarrow> bool"
  stopDifyStreamingTask :: "string \<Rightarrow> string \<Rightarrow> string \<Rightarrow> bool"
  validateConfig :: "string \<Rightarrow> unit outcome"
  ensureAppReady :: "string outcome"  \<comment> \<open>the \<^verbatim>\<open>appId\<close> of the configuration\<close>
  newUserMessageId :: string  \<comment> \<open>the ids \<^verbatim>\<open>addMessage\<close> gives the messages of this run\<close>
  newAssistantMessageId :: string
  newErrorMessageId :: string
  initiateNewConversation :: "stream_handle outcome"
  dbIdCallback :: "(string \<times> string) option"
    \<comment> \<open>the ids the creation calls back with before it settles, if it does\<close>
  streamDifyChat :: "stream_handle outcome"
  conversationIdCallback :: "string option"
    \<comment> \<open>the id the stream service calls back with before it settles, if it does\<close>
  answerChunks :: "stream_event list"
  streamFailure :: "thrown option"  \<comment> \<open>the stream throws after its last event\<close>
  completion :: "jsval outcome"  \<comment> \<open>what \<^verbatim>\<open>completionPromise\<close> settles to\<close>

definition lookupConversation :: "env \<Rightarrow> string \<Rightarrow> hook \<Rightarrow> conversation option Result outcome \<times> hook" where
  \<comment> \<open>\<^verbatim>\<open>getConversationByExternalId(id)\<close>: the call is recorded, the answer is the environment's.\<close>
  "lookupConversation E i h =
     (getConversationByExternalId E i, log_effect (GetConversationByExternalId i) h)"

definition save :: "env \<Rightarrow> ChatMessage \<Rightarrow> string \<Rightarrow> hook \<Rightarrow> bool \<times> hook" where
  \<comment> \<open>\<^verbatim>\<open>saveMessage(message, conversationId)\<close>: the call is recorded; the answer says whether
      the promise resolves.\<close>
  "save E m c h = (saveMessage E m c, log_effect (SaveMessage m c) h)"

subsection \<open>The route-listening effect\<close>

definition fetchDbConversation :: "env \<Rightarrow> string \<Rightarrow> hook \<Rightarrow> hook" where
  "fetchDbConversation E pathConversationId h =
     (let (result, h1) = lookupConversation E pathConversationId h
      in case result of
           Returns (success (Some c)) \<Rightarrow>
             h1\<lparr>dbConversationUUID := Some (conv_id c),
                conversationAppId := (if present (app_id c) then app_id c else None)\<rparr>
         | Returns (success None) \<Rightarrow> h1\<lparr>dbConversationUUID := None, conversationAppId := None\<rparr>
         | Returns (failure e) \<Rightarrow> h1\<lparr>dbConversationUUID := None, conversationAppId := None\<rparr>
         | Throws e \<Rightarrow> h1\<lparr>dbConversationUUID := None, conversationAppId := None\<rparr>)"

definition route_effect :: "env \<Rightarrow> hook \<Rightarrow> hook" where
  \<comment> \<open>The \<^verbatim>\<open>useEffect\<close> on \<^verbatim>\<open>currentPathname\<close>; the lookup it starts is run to its end.\<close>
  "route_effect E h =
     (case currentPathname E of
        None \<Rightarrow> h
      | Some p \<Rightarrow>
          if p \<noteq> [] \<and> startsWith p ''/chat/'' \<and> \<not> str_includes p ''/chat/new''
             \<and> \<not> str_includes p ''/chat/temp-''
          then (let pathConversationId = replace p ''/chat/'' []
                in fetchDbConversation E pathConversationId
                     (h\<lparr>difyConversationId := Some pathConversationId\<rparr>))
          else if p = ''/chat/new'' \<or> (p \<noteq> [] \<and> str_includes p ''/chat/temp-'')
          then h\<lparr>difyConversationId := None, dbConversationUUID := None,
                 conversationAppId := None\<rparr>
          else h)"

subsection \<open>The zombie-stream check\<close>

definition unsaved :: "ChatMessage \<Rightarrow> bool" where
  \<comment> \<open>\<^verbatim>\<open>m.persistenceStatus !== 'saved' && !m.db_id\<close>\<close>
  "unsaved m = (persistenceStatus m \<noteq> Some status_saved \<and> \<not> present (db_id m))"

definition save_or_mark_error :: "env \<Rightarrow> ChatMessage \<Rightarrow> string \<Rightarrow> hook \<Rightarrow> hook" where
  \<comment> \<open>\<^verbatim>\<open>updateMessage(id, { persistenceStatus: 'pending' }); saveMessage(message, conv).catch(() =>
      updateMessage(id, { persistenceStatus: 'error' }))\<close>, for the message as the caller holds it.\<close>
  "save_or_mark_error E m c h =
     (let h1 = on_store (updateMessage (msg_id m) (\<lambda>x. x\<lparr>persistenceStatus := Some status_pending\<rparr>)) h;
          (ok, h2) = save E m c h1
      in if ok then h2
         else on_store (updateMessage (msg_id m) (\<lambda>x. x\<lparr>persistenceStatus := Some status_error\<rparr>)) h2)"

definition ZOMBIE_CHECK_INTERVAL :: int where
  \<comment> \<open>\<^verbatim>\<open>setInterval(checkStreamingState, 10000)\<close>\<close>
  "ZOMBIE_CHECK_INTERVAL = 10000"

definition repair_zombie :: "env \<Rightarrow> ChatMessage \<Rightarrow> hook \<Rightarrow> hook" where
  \<comment> \<open>The branch of \<^verbatim>\<open>checkStreamingState\<close> for a message unchanged for more than 30 s.\<close>
  "repair_zombie E streamingMessage h =
     (let h1 = on_store (finalizeStreamingMessage (msg_id streamingMessage)) h;
          h2 = on_store (setIsWaitingForResponse False) h1;
          h3 = (if present (currentTaskId (store h)) then on_store (setCurrentTaskId None) h2
                else h2);
          h4 = h3\<lparr>lastStreamingCheckRef := None\<rparr>
      in case dbConversationUUID h of
           None \<Rightarrow> h4
         | Some currentDbConvId \<Rightarrow>
             if currentDbConvId \<noteq> [] \<and> unsaved streamingMessage
             then save_or_mark_error E streamingMessage currentDbConvId h4
             else h4)"

definition checkStreamingState :: "env \<Rightarrow> int \<Rightarrow> hook \<Rightarrow> hook" where
  \<comment> \<open>One run of the interval callback; \<open>t\<close> is its reading of \<^verbatim>\<open>Date.now()\<close>.\<close>
  "checkStreamingState E t h =
     (case streamingMessageId (store h) of
        None \<Rightarrow> h\<lparr>lastStreamingCheckRef := None\<rparr>
      | Some i \<Rightarrow>
          if i = [] then h\<lparr>lastStreamingCheckRef := None\<rparr>
          else
            (case find_message i (store h) of
               None \<Rightarrow> h\<lparr>lastStreamingCheckRef := None\<rparr>
             | Some streamingMessage \<Rightarrow>
                 if \<not> isStreaming streamingMessage then h\<lparr>lastStreamingCheckRef := None\<rparr>
                 else
                   (case lastStreamingCheckRef h of
                      None \<Rightarrow>
                        h\<lparr>lastStreamingCheckRef :=
                            Some \<lparr>messageId = msg_id streamingMessage,
                                  content = msg_text streamingMessage,
                                  lastUpdateTime = t\<rparr>\<rparr>
                    | Some lastCheck \<Rightarrow>
                        if msg_id streamingMessage = messageId lastCheck
                           \<and> msg_text streamingMessage = content lastCheck
                        then (if t - lastUpdateTime lastCheck > 30000
                              then repair_zombie E streamingMessage h
                              else h)
                        else h\<lparr>lastStreamingCheckRef :=
                                 Some \<lparr>messageId = msg_id streamingMessage,
                                       content = msg_text streamingMessage,
                                       lastUpdateTime = t\<rparr>\<rparr>)))"

fun run_checks :: "env \<Rightarrow> int list \<Rightarrow> hook \<Rightarrow> hook" where
  \<comment> \<open>The interval callback at each of the given times, nothing else running in between.\<close>
  "run_checks E [] h = h"
| "run_checks E (t # ts) h = run_checks E ts (checkStreamingState E t h)"

subsection \<open>\<^verbatim>\<open>handleStopProcessing\<close>\<close>

definition urlIndicatesNew :: "hook \<Rightarrow> bool" where
  "urlIndicatesNew h = (location h = ''/chat/new'' \<or> str_includes (location h) ''/chat/temp-'')"

definition recentUserMessage :: "ChatState \<Rightarrow> ChatMessage option" where
  \<comment> \<open>\<^verbatim>\<open>messages.filter(m => m.isUser && m.persistenceStatus !== 'saved' && !m.db_id).pop()\<close>\<close>
  "recentUserMessage st =
     (case rev (filter (\<lambda>m. isUser m \<and> unsaved m) (messages st)) of
        [] \<Rightarrow> None
      | m # ms \<Rightarrow> Some m)"

definition save_recent_user_message :: "env \<Rightarrow> string option \<Rightarrow> string \<Rightarrow> hook \<Rightarrow> hook" where
  \<comment> \<open>The unsaved user message is saved only in a new conversation; a rejection is logged.\<close>
  "save_recent_user_message E dify conv h =
     (case recentUserMessage (store h) of
        None \<Rightarrow> h
      | Some m \<Rightarrow>
          if urlIndicatesNew h \<or> \<not> present dify then snd (save E m conv h) else h)"

definition stopped_metadata :: "env \<Rightarrow> ChatMessage \<Rightarrow> jsval" where
  \<comment> \<open>\<^verbatim>\<open>{ ...(m.metadata || {}), stopped_manually: true, stopped_at: new Date().toISOString() }\<close>\<close>
  "stopped_metadata E m =
     Obj (AList.update ''stopped_at'' (Str (isoNow E))
           (AList.update ''stopped_manually'' (Bool True)
             (spread (js_or (metadata m) (Obj [])))))"

definition save_user_message_after_lookup :: "env \<Rightarrow> string option \<Rightarrow> hook \<Rightarrow> hook" where
  \<comment> \<open>The \<^verbatim>\<open>else if (difyConversationId)\<close> branch: the database id is looked up first.\<close>
  "save_user_message_after_lookup E dify h =
     (case dify of
        None \<Rightarrow> h
      | Some d \<Rightarrow>
          if d = [] then h
          else (case lookupConversation E d h of
                  (Returns (success (Some c)), h1) \<Rightarrow>
                    save_recent_user_message E dify (conv_id c) h1
                | (r, h1) \<Rightarrow> h1))"

definition note_stream_completed :: "hook \<Rightarrow> hook" where
  \<comment> \<open>\<^verbatim>\<open>isNewConversationFlow = urlIndicatesNew && !currentConvId\<close>, then
      \<^verbatim>\<open>if (isNewConversationFlow && currentConvId) updatePendingStatus(...)\<close>.\<close>
  "note_stream_completed h =
     (let currentConvId = currentConversationId (store h);
          isNewConversationFlow = (urlIndicatesNew h \<and> \<not> present currentConvId)
      in case currentConvId of
           None \<Rightarrow> h
         | Some c \<Rightarrow>
             if isNewConversationFlow \<and> c \<noteq> []
             then log_effect (UpdatePendingStatus c ''stream_completed_title_pending'') h
             else h)"

definition stop_remote_task :: "env \<Rightarrow> string \<Rightarrow> string option \<Rightarrow> hook \<Rightarrow> hook" where
  \<comment> \<open>The remote stop is tried only with an app configuration and a task id; the task id
      is cleared when the call succeeds, kept when it throws, and cleared without a call when
      there is no configuration.\<close>
  "stop_remote_task E usr task h =
     (let appConfig = (if present (currentAppId E) \<and> currentAppInstance E then currentAppId E
                       else None)
      in case task of
           None \<Rightarrow> h
         | Some t \<Rightarrow>
             if t = [] then h
             else (case appConfig of
                     Some app \<Rightarrow>
                       (let h1 = log_effect (StopDifyStreamingTask app t usr) h
                        in if stopDifyStreamingTask E app t usr
                           then on_store (setCurrentTaskId None) h1
                           else h1)
                   | None \<Rightarrow> on_store (setCurrentTaskId None) h))"

definition mark_stopped_message :: "env \<Rightarrow> string \<Rightarrow> hook \<Rightarrow> hook" where
  \<comment> \<open>The stopped message gets the stop marks in its metadata and is set pending; its save
      is left to \<^verbatim>\<open>handleSubmit\<close>.\<close>
  "mark_stopped_message E currentStreamingId h =
     (case find_message currentStreamingId (store h) of
        None \<Rightarrow> h
      | Some assistantMessage \<Rightarrow>
          on_store (updateMessage currentStreamingId
            (\<lambda>m. m\<lparr>metadata := stopped_metadata E assistantMessage,
                   wasManuallyStopped := True,
                   persistenceStatus := Some status_pending\<rparr>)) h)"

definition save_user_message_on_stop :: "env \<Rightarrow> hook \<Rightarrow> hook \<Rightarrow> hook" where
  \<comment> \<open>\<open>h0\<close> is the state the handler started from: the ids its closure holds.\<close>
  "save_user_message_on_stop E h0 h =
     (case dbConversationUUID h0 of
        None \<Rightarrow> save_user_message_after_lookup E (difyConversationId h0) h
      | Some currentDbConvId \<Rightarrow>
          if currentDbConvId \<noteq> []
          then save_recent_user_message E (difyConversationId h0) currentDbConvId h
          else save_user_message_after_lookup E (difyConversationId h0) h)"

definition stop_streaming :: "env \<Rightarrow> hook \<Rightarrow> string \<Rightarrow> string \<Rightarrow> string option \<Rightarrow> hook \<Rightarrow> hook" where
  \<comment> \<open>The \<^verbatim>\<open>if (currentStreamingId)\<close> block; \<open>h0\<close> is the state the handler started from,
      \<open>usr\<close> the id of the signed-in user, \<open>task\<close> the task id read from the store.\<close>
  "stop_streaming E h0 usr currentStreamingId task h =
     (let h1 = clear_append_timer h;
          h2 = flushChunkBuffer (Some currentStreamingId) h1;
          h3 = on_store (markAsManuallyStopped currentStreamingId) h2;
          h4 = note_stream_completed h3;
          h5 = stop_remote_task E usr task h4;
          h6 = mark_stopped_message E currentStreamingId h5
      in save_user_message_on_stop E h0 h6)"

definition looks_finished :: "ChatState \<Rightarrow> ChatMessage option" where
  \<comment> \<open>The streaming message, when \<^verbatim>\<open>handleStopProcessing\<close> takes its stream to have ended
      without the state saying so: the message has text that is not blank and the store has
      no task id.\<close>
  "looks_finished st =
     (case streamingMessageId st of
        None \<Rightarrow> None
      | Some i \<Rightarrow>
          if i = [] then None
          else (case find_message i st of
                  None \<Rightarrow> None
                | Some streamingMessage \<Rightarrow>
                    if isStreaming streamingMessage \<and> trim (msg_text streamingMessage) \<noteq> []
                       \<and> \<not> present (currentTaskId st)
                    then Some streamingMessage
                    else None))"

definition repair_on_stop :: "env \<Rightarrow> ChatMessage \<Rightarrow> hook \<Rightarrow> hook" where
  \<comment> \<open>What \<^verbatim>\<open>handleStopProcessing\<close> does instead of stopping when the stream looks finished.\<close>
  "repair_on_stop E streamingMessage h =
     (let h1 = on_store (finalizeStreamingMessage (msg_id streamingMessage)) h;
          h2 = on_store (setIsWaitingForResponse False) h1;
          h3 = (case dbConversationUUID h of
                  None \<Rightarrow> h2
                | Some currentDbConvId \<Rightarrow>
                    if currentDbConvId \<noteq> [] \<and> unsaved streamingMessage
                    then save_or_mark_error E streamingMessage currentDbConvId h2
                    else h2)
      in h3\<lparr>isSubmittingRef := False\<rparr>)"

definition handleStopProcessing :: "env \<Rightarrow> hook \<Rightarrow> hook" where
  "handleStopProcessing E h =
     (case looks_finished (store h) of
        Some streamingMessage \<Rightarrow> repair_on_stop E streamingMessage h
      | None \<Rightarrow>
          (case currentUserId E of
             None \<Rightarrow> h
           | Some usr \<Rightarrow>
               if usr = [] then h
               else
                 (let h1 = (case streamingMessageId (store h) of
                              None \<Rightarrow> h
                            | Some i \<Rightarrow>
                                if i = [] then h
                                else stop_streaming E h usr i (currentTaskId (store h)) h)
                  in (on_store (setIsWaitingForResponse False) h1)\<lparr>isSubmittingRef := False\<rparr>)))"

subsection \<open>\<^verbatim>\<open>handleSubmit\<close>: the run of one submission\<close>

definition msg_unknown_error :: string where
  \<comment> \<open>UTF-8 bytes of the source literal (\<open>unknown error\<close>)\<close>
  "msg_unknown_error = [CHR 0xE6, CHR 0x9C, CHR 0xAA, CHR 0xE7, CHR 0x9F, CHR 0xA5, CHR 0xE9,
     CHR 0x94, CHR 0x99, CHR 0xE8, CHR 0xAF, CHR 0xAF]"

definition msg_app_config_failed :: string where
  \<comment> \<open>UTF-8 bytes of the source literal (\<open>failed to get the app configuration\<close>)\<close>
  "msg_app_config_failed = [CHR 0xE5, CHR 0xBA, CHR 0x94, CHR 0xE7, CHR 0x94, CHR 0xA8,
     CHR 0xE9, CHR 0x85, CHR 0x8D, CHR 0xE7, CHR 0xBD, CHR 0xAE, CHR 0xE8, CHR 0x8E, CHR 0xB7,
     CHR 0xE5, CHR 0x8F, CHR 0x96, CHR 0xE5, CHR 0xA4, CHR 0xB1, CHR 0xE8, CHR 0xB4, CHR 0xA5]"

definition txt_app_config_prefix :: string where
  \<comment> \<open>UTF-8 bytes of the source literal (\<open>Sorry, the app configuration could not be fetched: \<close>)\<close>
  "txt_app_config_prefix = [CHR 0xE6, CHR 0x8A, CHR 0xB1, CHR 0xE6, CHR 0xAD, CHR 0x89,
     CHR 0xEF, CHR 0xBC, CHR 0x8C, CHR 0xE6, CHR 0x97, CHR 0xA0, CHR 0xE6, CHR 0xB3, CHR 0x95,
     CHR 0xE8, CHR 0x8E, CHR 0xB7, CHR 0xE5, CHR 0x8F, CHR 0x96, CHR 0xE5, CHR 0xBA, CHR 0x94,
     CHR 0xE7, CHR 0x94, CHR 0xA8, CHR 0xE9, CHR 0x85, CHR 0x8D, CHR 0xE7, CHR 0xBD,
     CHR 0xAE] @ '': ''"

definition txt_app_config_suffix :: string where
  \<comment> \<open>UTF-8 bytes of the source literal (\<open>. Please check the network connection or contact the administrator.\<close>)\<close>
  "txt_app_config_suffix = [CHR 0xE3, CHR 0x80, CHR 0x82, CHR 0xE8, CHR 0xAF, CHR 0xB7,
     CHR 0xE6, CHR 0xA3, CHR 0x80, CHR 0xE6, CHR 0x9F, CHR 0xA5, CHR 0xE7, CHR 0xBD, CHR 0x91,
     CHR 0xE7, CHR 0xBB, CHR 0x9C, CHR 0xE8, CHR 0xBF, CHR 0x9E, CHR 0xE6, CHR 0x8E, CHR 0xA5,
     CHR 0xE6, CHR 0x88, CHR 0x96, CHR 0xE8, CHR 0x81, CHR 0x94, CHR 0xE7, CHR 0xB3, CHR 0xBB,
     CHR 0xE7, CHR 0xAE, CHR 0xA1, CHR 0xE7, CHR 0x90, CHR 0x86, CHR 0xE5, CHR 0x91, CHR 0x98,
     CHR 0xE3, CHR 0x80, CHR 0x82]"

definition txt_stream_error_prefix :: string where
  \<comment> \<open>UTF-8 bytes of the source literal (\<open>Sorry, an error occurred while handling your request: \<close>)\<close>
  "txt_stream_error_prefix = [CHR 0xE6, CHR 0x8A, CHR 0xB1, CHR 0xE6, CHR 0xAD, CHR 0x89,
     CHR 0xEF, CHR 0xBC, CHR 0x8C, CHR 0xE5, CHR 0xA4, CHR 0x84, CHR 0xE7, CHR 0x90, CHR 0x86,
     CHR 0xE6, CHR 0x82, CHR 0xA8, CHR 0xE7, CHR 0x9A, CHR 0x84, CHR 0xE8, CHR 0xAF, CHR 0xB7,
     CHR 0xE6, CHR 0xB1, CHR 0x82, CHR 0xE6, CHR 0x97, CHR 0xB6, CHR 0xE5, CHR 0x8F, CHR 0x91,
     CHR 0xE7, CHR 0x94, CHR 0x9F, CHR 0xE9, CHR 0x94, CHR 0x99, CHR 0xE8, CHR 0xAF,
     CHR 0xAF] @ '': ''"

definition txt_reply_failed_prefix :: string where
  \<comment> \<open>UTF-8 bytes of the source literal (\<open>Assistant reply failed: \<close>)\<close>
  "txt_reply_failed_prefix = [CHR 0xE5, CHR 0x8A, CHR 0xA9, CHR 0xE6, CHR 0x89, CHR 0x8B,
     CHR 0xE5, CHR 0x9B, CHR 0x9E, CHR 0xE5, CHR 0xA4, CHR 0x8D, CHR 0xE5, CHR 0xA4, CHR 0xB1,
     CHR 0xE8, CHR 0xB4, CHR 0xA5] @ '': ''"

definition field :: "(string \<times> jsval) list \<Rightarrow> string \<Rightarrow> jsval" where
  \<comment> \<open>\<^verbatim>\<open>o.key\<close> on an object: \<^verbatim>\<open>undefined\<close> for a key it does not have.\<close>
  "field kvs k = (case map_of kvs k of None \<Rightarrow> Undefined | Some v \<Rightarrow> v)"

fun opt_get :: "jsval \<Rightarrow> string \<Rightarrow> jsval" where
  \<comment> \<open>\<^verbatim>\<open>v?.key\<close>, and \<^verbatim>\<open>v.key\<close> on a value known not to be \<^verbatim>\<open>null\<close> or \<^verbatim>\<open>undefined\<close>.\<close>
  "opt_get (Obj kvs) k = field kvs k"
| "opt_get v k = Undefined"

definition when_present :: "string option \<Rightarrow> (string \<Rightarrow> 'a \<Rightarrow> 'a) \<Rightarrow> 'a \<Rightarrow> 'a" where
  \<comment> \<open>\<^verbatim>\<open>if (x) { f(x) }\<close> for a \<^verbatim>\<open>string | null | undefined\<close>.\<close>
  "when_present x f s = (case x of None \<Rightarrow> s | Some v \<Rightarrow> if v = [] then s else f v s)"

text \<open>
  The variables of one call of \<^verbatim>\<open>handleSubmit\<close> (\<^verbatim>\<open>let\<close> in the source) together with the
  hook's state, and what the call fixes before its \<^verbatim>\<open>try\<close>: the signed-in user, the app,
  the message, the user message as \<^verbatim>\<open>addMessage\<close> returned it, and the React state its
  closure holds (the setters take effect at the next render).
\<close>

record run =
  hk :: hook
  assistantMessageId :: "string option"
  finalRealConvId :: "string option"
  finalTaskId :: "string option"
  finalDbConvUUID :: "string option"
  lastAppendTime :: int
  hasAnswerStream :: bool
  hasCompletionPromise :: bool
  broke :: bool  \<comment> \<open>the stream loop was left by \<^verbatim>\<open>break\<close>\<close>
  lateLookup :: bool  \<comment> \<open>the last lookup of the database id, not awaited, was started\<close>

record submission =
  user :: string
  appId :: string
  message :: string
  difyFiles :: jsval
  inputs :: jsval
  userMessage :: ChatMessage
  isNewConversationFlow :: bool
  closureDifyConversationId :: "string option"
  closureDbConversationUUID :: "string option"

definition in_hook :: "(hook \<Rightarrow> hook) \<Rightarrow> run \<Rightarrow> run" where
  "in_hook f r = r\<lparr>hk := f (hk r)\<rparr>"

definition setDbConversationUUID :: "string option \<Rightarrow> hook \<Rightarrow> hook" where
  "setDbConversationUUID v h = h\<lparr>dbConversationUUID := v\<rparr>"

definition setDifyConversationId :: "string option \<Rightarrow> hook \<Rightarrow> hook" where
  "setDifyConversationId v h = h\<lparr>difyConversationId := v\<rparr>"

definition save_logged :: "env \<Rightarrow> ChatMessage \<Rightarrow> string \<Rightarrow> hook \<Rightarrow> hook" where
  \<comment> \<open>\<^verbatim>\<open>saveMessage(m, conv).catch(err => console.error(...))\<close>: a rejection is only logged.\<close>
  "save_logged E m c h = snd (save E m c h)"

definition chat_path :: "string \<Rightarrow> string" where
  \<comment> \<open>\<^verbatim>\<open>`/chat/${id}`\<close>\<close>
  "chat_path i = ''/chat/'' @ i"

subsubsection \<open>App selection (before anything is changed)\<close>

definition select_app :: "env \<Rightarrow> hook \<Rightarrow> string outcome \<times> hook" where
  \<comment> \<open>A conversation with an app of its own validates that app first.\<close>
  "select_app E h =
     (case conversationAppId h of
        None \<Rightarrow> (ensureAppReady E, log_effect EnsureAppReady h)
      | Some a \<Rightarrow>
          if a = [] then (ensureAppReady E, log_effect EnsureAppReady h)
          else (let h1 = log_effect (ValidateConfig a ''message'') h
                in case validateConfig E a of
                     Throws e \<Rightarrow> (Throws e, h1)
                   | Returns u \<Rightarrow> (ensureAppReady E, log_effect EnsureAppReady h1)))"

definition app_error_message :: "thrown \<Rightarrow> string" where
  \<comment> \<open>\<^verbatim>\<open>error instanceof Error ? error.message : ...\<close>\<close>
  "app_error_message e = (case e of ErrorObj m \<Rightarrow> m | Thrown v \<Rightarrow> msg_app_config_failed)"

definition report_app_error :: "env \<Rightarrow> thrown \<Rightarrow> hook \<Rightarrow> hook" where
  "report_app_error E e h =
     (let errorMessage = app_error_message e
      in on_store (\<lambda>st. snd (addMessage (newErrorMessageId E)
              ((new_message (txt_app_config_prefix @ errorMessage @ txt_app_config_suffix) False)
                 \<lparr>msg_error := Some errorMessage, persistenceStatus := Some status_error\<rparr>) st)) h)"

subsubsection \<open>Before the \<^verbatim>\<open>try\<close>\<close>

definition messageAttachments :: "(string \<times> jsval) list list option \<Rightarrow> jsval" where
  "messageAttachments files =
     (case files of
        None \<Rightarrow> Undefined
      | Some [] \<Rightarrow> Undefined
      | Some fs \<Rightarrow>
          Arr (map (\<lambda>file. Obj [(''id'', field file ''upload_file_id''),
                               (''name'', field file ''name''),
                               (''size'', field file ''size''),
                               (''type'', field file ''mime_type''),
                               (''upload_file_id'', field file ''upload_file_id'')]) fs))"

definition to_difyFiles :: "(string \<times> jsval) list list option \<Rightarrow> jsval" where
  "to_difyFiles files =
     (case files of
        None \<Rightarrow> Undefined
      | Some [] \<Rightarrow> Undefined
      | Some fs \<Rightarrow>
          Arr (map (\<lambda>file. Obj [(''type'', Str ''document''),
                               (''transfer_method'', Str ''local_file''),
                               (''upload_file_id'', field file ''upload_file_id'')]) fs))"

definition leave_welcome_screen :: "env \<Rightarrow> hook \<Rightarrow> hook" where
  "leave_welcome_screen E h =
     (if isWelcomeScreen E
      then (let h1 = log_effect (SetIsWelcomeScreen False) h
            in if location h1 = ''/chat/new''
               then (let p = ''/chat/temp-'' @ decimal (nat (dateNow E))
                     in (log_effect (HistoryReplaceState p) h1)\<lparr>location := p\<rparr>)
               else h1)
      else h)"

definition begin_submission ::
  "env \<Rightarrow> string \<Rightarrow> string \<Rightarrow> string \<Rightarrow> (string \<times> jsval) list list option \<Rightarrow> jsval \<Rightarrow> hook
     \<Rightarrow> submission \<times> run" where
  \<comment> \<open>From \<^verbatim>\<open>isSubmittingRef.current = true\<close> to the \<^verbatim>\<open>try\<close>; \<open>h\<close> is also the state the
      closure of this call holds.\<close>
  "begin_submission E usr app msg files inp h =
     (let h1 = h\<lparr>isSubmittingRef := True\<rparr>;
          h2 = on_store (setIsWaitingForResponse True) h1;
          (userMsg, st) =
            addMessage (newUserMessageId E)
              ((new_message msg True)
                 \<lparr>attachments := messageAttachments files,
                  persistenceStatus := Some status_pending\<rparr>) (store h2);
          h3 = h2\<lparr>store := st\<rparr>;
          h4 = leave_welcome_screen E h3;
          h5 = on_store (setCurrentTaskId None) h4;
          isNew = (urlIndicatesNew h5 \<or> \<not> present (difyConversationId h));
          h6 = (if isNew
                then (let h' = (if difyConversationId h \<noteq> None
                                then setDifyConversationId None h5 else h5)
                      in if urlIndicatesNew h' \<and> currentConversationId (store h') \<noteq> None
                         then on_store (setCurrentConversationId None) h'
                         else h')
                else h5);
          h7 = h6\<lparr>chunkBufferRef := []\<rparr>
      in (\<lparr>user = usr, appId = app, message = msg, difyFiles = to_difyFiles files,
           inputs = js_or inp (Obj []), userMessage = userMsg, isNewConversationFlow = isNew,
           closureDifyConversationId = difyConversationId h,
           closureDbConversationUUID = dbConversationUUID h\<rparr>,
          \<lparr>hk = h7, assistantMessageId = None, finalRealConvId = None, finalTaskId = None,
           finalDbConvUUID = None, lastAppendTime = dateNow E, hasAnswerStream = False,
           hasCompletionPromise = False, broke = False, lateLookup = False\<rparr>))"

subsubsection \<open>Opening the stream\<close>

definition adopt_found_conversation :: "env \<Rightarrow> string \<Rightarrow> bool \<Rightarrow> run \<Rightarrow> run" where
  \<comment> \<open>\<^verbatim>\<open>getConversationByExternalId(id)\<close>, awaited inside its own \<^verbatim>\<open>try\<close>: a record found gives
      the database id; otherwise \<^verbatim>\<open>finalDbConvUUID\<close> is reset when \<open>reset\<close> holds and kept when
      it does not (the source has both forms).\<close>
  "adopt_found_conversation E i reset r =
     (let (result, h1) = lookupConversation E i (hk r)
      in case result of
           Returns (success (Some c)) \<Rightarrow>
             r\<lparr>hk := setDbConversationUUID (Some (conv_id c)) h1,
               finalDbConvUUID := Some (conv_id c)\<rparr>
         | other \<Rightarrow>
             (if reset then r\<lparr>hk := h1, finalDbConvUUID := None\<rparr> else r\<lparr>hk := h1\<rparr>))"

definition route_to_conversation :: "env \<Rightarrow> string \<Rightarrow> hook \<Rightarrow> hook" where
  \<comment> \<open>\<^verbatim>\<open>if (currentPathname !== `/chat/${id}`) router.replace(`/chat/${id}`, { scroll: false })\<close>\<close>
  "route_to_conversation E i h =
     (if currentPathname E \<noteq> Some (chat_path i) then log_effect (RouterReplace (chat_path i)) h
      else h)"

definition new_conversation_payload :: "submission \<Rightarrow> jsval" where
  "new_conversation_payload S =
     Obj ([(''query'', Str (message S)), (''user'', Str (user S)), (''inputs'', inputs S)]
          @ (if truthy (difyFiles S) then [(''files'', difyFiles S)] else []))"

definition on_db_id :: "env \<Rightarrow> submission \<Rightarrow> string \<Rightarrow> run \<Rightarrow> run" where
  \<comment> \<open>The callback handed to \<^verbatim>\<open>initiateNewConversation\<close>: it receives the database id.\<close>
  "on_db_id E S dbId r =
     (let r1 = r\<lparr>hk := setDbConversationUUID (Some dbId) (hk r), finalDbConvUUID := Some dbId\<rparr>
      in if persistenceStatus (userMessage S) \<noteq> Some status_saved
         then in_hook (save_logged E (userMessage S) dbId) r1
         else r1)"

definition adopt_creation_result :: "env \<Rightarrow> stream_handle \<Rightarrow> run \<Rightarrow> run" where
  \<comment> \<open>What \<^verbatim>\<open>initiateNewConversation\<close> returned: the stream, the new conversation's id, the
      task id, the completion promise; the store and the route follow the new id, and the
      database id is looked up.\<close>
  "adopt_creation_result E creationResult r =
     (let r1 = r\<lparr>hasAnswerStream := answerStream creationResult,
                  finalRealConvId := realConvId creationResult,
                  finalTaskId := taskId creationResult,
                  hasCompletionPromise := completionPromise creationResult\<rparr>;
          r2 = when_present (finalRealConvId r1)
                 (\<lambda>i r.
                    (let ra = (if currentConversationId (store (hk r)) \<noteq> Some i
                               then in_hook (on_store (setCurrentConversationId (Some i))) r
                               else r);
                         rb = in_hook (route_to_conversation E i) ra
                     in adopt_found_conversation E i True rb)) r1
      in when_present (finalTaskId r2)
           (\<lambda>t. in_hook (on_store (setCurrentTaskId (Some t)))) r2)"

definition open_new_conversation :: "env \<Rightarrow> submission \<Rightarrow> run \<Rightarrow> thrown option \<times> run" where
  "open_new_conversation E S r =
     (let r0 = in_hook (log_effect
                  (InitiateNewConversation (new_conversation_payload S) (appId S) (user S))) r;
          r1 = (case dbIdCallback E of
                  None \<Rightarrow> r0
                | Some (difyId, dbId) \<Rightarrow> on_db_id E S dbId r0)
      in case initiateNewConversation E of
           Throws e \<Rightarrow> (Some e, r1)
         | Returns creationResult \<Rightarrow>
             (case open_error creationResult of
                Some e \<Rightarrow> (Some e, r1)
              | None \<Rightarrow> (None, adopt_creation_result E creationResult r1)))"

definition existing_conversation_payload :: "submission \<Rightarrow> jsval" where
  "existing_conversation_payload S =
     Obj ([(''query'', Str (message S)), (''inputs'', inputs S)]
          @ (if truthy (difyFiles S) then [(''files'', difyFiles S)] else [])
          @ [(''user'', Str (user S)),
             (''response_mode'', Str ''streaming''),
             (''conversation_id'', (case closureDifyConversationId S of
                                      None \<Rightarrow> Null | Some i \<Rightarrow> Str i)),
             (''auto_generate_name'', Bool False)])"

definition on_conversation_id :: "env \<Rightarrow> submission \<Rightarrow> string option \<Rightarrow> run \<Rightarrow> run" where
  \<comment> \<open>The callback handed to \<^verbatim>\<open>streamDifyChat\<close>: it receives the conversation id the
      stream reports.\<close>
  "on_conversation_id E S newlyFetchedConvId r =
     when_present newlyFetchedConvId
       (\<lambda>i r.
          if closureDifyConversationId S \<noteq> Some i
          then (let ra = in_hook (setDifyConversationId (Some i)) r;
                    rb = in_hook (on_store (setCurrentConversationId (Some i))) ra;
                    rc = in_hook (route_to_conversation E i) rb
                in if \<not> present (finalDbConvUUID rc)
                   then adopt_found_conversation E i False rc
                   else rc)
          else r) r"

definition find_existing_db_id :: "env \<Rightarrow> submission \<Rightarrow> run \<Rightarrow> run" where
  \<comment> \<open>The database id of an existing conversation: the one the hook holds, or else the one
      of the record found by the Dify id.\<close>
  "find_existing_db_id E S r =
     (if present (closureDbConversationUUID S)
      then r\<lparr>finalDbConvUUID := closureDbConversationUUID S\<rparr>
      else when_present (closureDifyConversationId S)
             (\<lambda>i. adopt_found_conversation E i True) r)"

definition save_user_message_early :: "env \<Rightarrow> submission \<Rightarrow> run \<Rightarrow> run" where
  \<comment> \<open>In an existing conversation the user message is saved before the stream starts.\<close>
  "save_user_message_early E S r =
     when_present (finalDbConvUUID r)
       (\<lambda>c r. if persistenceStatus (userMessage S) \<noteq> Some status_saved
              then in_hook (save_logged E (userMessage S) c) r
              else r) r"

definition adopt_stream_response :: "env \<Rightarrow> submission \<Rightarrow> stream_handle \<Rightarrow> run \<Rightarrow> run" where
  \<comment> \<open>What \<^verbatim>\<open>streamDifyChat\<close> returned: the stream, the conversation id (or the one the
      hook holds), the task id, the completion promise; then the ids are brought up to date.\<close>
  "adopt_stream_response E S streamServiceResponse r =
     (let r1 = r\<lparr>hasAnswerStream := answerStream streamServiceResponse,
                  finalRealConvId :=
                    (if present (realConvId streamServiceResponse)
                     then realConvId streamServiceResponse
                     else if present (closureDifyConversationId S)
                     then closureDifyConversationId S
                     else None),
                  finalTaskId :=
                    (if present (taskId streamServiceResponse)
                     then taskId streamServiceResponse
                     else None),
                  hasCompletionPromise := completionPromise streamServiceResponse\<rparr>;
          r2 = when_present (finalRealConvId r1)
                 (\<lambda>i r.
                    if Some i \<noteq> closureDifyConversationId S
                    then (let ra = in_hook (setDifyConversationId (Some i)) r
                          in if \<not> present (finalDbConvUUID ra)
                             then adopt_found_conversation E i False ra
                             else ra)
                    else r) r1
      in when_present (finalTaskId r2)
           (\<lambda>t r. if currentTaskId (store (hk r)) \<noteq> Some t
                  then in_hook (on_store (setCurrentTaskId (Some t))) r
                  else r) r2)"

definition open_existing_conversation :: "env \<Rightarrow> submission \<Rightarrow> run \<Rightarrow> thrown option \<times> run" where
  "open_existing_conversation E S r =
     (let r1 = find_existing_db_id E S r;
          r2 = save_user_message_early E S r1;
          r3 = in_hook (log_effect
                  (StreamDifyChat (existing_conversation_payload S) (appId S))) r2;
          r4 = on_conversation_id E S (conversationIdCallback E) r3
      in case streamDifyChat E of
           Throws e \<Rightarrow> (Some e, r4)
         | Returns streamServiceResponse \<Rightarrow>
             (None, adopt_stream_response E S streamServiceResponse r4))"

definition open_stream :: "env \<Rightarrow> submission \<Rightarrow> run \<Rightarrow> thrown option \<times> run" where
  \<comment> \<open>The head of the \<^verbatim>\<open>try\<close>, up to the test that there is a stream.\<close>
  "open_stream E S r =
     (case (if isNewConversationFlow S then open_new_conversation E S r
            else open_existing_conversation E S r) of
        (Some e, r1) \<Rightarrow> (Some e, r1)
      | (None, r1) \<Rightarrow>
          if \<not> hasAnswerStream r1
          then (Some (ErrorObj ''Answer stream is undefined after API call.''), r1)
          else (None, r1))"

subsubsection \<open>Reading the stream\<close>

definition start_assistant_message :: "env \<Rightarrow> submission \<Rightarrow> run \<Rightarrow> run" where
  \<comment> \<open>The first chunk creates the assistant message, streaming and empty, with no
      \<^verbatim>\<open>persistenceStatus\<close>, and makes it the store's streaming message.\<close>
  "start_assistant_message E S r =
     (let (assistantMessage, st) =
            addMessage (newAssistantMessageId E)
              ((new_message [] False)\<lparr>isStreaming := True\<rparr>) (store (hk r));
          h1 = (hk r)\<lparr>store := st\<lparr>streamingMessageId := Some (msg_id assistantMessage)\<rparr>\<rparr>;
          h2 = on_store (setIsWaitingForResponse False) h1;
          h3 = (if isNewConversationFlow S
                then when_present (finalRealConvId r)
                       (\<lambda>i. log_effect (UpdatePendingStatus i ''streaming_message'')) h2
                else h2)
      in r\<lparr>hk := h3, assistantMessageId := Some (msg_id assistantMessage)\<rparr>)"

definition buffer_chunk :: "string \<Rightarrow> string \<Rightarrow> int \<Rightarrow> int \<Rightarrow> run \<Rightarrow> run" where
  \<comment> \<open>The chunk joins the buffer; the buffer is flushed when 30 ms have passed since the
      last append, or it holds a line feed, or it is longer than 200; otherwise the append
      timer is set unless the ref holds one.\<close>
  "buffer_chunk i answerChunk t_test t_flushed r =
     (let h1 = (hk r)\<lparr>chunkBufferRef := chunkBufferRef (hk r) @ answerChunk\<rparr>
      in if t_test - lastAppendTime r \<ge> CHUNK_APPEND_INTERVAL
            \<or> CHR 0x0A \<in> set (chunkBufferRef h1)
            \<or> js_length (chunkBufferRef h1) > 200
         then r\<lparr>hk := flushChunkBuffer (Some i) h1, lastAppendTime := t_flushed\<rparr>
         else if \<not> appendTimerRef h1
         then r\<lparr>hk := h1\<lparr>appendTimerRef := True, timerPending := True\<rparr>\<rparr>
         else r\<lparr>hk := h1\<rparr>)"

definition stopped_externally :: "string \<Rightarrow> run \<Rightarrow> run" where
  \<comment> \<open>The store streams another message, or none: the loop marks its message as stopped
      unless it is marked already, and breaks.\<close>
  "stopped_externally i r =
     (let r1 = (case find_message i (store (hk r)) of
                  Some m \<Rightarrow>
                    if wasManuallyStopped m then r
                    else in_hook (on_store (markAsManuallyStopped i)) r
                | None \<Rightarrow> in_hook (on_store (markAsManuallyStopped i)) r)
      in r1\<lparr>broke := True\<rparr>)"

definition on_chunk :: "env \<Rightarrow> submission \<Rightarrow> string \<Rightarrow> int \<Rightarrow> int \<Rightarrow> run \<Rightarrow> run" where
  \<comment> \<open>The body of the \<^verbatim>\<open>for await\<close> loop, for one chunk.\<close>
  "on_chunk E S answerChunk t_test t_flushed r =
     (let r1 = (if streamingMessageId (store (hk r)) = None \<and> assistantMessageId r = None
                then start_assistant_message E S r
                else r)
      in when_present (assistantMessageId r1)
           (\<lambda>i r. if streamingMessageId (store (hk r)) = Some i
                  then buffer_chunk i answerChunk t_test t_flushed r
                  else stopped_externally i r) r1)"

definition on_timer :: "int \<Rightarrow> run \<Rightarrow> run" where
  \<comment> \<open>The callback of the append timer, when the timeout is still pending.\<close>
  "on_timer t r =
     (if timerPending (hk r)
      then r\<lparr>hk := flushChunkBuffer (assistantMessageId r) ((hk r)\<lparr>timerPending := False\<rparr>),
             lastAppendTime := t\<rparr>
      else r)"

fun stream_step :: "env \<Rightarrow> submission \<Rightarrow> stream_event \<Rightarrow> run \<Rightarrow> run" where
  "stream_step E S (Chunk answerChunk t_test t_flushed) r = on_chunk E S answerChunk t_test t_flushed r"
| "stream_step E S (TimerFired t) r = on_timer t r"
| "stream_step E S StopPressed r = in_hook (handleStopProcessing E) r"

fun stream_loop :: "env \<Rightarrow> submission \<Rightarrow> stream_event list \<Rightarrow> run \<Rightarrow> run" where
  \<comment> \<open>\<^verbatim>\<open>for await (const answerChunk of answerStream)\<close>, with what happens between chunks.\<close>
  "stream_loop E S [] r = r"
| "stream_loop E S (e # es) r =
     (let r1 = stream_step E S e r in if broke r1 then r1 else stream_loop E S es r1)"

definition read_stream :: "env \<Rightarrow> submission \<Rightarrow> run \<Rightarrow> thrown option \<times> run" where
  \<comment> \<open>The loop, then the flush of what the buffer still holds. A stream that fails throws
      after its last event, unless the loop was left before.\<close>
  "read_stream E S r =
     (let r1 = stream_loop E S (answerChunks E) r
      in case (if broke r1 then None else streamFailure E) of
           Some e \<Rightarrow> (Some e, r1)
         | None \<Rightarrow> (None, in_hook (flushChunkBuffer (assistantMessageId r1)) r1))"

subsubsection \<open>After the stream\<close>

definition enhancedMetadata :: "ChatMessage option \<Rightarrow> jsval \<Rightarrow> jsval" where
  \<comment> \<open>The metadata of the assistant message, with what Dify reported at the end of the
      stream; \<open>existingMessage\<close> is \<open>None\<close> when the store no longer has the message.\<close>
  "enhancedMetadata existingMessage completionData =
     (let old = (case existingMessage of None \<Rightarrow> Undefined | Some m \<Rightarrow> metadata m)
      in Obj (AList.update ''frontend_metadata''
                (Obj [(''stopped_manually'', opt_get old ''stopped_manually''),
                      (''stopped_at'', opt_get old ''stopped_at''),
                      (''attachments'', opt_get old ''attachments''),
                      (''sequence_index'', js_or (opt_get old ''sequence_index'') (Num 1))])
             (AList.update ''dify_retriever_resources''
                (js_or (opt_get completionData ''retrieverResources'') (Arr []))
             (AList.update ''dify_usage'' (js_or (opt_get completionData ''usage'') (Obj []))
             (AList.update ''dify_metadata'' (js_or (opt_get completionData ''metadata'') (Obj []))
                (spread (js_or old (Obj []))))))))"

definition apply_completion :: "env \<Rightarrow> run \<Rightarrow> run" where
  \<comment> \<open>\<^verbatim>\<open>await completionPromise\<close> inside its own \<^verbatim>\<open>try\<close>: a rejection is logged.\<close>
  "apply_completion E r =
     (if hasCompletionPromise r
      then (case completion E of
              Throws e \<Rightarrow> r
            | Returns completionData \<Rightarrow>
                when_present (assistantMessageId r)
                  (\<lambda>i r.
                     if truthy completionData
                     then (let existingMessage = find_message i (store (hk r));
                               meta = enhancedMetadata existingMessage completionData;
                               tokens = js_or (opt_get (opt_get completionData ''usage'') ''total_tokens'')
                                          (case existingMessage of
                                             None \<Rightarrow> Undefined
                                           | Some m \<Rightarrow> token_count m)
                           in in_hook (on_store (updateMessage i
                                (\<lambda>m. m\<lparr>metadata := meta, token_count := tokens,
                                       persistenceStatus := Some status_pending\<rparr>))) r)
                     else r) r)
      else r)"

definition sync_ids :: "env \<Rightarrow> submission \<Rightarrow> run \<Rightarrow> run" where
  "sync_ids E S r =
     (let r1 = when_present (finalRealConvId r)
                 (\<lambda>i r.
                    (let ra = (if closureDifyConversationId S \<noteq> Some i
                               then in_hook (setDifyConversationId (Some i)) r else r);
                         rb = (if currentConversationId (store (hk ra)) \<noteq> Some i
                               then in_hook (on_store (setCurrentConversationId (Some i))) ra
                               else ra)
                     in in_hook (route_to_conversation E i) rb)) r;
          r2 = when_present (finalTaskId r1)
                 (\<lambda>t r. if currentTaskId (store (hk r)) \<noteq> Some t
                        then in_hook (on_store (setCurrentTaskId (Some t))) r
                        else r) r1
      in if isNewConversationFlow S
         then when_present (finalRealConvId r2)
                (\<lambda>i. in_hook (log_effect (UpdatePendingStatus i ''stream_completed_title_pending''))) r2
         else r2)"

definition needsSaving :: "ChatMessage \<Rightarrow> bool" where
  "needsSaving m =
     (\<not> present (db_id m) \<and> persistenceStatus m \<noteq> Some status_saved \<and> trim (msg_text m) \<noteq> [])"

definition save_assistant_message :: "env \<Rightarrow> string \<Rightarrow> string \<Rightarrow> hook \<Rightarrow> hook" where
  \<comment> \<open>The assistant message is read from the store again, finalized when it still streams,
      and saved when it needs saving: marked pending, then \<^verbatim>\<open>saveMessage\<close>, and marked
      error when that rejects.\<close>
  "save_assistant_message E i currentDbConvId h =
     (case find_message i (store h) of
        None \<Rightarrow> h
      | Some finalAssistantMessage \<Rightarrow>
          (let h1 = (if isStreaming finalAssistantMessage
                     then on_store (finalizeStreamingMessage i) h else h)
           in if needsSaving finalAssistantMessage
              then (let h2 = on_store (updateMessage i
                               (\<lambda>m. m\<lparr>persistenceStatus := Some status_pending\<rparr>)) h1;
                        (ok, h3) = save E finalAssistantMessage currentDbConvId h2
                    in if ok then h3
                       else on_store (updateMessage i
                              (\<lambda>m. m\<lparr>persistenceStatus := Some status_error\<rparr>)) h3)
              else h1))"

definition db_id_for_saving :: "env \<Rightarrow> submission \<Rightarrow> run \<Rightarrow> string option \<times> run" where
  \<comment> \<open>\<^verbatim>\<open>finalDbConvUUID || dbConversationUUID\<close>, and one more awaited lookup when that gives
      nothing and the Dify id is known.\<close>
  "db_id_for_saving E S r =
     (let currentDbConvId = (if present (finalDbConvUUID r) then finalDbConvUUID r
                             else closureDbConversationUUID S)
      in if \<not> present currentDbConvId \<and> present (finalRealConvId r)
         then (case finalRealConvId r of
                 None \<Rightarrow> (currentDbConvId, r)
               | Some i \<Rightarrow>
                   (case lookupConversation E i (hk r) of
                      (Returns (success (Some c)), h1) \<Rightarrow>
                        (Some (conv_id c), r\<lparr>hk := setDbConversationUUID (Some (conv_id c)) h1\<rparr>)
                    | (other, h1) \<Rightarrow> (currentDbConvId, r\<lparr>hk := h1\<rparr>)))
         else (currentDbConvId, r))"

definition save_both_messages :: "env \<Rightarrow> submission \<Rightarrow> string \<Rightarrow> run \<Rightarrow> run" where
  \<comment> \<open>With a database id: the user message as \<^verbatim>\<open>addMessage\<close> returned it, unless that
      object says it is saved, then the assistant message.\<close>
  "save_both_messages E S c r =
     (let r1 = (if persistenceStatus (userMessage S) \<noteq> Some status_saved
                   \<and> \<not> present (db_id (userMessage S))
                then in_hook (save_logged E (userMessage S) c) r
                else r)
      in when_present (assistantMessageId r1)
           (\<lambda>i. in_hook (save_assistant_message E i c)) r1)"

definition persist_after_stream :: "env \<Rightarrow> submission \<Rightarrow> run \<Rightarrow> run" where
  "persist_after_stream E S r =
     (case db_id_for_saving E S r of
        (currentDbConvId, r1) \<Rightarrow>
          if present currentDbConvId
          then when_present currentDbConvId (save_both_messages E S) r1
          else if present (finalRealConvId r1) then r1\<lparr>lateLookup := True\<rparr>
          else r1)"

definition late_lookup :: "env \<Rightarrow> submission \<Rightarrow> run \<Rightarrow> run" where
  \<comment> \<open>The lookup \<^verbatim>\<open>persist_after_stream\<close> starts without awaiting it, when it has no
      database id: its \<^verbatim>\<open>then\<close> runs after the \<^verbatim>\<open>finally\<close> block, and rejections are logged.\<close>
  "late_lookup E S r =
     (if lateLookup r
      then when_present (finalRealConvId r)
             (\<lambda>i r.
                (let (result, h1) = lookupConversation E i (hk r)
                 in case result of
                      Returns (success (Some c)) \<Rightarrow>
                        (let ra = r\<lparr>hk := setDbConversationUUID (Some (conv_id c)) h1,
                                    finalDbConvUUID := Some (conv_id c)\<rparr>;
                             rb = (if persistenceStatus (userMessage S) \<noteq> Some status_saved
                                   then in_hook (save_logged E (userMessage S) (conv_id c)) ra
                                   else ra)
                         in when_present (assistantMessageId rb)
                              (\<lambda>a r. case find_message a (store (hk r)) of
                                      None \<Rightarrow> r
                                    | Some assistantMessage \<Rightarrow>
                                        if persistenceStatus assistantMessage \<noteq> Some status_saved
                                        then in_hook (save_logged E assistantMessage (conv_id c)) r
                                        else r) rb)
                    | other \<Rightarrow> r\<lparr>hk := h1\<rparr>)) r
      else r)"

subsubsection \<open>\<^verbatim>\<open>catch\<close> and \<^verbatim>\<open>finally\<close>\<close>

definition stream_error_message :: "thrown \<Rightarrow> string" where
  \<comment> \<open>\<^verbatim>\<open>streamError?.message || ...\<close> (a thrown value that is not an Error has a string
      message or none).\<close>
  "stream_error_message e =
     (case e of
        ErrorObj m \<Rightarrow> if m \<noteq> [] then m else msg_unknown_error
      | Thrown v \<Rightarrow>
          (case opt_get v ''message'' of
             Str m \<Rightarrow> if m \<noteq> [] then m else msg_unknown_error
           | other \<Rightarrow> msg_unknown_error))"

definition save_errored_message :: "env \<Rightarrow> string \<Rightarrow> string \<Rightarrow> run \<Rightarrow> run" where
  \<comment> \<open>In the \<^verbatim>\<open>catch\<close>, with a database id: the assistant message is read from the store and
      saved unless it is saved already: marked pending, then \<^verbatim>\<open>saveMessage\<close>, and marked
      error when that rejects.\<close>
  "save_errored_message E i c r =
     (case find_message i (store (hk r)) of
        None \<Rightarrow> r
      | Some assistantMessage \<Rightarrow>
          if persistenceStatus assistantMessage \<noteq> Some status_saved
          then in_hook (\<lambda>h.
                 (let h1 = on_store (updateMessage i
                             (\<lambda>m. m\<lparr>persistenceStatus := Some status_pending\<rparr>)) h;
                      (ok, h2) = save E assistantMessage c h1
                  in if ok then h2
                     else on_store (updateMessage i
                            (\<lambda>m. m\<lparr>persistenceStatus := Some status_error\<rparr>)) h2)) r
          else r)"

definition save_error_placeholder ::
  "env \<Rightarrow> submission \<Rightarrow> string \<Rightarrow> ChatMessage \<Rightarrow> string \<Rightarrow> run \<Rightarrow> run" where
  \<comment> \<open>In the \<^verbatim>\<open>catch\<close>, with a database id and no assistant message yet: the user message
      when it is not saved, the error message just added (marked error when its save
      rejects), and the placeholder.\<close>
  "save_error_placeholder E S errorMessage errorAssistantMessage c r =
     (let ra = (if persistenceStatus (userMessage S) \<noteq> Some status_saved
                then in_hook (save_logged E (userMessage S) c) r
                else r);
          rb = in_hook (\<lambda>h.
                 (let (ok, h1) = save E errorAssistantMessage c h
                  in if ok then h1
                     else on_store (updateMessage (msg_id errorAssistantMessage)
                            (\<lambda>m. m\<lparr>persistenceStatus := Some status_error\<rparr>)) h1)) ra;
          errorText = (if errorMessage \<noteq> []
                       then txt_reply_failed_prefix @ errorMessage
                       else txt_reply_failed_prefix @ msg_unknown_error)
      in in_hook (log_effect (SaveErrorPlaceholder c ''error'' errorText)) rb)"

definition on_stream_error :: "env \<Rightarrow> submission \<Rightarrow> thrown \<Rightarrow> run \<Rightarrow> run" where
  "on_stream_error E S e r =
     (let errorMessage = stream_error_message e
      in if present (assistantMessageId r)
         then when_present (assistantMessageId r)
                (\<lambda>i r.
                   (let ra = in_hook (on_store (setMessageError i errorMessage)) r
                    in when_present (finalDbConvUUID ra) (save_errored_message E i) ra)) r
         else (let (errorAssistantMessage, st) =
                     addMessage (newErrorMessageId E)
                       ((new_message (txt_stream_error_prefix @ errorMessage) False)
                          \<lparr>msg_error := Some errorMessage,
                           persistenceStatus := Some status_pending\<rparr>) (store (hk r));
                   r1 = r\<lparr>hk := (hk r)\<lparr>store := st\<rparr>\<rparr>
               in when_present (finalDbConvUUID r1)
                    (save_error_placeholder E S errorMessage errorAssistantMessage) r1))"

definition save_in_finally :: "env \<Rightarrow> string \<Rightarrow> string \<Rightarrow> hook \<Rightarrow> hook" where
  \<comment> \<open>The save of the \<^verbatim>\<open>finally\<close> block: the message is read from the store again and,
      when its text is not blank, marked pending and saved, as a stopped message when it was
      stopped by hand; a rejection marks it error.\<close>
  "save_in_finally E i currentDbConvId h =
     (case find_message i (store h) of
        None \<Rightarrow> h
      | Some latestMessage \<Rightarrow>
          if trim (msg_text latestMessage) \<noteq> []
          then (let h1 = on_store (updateMessage i
                           (\<lambda>m. m\<lparr>persistenceStatus := Some status_pending\<rparr>)) h;
                    h2 = (if wasManuallyStopped latestMessage
                          then log_effect (SaveStoppedAssistantMessage latestMessage currentDbConvId) h1
                          else log_effect (SaveMessage latestMessage currentDbConvId) h1);
                    ok = (if wasManuallyStopped latestMessage
                          then saveStoppedAssistantMessage E latestMessage currentDbConvId
                          else saveMessage E latestMessage currentDbConvId)
                in if ok then h2
                   else on_store (updateMessage i
                          (\<lambda>m. m\<lparr>persistenceStatus := Some status_error\<rparr>)) h2)
          else h)"

definition finish_streaming_message :: "env \<Rightarrow> submission \<Rightarrow> string \<Rightarrow> ChatMessage \<Rightarrow> run \<Rightarrow> run" where
  \<comment> \<open>The \<^verbatim>\<open>finally\<close> block for an assistant message that still streams: it is finalized,
      saved when there is a database id and the message as found is unsaved, the sidebar
      selects the conversation the location shows, and a new conversation is noted as
      completed.\<close>
  "finish_streaming_message E S i finalMessageState r =
     (let ra = in_hook (on_store (finalizeStreamingMessage i)) r;
          currentDbConvId = (if present (finalDbConvUUID ra) then finalDbConvUUID ra
                             else closureDbConversationUUID S);
          rb = when_present currentDbConvId
                 (\<lambda>c r. if unsaved finalMessageState
                        then in_hook (save_in_finally E i c) r
                        else r) ra;
          rc = when_present (currentConversationId (store (hk rb)))
                 (\<lambda>c r. if location (hk r) = chat_path c
                        then in_hook (log_effect (SelectItem ''chat'' c True)) r
                        else r) rb
      in if isNewConversationFlow S
         then when_present (finalRealConvId rc)
                (\<lambda>c. in_hook (log_effect
                   (UpdatePendingStatus c ''stream_completed_title_pending''))) rc
         else rc)"

definition finally_block :: "env \<Rightarrow> submission \<Rightarrow> run \<Rightarrow> run" where
  "finally_block E S r =
     (let r0 = in_hook (\<lambda>h. if appendTimerRef h then h\<lparr>timerPending := False\<rparr> else h) r;
          r1 = when_present (assistantMessageId r0)
                 (\<lambda>i r.
                    case find_message i (store (hk r)) of
                      None \<Rightarrow> r
                    | Some finalMessageState \<Rightarrow>
                        if isStreaming finalMessageState
                        then finish_streaming_message E S i finalMessageState r
                        else r) r0;
          r2 = in_hook (on_store (setIsWaitingForResponse False)) r1
      in r2\<lparr>hk := (hk r2)\<lparr>isSubmittingRef := False\<rparr>\<rparr>)"

subsubsection \<open>The handler\<close>

definition try_block :: "env \<Rightarrow> submission \<Rightarrow> run \<Rightarrow> thrown option \<times> run" where
  "try_block E S r =
     (case open_stream E S r of
        (Some e, r1) \<Rightarrow> (Some e, r1)
      | (None, r1) \<Rightarrow>
          (case read_stream E S r1 of
             (Some e, r2) \<Rightarrow> (Some e, r2)
           | (None, r2) \<Rightarrow>
               (None, persist_after_stream E S (sync_ids E S (apply_completion E r2)))))"

definition submit :: "env \<Rightarrow> submission \<Rightarrow> run \<Rightarrow> hook" where
  \<comment> \<open>\<^verbatim>\<open>try { ... } catch (error) { ... } finally { ... }\<close>, then the callback of the lookup
      that was not awaited.\<close>
  "submit E S r =
     (let r1 = (case try_block E S r of
                  (Some e, r') \<Rightarrow> on_stream_error E S e r'
                | (None, r') \<Rightarrow> r')
      in hk (late_lookup E S (finally_block E S r1)))"

definition handleSubmit ::
  "env \<Rightarrow> string \<Rightarrow> (string \<times> jsval) list list option \<Rightarrow> jsval \<Rightarrow> hook \<Rightarrow> hook" where
  "handleSubmit E msg files inp h =
     (if isSubmittingRef h then h
      else if selectIsProcessing (store h) then h
      else (case currentUserId E of
              None \<Rightarrow> h
            | Some usr \<Rightarrow>
                if usr = [] then h
                else (case select_app E h of
                        (Throws e, h1) \<Rightarrow> report_app_error E e h1
                      | (Returns app, h1) \<Rightarrow>
                          (let (S, r) = begin_submission E usr app msg files inp h1
                           in submit E S r))))"

section \<open>The Result contract, in the words of the specification\<close>

definition result_contract ::
  "supabase outcome \<Rightarrow> call \<Rightarrow> string \<Rightarrow> (response \<Rightarrow> jsval) \<Rightarrow> jsval Result outcome" where
  \<comment> \<open>What a data-layer function that makes the one call \<open>c\<close> must settle to: never a
      rejection; a failure with the function's own message when the client or the call throws;
      a failure with the reported error's message when the call reports an error; success
      with the payload otherwise.\<close>
  "result_contract createClient c msg payload =
     Returns
       (case createClient of
          Throws e \<Rightarrow> failure (Error msg)
        | Returns supabase \<Rightarrow>
            (case supabase c of
               Throws e \<Rightarrow> failure (Error msg)
             | Returns r \<Rightarrow>
                 (case error r of
                    Some m \<Rightarrow> failure (Error m)
                  | None \<Rightarrow> success (payload r))))"

section \<open>Notions for the properties of the stream\<close>

definition zombie_repaired :: "env \<Rightarrow> ChatMessage \<Rightarrow> hook \<Rightarrow> hook \<Rightarrow> bool" where
  \<comment> \<open>What the specification says of the repair of the streaming message \<open>m\<close>, \<open>h\<close> being
      the hook before and \<open>h'\<close> after: the message is finalized, nothing streams or waits, the
      task id is cleared, the record of the check is dropped, and when the database id of
      the conversation is known and the message is unsaved, it is marked pending and
      \<^verbatim>\<open>saveMessage\<close> is called with it once (and it is marked error when that call rejects);
      otherwise nothing is saved and the status stays.\<close>
  "zombie_repaired E m h h' =
     (map_option isStreaming (find_message (msg_id m) (store h')) = Some False
      \<and> streamingMessageId (store h') = None
      \<and> \<not> isWaitingForResponse (store h')
      \<and> \<not> present (currentTaskId (store h'))
      \<and> lastStreamingCheckRef h' = None
      \<and> effects h' =
          (case dbConversationUUID h of
             None \<Rightarrow> effects h
           | Some conv \<Rightarrow>
               if conv \<noteq> [] \<and> unsaved m then effects h @ [SaveMessage m conv]
               else effects h)
      \<and> map_option persistenceStatus (find_message (msg_id m) (store h')) =
          Some (case dbConversationUUID h of
                  None \<Rightarrow> persistenceStatus m
                | Some conv \<Rightarrow>
                    if conv \<noteq> [] \<and> unsaved m
                    then Some (if saveMessage E m conv then status_pending else status_error)
                    else persistenceStatus m))"

fun chunks_of :: "stream_event list \<Rightarrow> string list" where
  \<comment> \<open>The chunks the stream yields, in arrival order.\<close>
  "chunks_of [] = []"
| "chunks_of (Chunk answerChunk t_test t_flushed # es) = answerChunk # chunks_of es"
| "chunks_of (e # es) = chunks_of es"

fun arrives_early :: "int \<Rightarrow> stream_event \<Rightarrow> bool" where
  \<comment> \<open>A chunk that is tested less than 30 ms after the time \<open>t0\<close>; no other event.\<close>
  "arrives_early t0 (Chunk answerChunk t_test t_flushed) = (t_test - t0 < CHUNK_APPEND_INTERVAL)"
| "arrives_early t0 e = False"

definition text_of :: "string \<Rightarrow> ChatState \<Rightarrow> string option" where
  \<comment> \<open>The text of the message of that id, when the store has it.\<close>
  "text_of i st = map_option msg_text (find_message i st)"

definition streaming_inv :: "string \<Rightarrow> string list \<Rightarrow> run \<Rightarrow> bool" where
  \<comment> \<open>What holds between two events of a stream that nobody stops, \<open>received\<close> being the
      chunks so far: before the first chunk nothing streams and the buffer is empty; from the
      first chunk on, the message \<open>a\<close> streams and its text followed by the buffer is what
      was received.\<close>
  "streaming_inv a received r =
     (\<not> broke r \<and>
      (case assistantMessageId r of
         None \<Rightarrow>
           streamingMessageId (store (hk r)) = None \<and> received = []
           \<and> chunkBufferRef (hk r) = [] \<and> find_message a (store (hk r)) = None
       | Some i \<Rightarrow>
           i = a \<and> streamingMessageId (store (hk r)) = Some a \<and> received \<noteq> []
           \<and> (case text_of a (store (hk r)) of
                 None \<Rightarrow> False
               | Some t \<Rightarrow> t @ chunkBufferRef (hk r) = concat received)))"

definition status_of :: "string \<Rightarrow> hook \<Rightarrow> persistence option option" where
  \<comment> \<open>The persistence status of the message of that id: \<open>None\<close> when the store has no such
      message, \<open>Some None\<close> when the message has no status.\<close>
  "status_of i h = map_option persistenceStatus (find_message i (store h))"

definition texts :: "ChatState \<Rightarrow> (string \<times> string) list" where
  \<comment> \<open>The id and the text of every message, in order.\<close>
  "texts st = map (\<lambda>m. (msg_id m, msg_text m)) (messages st)"

definition keeps_stream :: "hook \<Rightarrow> hook \<Rightarrow> bool" where
  \<comment> \<open>A step that leaves alone what the stream loop works on: the messages, the store's
      streaming id and the buffer.\<close>
  "keeps_stream h h' =
     (messages (store h') = messages (store h)
      \<and> streamingMessageId (store h') = streamingMessageId (store h)
      \<and> chunkBufferRef h' = chunkBufferRef h)"

definition keeps_texts :: "hook \<Rightarrow> hook \<Rightarrow> bool" where
  \<comment> \<open>A step that changes no message's id or text, adds or drops no message, and leaves
      the buffer alone.\<close>
  "keeps_texts h h' =
     (texts (store h') = texts (store h) \<and> chunkBufferRef h' = chunkBufferRef h)"

definition keeps_run :: "run \<Rightarrow> run \<Rightarrow> bool" where
  \<comment> \<open>The same, for the run of a submission: the loop's own variables are left alone too.\<close>
  "keeps_run r r' =
     (keeps_stream (hk r) (hk r')
      \<and> assistantMessageId r' = assistantMessageId r \<and> broke r' = broke r
      \<and> lastAppendTime r' = lastAppendTime r)"

section \<open>Concrete inputs\<close>

definition warn_client :: supabase where
  \<comment> \<open>A client that answers the group list with one group and reports an error on every
      other call, the member count among them.\<close>
  "warn_client c =
     (if c = Query groups_request
      then Returns \<lparr>data = Arr [Obj [(''id'', Str ''g1'')]], error = None, count = Null\<rparr>
      else Returns \<lparr>data = Null, error = Some ''permission denied'', count = Null\<rparr>)"

definition no_row_client :: supabase where
  \<comment> \<open>A client whose every call succeeds with no row.\<close>
  "no_row_client c = Returns \<lparr>data = Arr [], error = None, count = Null\<rparr>"

definition empty_store :: ChatState where
  "empty_store =
     \<lparr>messages = [], streamingMessageId = None, isWaitingForResponse = False,
      currentConversationId = None, currentTaskId = None\<rparr>"

definition fresh_hook :: hook where
  \<comment> \<open>The hook on \<^verbatim>\<open>/chat/new\<close> before anything was sent.\<close>
  "fresh_hook =
     \<lparr>store = empty_store, difyConversationId = None, dbConversationUUID = None,
      conversationAppId = None, isSubmittingRef = False, chunkBufferRef = [],
      appendTimerRef = False, timerPending = False, lastStreamingCheckRef = None,
      location = ''/chat/new'', effects = []\<rparr>"

definition test_env :: env where
  \<comment> \<open>A signed-in user on \<^verbatim>\<open>/chat/new\<close>; the new conversation opens as \<^verbatim>\<open>conv-1\<close> with task
      \<^verbatim>\<open>task-1\<close>, streams two chunks 5 ms apart and ends; every save resolves; the database
      has no record of the conversation.\<close>
  "test_env =
     \<lparr>currentUserId = Some ''u1'', currentAppId = Some ''app1'', currentAppInstance = True,
      currentPathname = Some ''/chat/new'', isWelcomeScreen = True, dateNow = 1000,
      isoNow = ''2026-01-01T00:00:00.000Z'',
      getConversationByExternalId = (\<lambda>i. Returns (success None)),
      saveMessage = (\<lambda>m c. True),
      saveStoppedAssistantMessage = (\<lambda>m c. True),
      stopDifyStreamingTask = (\<lambda>a t u. True),
      validateConfig = (\<lambda>a. Returns ()),
      ensureAppReady = Returns ''app1'',
      newUserMessageId = ''msg-1'', newAssistantMessageId = ''msg-2'', newErrorMessageId = ''msg-3'',
      initiateNewConversation =
        Returns \<lparr>open_error = None, answerStream = True, realConvId = Some ''conv-1'',
                 taskId = Some ''task-1'', completionPromise = False\<rparr>,
      dbIdCallback = None,
      streamDifyChat =
        Returns \<lparr>open_error = None, answerStream = True, realConvId = Some ''conv-1'',
                 taskId = Some ''task-1'', completionPromise = False\<rparr>,
      conversationIdCallback = None,
      answerChunks = [Chunk ''Hel'' 1001 1001, Chunk ''lo'' 1006 1006],
      streamFailure = None,
      completion = Returns Undefined\<rparr>"



definition failing_env :: env where
  \<comment> \<open>As \<open>test_env\<close>, but the stream throws after its two chunks, 6 ms after the
      submission.\<close>
  "failing_env = test_env\<lparr>streamFailure := Some (ErrorObj ''network error'')\<rparr>"

definition stalled_hook :: hook where
  \<comment> \<open>An assistant message that streams, with text received and a task id, in a conversation
      the database knows as \<^verbatim>\<open>db-1\<close>; the buffer holds a chunk not yet appended.\<close>
  "stalled_hook =
     fresh_hook
       \<lparr>store :=
          \<lparr>messages = [(new_message ''Hel'' False)\<lparr>msg_id := ''msg-2'', isStreaming := True\<rparr>],
           streamingMessageId = Some ''msg-2'', isWaitingForResponse = True,
           currentConversationId = Some ''conv-1'', currentTaskId = Some ''task-1''\<rparr>,
        difyConversationId := Some ''conv-1'', dbConversationUUID := Some ''db-1'',
        isSubmittingRef := True, chunkBufferRef := ''lo'', appendTimerRef := True,
        timerPending := True, location := ''/chat/conv-1''\<rparr>"


section \<open>Properties of the string operations\<close>

lemma concat_code_points: "concat (code_points s) = s"
  by (induction s rule: code_points.induct) simp_all

lemma trim_white_space:
  "trim ([CHR 0xE3, CHR 0x80, CHR 0x80] @ '' a b '' @ [CHR 0xC2, CHR 0xA0, CHR 0x0A]) = ''a b''"
  "trim [CHR 0xE3, CHR 0x80, CHR 0x80] = []"
  "trim [CHR 0xC2, CHR 0xA0] = []"
  "trim [CHR 0xE4, CHR 0xB8, CHR 0x80] = [CHR 0xE4, CHR 0xB8, CHR 0x80]"
  "trim ''Hel'' = ''Hel''"
  by (simp_all add: trim_def is_space_def white_space_def)

lemma js_length_code_units:
  "js_length ''abc'' = 3"
  "js_length [CHR 0xE4, CHR 0xB8, CHR 0x80] = 1"
  "js_length [CHR 0xF0, CHR 0x9F, CHR 0x98, CHR 0x80, CHR 0x61] = 3"
  by (simp_all add: js_length_def)

lemma decimal_digits: "decimal 0 = ''0''" "decimal (Suc 0) = ''1''" "decimal 12 = ''12''"
  by code_simp+

lemma spread_index_keys:
  "spread (Arr [Num 1, Null]) = [(''0'', Num 1), (''1'', Null)]"
  "spread (Str ''ab'') = [(''0'', Str ''a''), (''1'', Str ''b'')]"
  "spread Null = []"
  by (simp_all add: index_keys_def code_units_def code_units_of_def upt_rec decimal_digits)


section \<open>Properties of the data layer\<close>

lemma createGroup_contract:
  "createGroup createClient name description =
     result_contract createClient (Query (createGroup_request name description)) msg_createGroup data"
  by (simp add: createGroup_def result_contract_def try_catch_def await_def
      split: outcome.split option.split)

lemma updateGroup_contract:
  "updateGroup createClient groupId d =
     result_contract createClient (Query (updateGroup_request groupId d)) msg_updateGroup data"
  by (simp add: updateGroup_def result_contract_def try_catch_def await_def
      split: outcome.split option.split)

lemma deleteGroup_contract:
  "deleteGroup createClient groupId =
     result_contract createClient (Query (deleteGroup_request groupId)) msg_deleteGroup
       (\<lambda>r. Undefined)"
  by (simp add: deleteGroup_def result_contract_def try_catch_def await_def
      split: outcome.split option.split)

lemma getGroupMembers_contract:
  "getGroupMembers createClient groupId =
     result_contract createClient (Query (getGroupMembers_request groupId)) msg_getGroupMembers
       (\<lambda>r. js_or (data r) (Arr []))"
  by (simp add: getGroupMembers_def result_contract_def try_catch_def await_def
      split: outcome.split option.split)

lemma addGroupMember_contract:
  "addGroupMember createClient groupId userId =
     result_contract createClient (Query (addGroupMember_request groupId userId))
       msg_addGroupMember data"
  by (simp add: addGroupMember_def result_contract_def try_catch_def await_def
      split: outcome.split option.split)

lemma removeGroupMember_contract:
  "removeGroupMember createClient groupId userId =
     result_contract createClient (Query (removeGroupMember_request groupId userId))
       msg_removeGroupMember (\<lambda>r. Undefined)"
  by (simp add: removeGroupMember_def result_contract_def try_catch_def await_def
      split: outcome.split option.split)

lemma getGroupAppPermissions_contract:
  "getGroupAppPermissions createClient groupId =
     result_contract createClient (Query (getGroupAppPermissions_request groupId))
       msg_getGroupAppPermissions (\<lambda>r. js_or (data r) (Arr []))"
  by (simp add: getGroupAppPermissions_def result_contract_def try_catch_def await_def
      split: outcome.split option.split)

lemma setGroupAppPermission_enable:
  "setGroupAppPermission createClient now groupId serviceInstanceId True usage_quota =
     result_contract createClient
       (Query (permission_upsert_request groupId serviceInstanceId usage_quota))
       msg_setGroupAppPermission data"
  by (simp add: setGroupAppPermission_def result_contract_def try_catch_def await_def
      split: outcome.split option.split)

lemma setGroupAppPermission_disable:
  "setGroupAppPermission createClient now groupId serviceInstanceId False usage_quota =
     result_contract createClient
       (Query (permission_delete_request groupId serviceInstanceId))
       msg_setGroupAppPermission (\<lambda>r. disabled_permission groupId serviceInstanceId now)"
  by (simp add: setGroupAppPermission_def result_contract_def try_catch_def await_def
      split: outcome.split option.split)

lemma removeGroupAppPermission_contract:
  "removeGroupAppPermission createClient groupId serviceInstanceId =
     result_contract createClient
       (Query (permission_delete_request groupId serviceInstanceId))
       msg_removeGroupAppPermission (\<lambda>r. Undefined)"
  by (simp add: removeGroupAppPermission_def result_contract_def try_catch_def await_def
      split: outcome.split option.split)

lemma removeAllGroupAppPermissions_contract:
  "removeAllGroupAppPermissions createClient serviceInstanceId =
     result_contract createClient
       (Query (removeAllGroupAppPermissions_request serviceInstanceId))
       msg_removeAllGroupAppPermissions (\<lambda>r. Undefined)"
  by (simp add: removeAllGroupAppPermissions_def result_contract_def try_catch_def await_def
      split: outcome.split option.split)

lemma getUserAccessibleApps_contract:
  "getUserAccessibleApps createClient userId =
     result_contract createClient (getUserAccessibleApps_call userId)
       msg_getUserAccessibleApps (\<lambda>r. js_or (data r) (Arr []))"
  by (simp add: getUserAccessibleApps_def result_contract_def try_catch_def await_def
      split: outcome.split option.split)

lemma checkUserAppPermission_contract:
  "checkUserAppPermission createClient userId serviceInstanceId =
     result_contract createClient (checkUserAppPermission_call userId serviceInstanceId)
       msg_checkUserAppPermission
       (\<lambda>r. if truthy (first_row (data r)) then first_row (data r) else no_permission_row)"
  by (simp add: checkUserAppPermission_def result_contract_def try_catch_def await_def Let_def
      split: outcome.split option.split)

lemma incrementAppUsage_contract:
  "incrementAppUsage createClient userId serviceInstanceId increment =
     result_contract createClient (incrementAppUsage_call userId serviceInstanceId increment)
       msg_incrementAppUsage (\<lambda>r. first_row (data r))"
  by (simp add: incrementAppUsage_def result_contract_def try_catch_def await_def
      split: outcome.split option.split)

lemma searchUsersForGroup_contract:
  "searchUsersForGroup createClient searchTerm excludeUserIds =
     result_contract createClient
       (Query (searchUsersForGroup_request searchTerm
                 (case excludeUserIds of None \<Rightarrow> [] | Some ids \<Rightarrow> ids)))
       msg_searchUsersForGroup (\<lambda>r. js_or (data r) (Arr []))"
  by (simp add: searchUsersForGroup_def result_contract_def try_catch_def await_def
      split: outcome.split option.split)

lemma getGroups_cases:
  "getGroups createClient =
     Returns
       (case createClient of
          Throws e \<Rightarrow> failure (Error msg_getGroups)
        | Returns supabase \<Rightarrow>
            (case supabase (Query groups_request) of
               Throws e \<Rightarrow> failure (Error msg_getGroups)
             | Returns r \<Rightarrow>
                 (case error r of
                    Some m \<Rightarrow> failure (Error m)
                  | None \<Rightarrow>
                      (case await (array_map (with_member_count supabase) (js_or (data r) (Arr [])))
                              promise_all of
                         Throws e \<Rightarrow> failure (Error msg_getGroups)
                       | Returns groups \<Rightarrow> success (Arr groups)))))"
  by (simp add: getGroups_def try_catch_def await_def split: outcome.split option.split)

lemma with_member_count_cases:
  "with_member_count supabase group_row =
     await (js_get group_row ''id'') (\<lambda>group_id.
     await (supabase (Query (member_count_request group_id))) (\<lambda>c.
       Returns (Obj (AList.update ''member_count''
                       (case error c of Some m \<Rightarrow> Num 0 | None \<Rightarrow> js_or (count c) (Num 0))
                       (spread group_row)))))"
  by (simp add: with_member_count_def await_def split: outcome.split option.split)

lemma result_contract_settles:
  "\<exists>res. result_contract createClient c msg payload = Returns res"
  by (simp add: result_contract_def)

text \<open>
  C1, as the code has it. Every exported function of \<^verbatim>\<open>group-permissions.ts\<close> settles to a
  Result and never rejects: an exception (from \<^verbatim>\<open>createClient\<close> or from the awaited call)
  gives a failure with the function's own message, an error reported by the function's
  query gives a failure with that error's message, and otherwise the function succeeds with
  its payload (the data, with a falsy list replaced by the empty list in the list-returning
  functions). \<^verbatim>\<open>getGroups\<close> makes one more call per group, the member count: when that call
  throws the function fails, but when it reports an error the function still succeeds and
  the group gets \<^verbatim>\<open>member_count: 0\<close>.
\<close>

theorem C1_result_wrapper:
  "getGroups createClient =
     Returns
       (case createClient of
          Throws e \<Rightarrow> failure (Error msg_getGroups)
        | Returns supabase \<Rightarrow>
            (case supabase (Query groups_request) of
               Throws e \<Rightarrow> failure (Error msg_getGroups)
             | Returns r \<Rightarrow>
                 (case error r of
                    Some m \<Rightarrow> failure (Error m)
                  | None \<Rightarrow>
                      (case await (array_map (with_member_count supabase) (js_or (data r) (Arr [])))
                              promise_all of
                         Throws e \<Rightarrow> failure (Error msg_getGroups)
                       | Returns groups \<Rightarrow> success (Arr groups)))))
   \<and> with_member_count sb group_row =
       await (js_get group_row ''id'') (\<lambda>group_id.
       await (sb (Query (member_count_request group_id))) (\<lambda>c.
         Returns (Obj (AList.update ''member_count''
                         (case error c of Some m \<Rightarrow> Num 0 | None \<Rightarrow> js_or (count c) (Num 0))
                         (spread group_row)))))
   \<and> createGroup createClient name description =
       result_contract createClient (Query (createGroup_request name description))
         msg_createGroup data
   \<and> updateGroup createClient groupId d =
       result_contract createClient (Query (updateGroup_request groupId d)) msg_updateGroup data
   \<and> deleteGroup createClient groupId =
       result_contract createClient (Query (deleteGroup_request groupId)) msg_deleteGroup
         (\<lambda>r. Undefined)
   \<and> getGroupMembers createClient groupId =
       result_contract createClient (Query (getGroupMembers_request groupId))
         msg_getGroupMembers (\<lambda>r. js_or (data r) (Arr []))
   \<and> addGroupMember createClient groupId userId =
       result_contract createClient (Query (addGroupMember_request groupId userId))
         msg_addGroupMember data
   \<and> removeGroupMember createClient groupId userId =
       result_contract createClient (Query (removeGroupMember_request groupId userId))
         msg_removeGroupMember (\<lambda>r. Undefined)
   \<and> getGroupAppPermissions createClient groupId =
       result_contract createClient (Query (getGroupAppPermissions_request groupId))
         msg_getGroupAppPermissions (\<lambda>r. js_or (data r) (Arr []))
   \<and> setGroupAppPermission createClient now groupId serviceInstanceId is_enabled usage_quota =
       (if is_enabled
        then result_contract createClient
               (Query (permission_upsert_request groupId serviceInstanceId usage_quota))
               msg_setGroupAppPermission data
        else result_contract createClient
               (Query (permission_delete_request groupId serviceInstanceId))
               msg_setGroupAppPermission
               (\<lambda>r. disabled_permission groupId serviceInstanceId now))
   \<and> removeGroupAppPermission createClient groupId serviceInstanceId =
       result_contract createClient
         (Query (permission_delete_request groupId serviceInstanceId))
         msg_removeGroupAppPermission (\<lambda>r. Undefined)
   \<and> removeAllGroupAppPermissions createClient serviceInstanceId =
       result_contract createClient
         (Query (removeAllGroupAppPermissions_request serviceInstanceId))
         msg_removeAllGroupAppPermissions (\<lambda>r. Undefined)
   \<and> getUserAccessibleApps createClient userId =
       result_contract createClient (getUserAccessibleApps_call userId)
         msg_getUserAccessibleApps (\<lambda>r. js_or (data r) (Arr []))
   \<and> checkUserAppPermission createClient userId serviceInstanceId =
       result_contract createClient (checkUserAppPermission_call userId serviceInstanceId)
         msg_checkUserAppPermission
         (\<lambda>r. if truthy (first_row (data r)) then first_row (data r) else no_permission_row)
   \<and> incrementAppUsage createClient userId serviceInstanceId increment =
       result_contract createClient (incrementAppUsage_call userId serviceInstanceId increment)
         msg_incrementAppUsage (\<lambda>r. first_row (data r))
   \<and> searchUsersForGroup createClient searchTerm excludeUserIds =
       result_contract createClient
         (Query (searchUsersForGroup_request searchTerm
                   (case excludeUserIds of None \<Rightarrow> [] | Some ids \<Rightarrow> ids)))
         msg_searchUsersForGroup (\<lambda>r. js_or (data r) (Arr []))
   \<and> (\<exists>res. result_contract createClient c msg payload = Returns res)"
proof -
  have set_perm:
    "setGroupAppPermission createClient now groupId serviceInstanceId is_enabled usage_quota =
       (if is_enabled
        then result_contract createClient
               (Query (permission_upsert_request groupId serviceInstanceId usage_quota))
               msg_setGroupAppPermission data
        else result_contract createClient
               (Query (permission_delete_request groupId serviceInstanceId))
               msg_setGroupAppPermission
               (\<lambda>r. disabled_permission groupId serviceInstanceId now))"
    by (cases is_enabled) (simp_all only: setGroupAppPermission_enable
        setGroupAppPermission_disable if_True if_False)
  show ?thesis
    by (intro conjI getGroups_cases with_member_count_cases createGroup_contract
        updateGroup_contract deleteGroup_contract getGroupMembers_contract
        addGroupMember_contract removeGroupMember_contract getGroupAppPermissions_contract
        set_perm removeGroupAppPermission_contract removeAllGroupAppPermissions_contract
        getUserAccessibleApps_contract checkUserAppPermission_contract
        incrementAppUsage_contract searchUsersForGroup_contract result_contract_settles)
qed

text \<open>
  The claim as stated fails at \<^verbatim>\<open>getGroups\<close>: the member-count call of the one group reports
  an error, and the function succeeds, with \<^verbatim>\<open>member_count: 0\<close>.
\<close>

theorem C1_counterexample:
  "warn_client (Query (member_count_request (Str ''g1''))) =
     Returns \<lparr>data = Null, error = Some ''permission denied'', count = Null\<rparr>
   \<and> getGroups (Returns warn_client) =
       Returns (success (Arr [Obj [(''id'', Str ''g1''), (''member_count'', Num 0)]]))"
  by (simp add: warn_client_def getGroups_def with_member_count_def try_catch_def await_def
      groups_request_def member_count_request_def from_table_def js_or_def)

theorem C1_witness:
  "getGroups (Throws (ErrorObj ''offline'')) = Returns (failure (Error msg_getGroups))
   \<and> getGroupMembers (Returns warn_client) ''g1'' =
       Returns (failure (Error ''permission denied''))"
  using C1_result_wrapper [where createClient = "Throws (ErrorObj ''offline'')"]
    C1_result_wrapper [where createClient = "Returns warn_client" and groupId = "''g1''"]
  by (simp add: result_contract_def warn_client_def groups_request_def
      getGroupMembers_request_def from_table_def)

text \<open>
  C6. The three permission functions call the RPC of their name and pass its answer on:
  the list (or the empty list), the first row, nothing computed from it. When the check
  RPC gives no row (an empty array, or \<^verbatim>\<open>null\<close>), \<^verbatim>\<open>checkUserAppPermission\<close> succeeds with
  \<^verbatim>\<open>has_access: false\<close> and \<^verbatim>\<open>quota_remaining: null\<close>; an increment left out is sent as 1.
\<close>

theorem C6_permissions_delegated:
  "getUserAccessibleApps createClient userId =
     result_contract createClient
       (Rpc ''get_user_accessible_apps'' [(''p_user_id'', Str userId)])
       msg_getUserAccessibleApps (\<lambda>r. js_or (data r) (Arr []))
   \<and> checkUserAppPermission createClient userId serviceInstanceId =
       result_contract createClient
         (Rpc ''check_user_app_permission''
            [(''p_user_id'', Str userId), (''p_service_instance_id'', Str serviceInstanceId)])
         msg_checkUserAppPermission
         (\<lambda>r. if truthy (first_row (data r)) then first_row (data r)
              else Obj [(''has_access'', Bool False),
                        (''quota_remaining'', Null),
                        (''error_message'', Str msg_checkUserAppPermission)])
   \<and> incrementAppUsage createClient userId serviceInstanceId increment =
       result_contract createClient
         (Rpc ''increment_app_usage''
            [(''p_user_id'', Str userId),
             (''p_service_instance_id'', Str serviceInstanceId),
             (''p_increment'', Num (case increment of None \<Rightarrow> 1 | Some n \<Rightarrow> n))])
         msg_incrementAppUsage (\<lambda>r. first_row (data r))
   \<and> first_row (Arr (row # rows)) = row
   \<and> first_row (Arr []) = Undefined
   \<and> first_row Null = Null
   \<and> checkUserAppPermission (Returns (\<lambda>c. Returns \<lparr>data = Arr [], error = None, count = n\<rparr>))
         userId serviceInstanceId =
       Returns (success (Obj [(''has_access'', Bool False),
                              (''quota_remaining'', Null),
                              (''error_message'', Str msg_checkUserAppPermission)]))
   \<and> checkUserAppPermission (Returns (\<lambda>c. Returns \<lparr>data = Null, error = None, count = n\<rparr>))
         userId serviceInstanceId =
       Returns (success (Obj [(''has_access'', Bool False),
                              (''quota_remaining'', Null),
                              (''error_message'', Str msg_checkUserAppPermission)]))
   \<and> incrementAppUsage_call userId serviceInstanceId None =
       Rpc ''increment_app_usage''
         [(''p_user_id'', Str userId),
          (''p_service_instance_id'', Str serviceInstanceId),
          (''p_increment'', Num 1)]"
proof -
  have a: "getUserAccessibleApps createClient userId =
     result_contract createClient
       (Rpc ''get_user_accessible_apps'' [(''p_user_id'', Str userId)])
       msg_getUserAccessibleApps (\<lambda>r. js_or (data r) (Arr []))"
    using getUserAccessibleApps_contract [of createClient userId]
    by (simp add: getUserAccessibleApps_call_def)
  have b: "checkUserAppPermission createClient userId serviceInstanceId =
       result_contract createClient
         (Rpc ''check_user_app_permission''
            [(''p_user_id'', Str userId), (''p_service_instance_id'', Str serviceInstanceId)])
         msg_checkUserAppPermission
         (\<lambda>r. if truthy (first_row (data r)) then first_row (data r)
              else Obj [(''has_access'', Bool False),
                        (''quota_remaining'', Null),
                        (''error_message'', Str msg_checkUserAppPermission)])"
    for createClient
    using checkUserAppPermission_contract [of createClient userId serviceInstanceId]
    unfolding checkUserAppPermission_call_def no_permission_row_def .
  have c: "incrementAppUsage createClient userId serviceInstanceId increment =
       result_contract createClient
         (Rpc ''increment_app_usage''
            [(''p_user_id'', Str userId),
             (''p_service_instance_id'', Str serviceInstanceId),
             (''p_increment'', Num (case increment of None \<Rightarrow> 1 | Some n \<Rightarrow> n))])
         msg_incrementAppUsage (\<lambda>r. first_row (data r))"
    using incrementAppUsage_contract [of createClient userId serviceInstanceId increment]
    by (simp add: incrementAppUsage_call_def)
  have d: "first_row (Arr (row # rows)) = row" "first_row (Arr []) = Undefined"
    "first_row Null = Null"
    by (simp_all add: first_row_def)
  have e: "checkUserAppPermission
         (Returns (\<lambda>c. Returns \<lparr>data = Arr [], error = None, count = n\<rparr>))
         userId serviceInstanceId =
       Returns (success (Obj [(''has_access'', Bool False),
                              (''quota_remaining'', Null),
                              (''error_message'', Str msg_checkUserAppPermission)]))"
    by (simp add: b result_contract_def first_row_def)
  have f: "checkUserAppPermission
         (Returns (\<lambda>c. Returns \<lparr>data = Null, error = None, count = n\<rparr>))
         userId serviceInstanceId =
       Returns (success (Obj [(''has_access'', Bool False),
                              (''quota_remaining'', Null),
                              (''error_message'', Str msg_checkUserAppPermission)]))"
    by (simp add: b result_contract_def first_row_def)
  have g: "incrementAppUsage_call userId serviceInstanceId None =
       Rpc ''increment_app_usage''
         [(''p_user_id'', Str userId),
          (''p_service_instance_id'', Str serviceInstanceId),
          (''p_increment'', Num 1)]"
    by (simp add: incrementAppUsage_call_def)
  show ?thesis
    by (intro conjI a b c d e f g)
qed

theorem C6_witness:
  "checkUserAppPermission (Returns no_row_client) ''u1'' ''app1'' =
     Returns (success (Obj [(''has_access'', Bool False),
                            (''quota_remaining'', Null),
                            (''error_message'', Str msg_checkUserAppPermission)]))
   \<and> incrementAppUsage (Returns no_row_client) ''u1'' ''app1'' None =
       Returns (success Undefined)"
  using C6_permissions_delegated [where createClient = "Returns no_row_client"
      and userId = "''u1''" and serviceInstanceId = "''app1''" and increment = None]
  by (simp add: result_contract_def no_row_client_def first_row_def)

text \<open>
  C9. Enabling upserts the row, with \<^verbatim>\<open>usage_quota || null\<close> (so a quota of 0 is written
  as \<^verbatim>\<open>null\<close>) and returns the upserted row; disabling deletes the row of the group and the
  service instance and, when the delete reports no error, returns the fixed record below
  (empty id, disabled, no quota, count 0), whatever the table held.
\<close>

theorem C9_setGroupAppPermission:
  "setGroupAppPermission createClient now groupId serviceInstanceId True usage_quota =
     result_contract createClient
       (Query ((from_table ''group_app_permissions''
                  (Upsert [Obj [(''group_id'', Str groupId),
                                (''service_instance_id'', Str serviceInstanceId),
                                (''is_enabled'', Bool True),
                                (''usage_quota'', if truthy usage_quota then usage_quota else Null)]]))
               \<lparr>returning := Some select_permissions_upsert, single := True\<rparr>))
       msg_setGroupAppPermission data
   \<and> permission_upsert_request groupId serviceInstanceId (Num 0) =
       permission_upsert_request groupId serviceInstanceId Null
   \<and> setGroupAppPermission createClient now groupId serviceInstanceId False usage_quota =
       result_contract createClient
         (Query ((from_table ''group_app_permissions'' Delete)
                 \<lparr>filters := [Eq ''group_id'' (Str groupId),
                              Eq ''service_instance_id'' (Str serviceInstanceId)]\<rparr>))
         msg_setGroupAppPermission
         (\<lambda>r. Obj [(''id'', Str ''''),
                   (''group_id'', Str groupId),
                   (''service_instance_id'', Str serviceInstanceId),
                   (''is_enabled'', Bool False),
                   (''usage_quota'', Null),
                   (''used_count'', Num 0),
                   (''created_at'', Str now),
                   (''app'', Undefined)])"
proof -
  have a: "setGroupAppPermission createClient now groupId serviceInstanceId True usage_quota =
     result_contract createClient
       (Query ((from_table ''group_app_permissions''
                  (Upsert [Obj [(''group_id'', Str groupId),
                                (''service_instance_id'', Str serviceInstanceId),
                                (''is_enabled'', Bool True),
                                (''usage_quota'', if truthy usage_quota then usage_quota else Null)]]))
               \<lparr>returning := Some select_permissions_upsert, single := True\<rparr>))
       msg_setGroupAppPermission data"
    using setGroupAppPermission_enable [of createClient now groupId serviceInstanceId usage_quota]
    by (simp add: permission_upsert_request_def js_or_def)
  have b: "permission_upsert_request groupId serviceInstanceId (Num 0) =
       permission_upsert_request groupId serviceInstanceId Null"
    by (simp add: permission_upsert_request_def js_or_def)
  have c: "setGroupAppPermission createClient now groupId serviceInstanceId False usage_quota =
       result_contract createClient
         (Query ((from_table ''group_app_permissions'' Delete)
                 \<lparr>filters := [Eq ''group_id'' (Str groupId),
                              Eq ''service_instance_id'' (Str serviceInstanceId)]\<rparr>))
         msg_setGroupAppPermission
         (\<lambda>r. Obj [(''id'', Str ''''),
                   (''group_id'', Str groupId),
                   (''service_instance_id'', Str serviceInstanceId),
                   (''is_enabled'', Bool False),
                   (''usage_quota'', Null),
                   (''used_count'', Num 0),
                   (''created_at'', Str now),
                   (''app'', Undefined)])"
    using setGroupAppPermission_disable [of createClient now groupId serviceInstanceId usage_quota]
    by (simp add: permission_delete_request_def disabled_permission_def)
  show ?thesis
    by (intro conjI a b c)
qed

theorem C9_witness:
  "setGroupAppPermission (Returns no_row_client) ''2026-01-01T00:00:00.000Z'' ''g1'' ''app1''
       False (Num 5) =
     Returns (success (Obj [(''id'', Str ''''),
                            (''group_id'', Str ''g1''),
                            (''service_instance_id'', Str ''app1''),
                            (''is_enabled'', Bool False),
                            (''usage_quota'', Null),
                            (''used_count'', Num 0),
                            (''created_at'', Str ''2026-01-01T00:00:00.000Z''),
                            (''app'', Undefined)]))"
  using C9_setGroupAppPermission [where createClient = "Returns no_row_client"
      and now = "''2026-01-01T00:00:00.000Z''" and groupId = "''g1''"
      and serviceInstanceId = "''app1''" and usage_quota = "Num 5"]
  by (simp add: result_contract_def no_row_client_def)

subsection \<open>The query of the user search\<close>

text \<open>
  \<^verbatim>\<open>searchUsersForGroup\<close> asks for at most 20 profiles whose status is \<^verbatim>\<open>active\<close>, newest
  first; with a list of ids to exclude that is not empty, for ids not in the list; with a
  search term that is not blank, for rows that one of three \<^verbatim>\<open>ilike\<close> patterns matches, the
  term being written into the filter as it is (not trimmed, nothing escaped). The rows of
  the answer are returned as they come.
\<close>

lemma searchUsersForGroup_query:
  "searchUsersForGroup_request searchTerm excludeUserIds =
     \<lparr>table = ''profiles'',
      verb = Select ''id, username, full_name, email, avatar_url, role, status'' [],
      returning = None,
      filters =
        [Eq ''status'' (Str ''active'')]
        @ (if excludeUserIds = [] then []
           else [NotOp ''id'' ''in'' (''('' @ join '','' excludeUserIds @ '')'')])
        @ (if trim searchTerm = [] then []
           else [OrFilter (''username.ilike.%'' @ searchTerm @ ''%,full_name.ilike.%''
                           @ searchTerm @ ''%,email.ilike.%'' @ searchTerm @ ''%'')]),
      order = Some (''created_at'', False), limit = Some 20, single = False\<rparr>"
  by (simp add: searchUsersForGroup_request_def from_table_def search_filter_def Let_def)

lemma searchUsersForGroup_rows:
  assumes "supabase (Query (searchUsersForGroup_request searchTerm excludeUserIds)) =
             Returns \<lparr>data = Arr rows, error = None, count = Null\<rparr>"
  shows "searchUsersForGroup (Returns supabase) searchTerm (Some excludeUserIds) =
           Returns (success (Arr rows))"
  using assms by (simp add: searchUsersForGroup_def await_def try_catch_def js_or_def)

section \<open>Properties of the chat hook\<close>

text \<open>
  C8. A call of \<^verbatim>\<open>handleSubmit\<close> made while a submission is in flight, or while the store
  reports processing, returns the state it found: no message, no effect (no stream opened,
  no lookup, no save), no id changed.
\<close>

theorem C8_submission_guard:
  "isSubmittingRef h \<or> selectIsProcessing (store h) \<Longrightarrow> handleSubmit E msg files inp h = h"
  by (auto simp add: handleSubmit_def)

theorem C8_witness:
  "isSubmittingRef (fresh_hook\<lparr>isSubmittingRef := True\<rparr>)
   \<and> handleSubmit test_env ''hello'' None Undefined (fresh_hook\<lparr>isSubmittingRef := True\<rparr>) =
       fresh_hook\<lparr>isSubmittingRef := True\<rparr>"
  using C8_submission_guard [of "fresh_hook\<lparr>isSubmittingRef := True\<rparr>" test_env "''hello''" None Undefined]
  by simp

lemma replace_prefix:
  "prefix p s \<Longrightarrow> p \<noteq> [] \<Longrightarrow> replace s p r = r @ drop (length p) s"
  by (cases s) auto

lemma fetchDbConversation_dify [simp]:
  "difyConversationId (fetchDbConversation E i h) = difyConversationId h"
  by (simp add: fetchDbConversation_def lookupConversation_def log_effect_def
      split: outcome.split Result.split option.split)

lemma fetchDbConversation_ids:
  "(dbConversationUUID (fetchDbConversation E i h), conversationAppId (fetchDbConversation E i h)) =
     (case getConversationByExternalId E i of
        Returns (success (Some c)) \<Rightarrow>
          (Some (conv_id c), if present (app_id c) then app_id c else None)
      | other \<Rightarrow> (None, None))"
  by (simp add: fetchDbConversation_def lookupConversation_def log_effect_def
      split: outcome.split Result.split option.split)

text \<open>
  C4, as the code has it. The effect tests the path for the substrings \<^verbatim>\<open>/chat/new\<close> and
  \<^verbatim>\<open>/chat/temp-\<close>, not the id for equality with \<^verbatim>\<open>new\<close>. For a path \<^verbatim>\<open>/chat/x\<close> that contains
  neither, the Dify id becomes \<open>x\<close> and the lookup by external id decides the other two:
  the database id and the app id of the record found (no app id when the record has none),
  and nothing for both when no record is found, the lookup fails or it throws. The path
  \<^verbatim>\<open>/chat/new\<close> and every path containing \<^verbatim>\<open>/chat/temp-\<close> reset the three ids. Any other path
  leaves the state as it was.
\<close>

theorem C4_route_effect:
  "(currentPathname E = Some (''/chat/'' @ x)
      \<and> \<not> str_includes (''/chat/'' @ x) ''/chat/new''
      \<and> \<not> str_includes (''/chat/'' @ x) ''/chat/temp-''
    \<longrightarrow> difyConversationId (route_effect E h) = Some x
        \<and> (dbConversationUUID (route_effect E h), conversationAppId (route_effect E h)) =
            (case getConversationByExternalId E x of
               Returns (success (Some c)) \<Rightarrow>
                 (Some (conv_id c), if present (app_id c) then app_id c else None)
             | other \<Rightarrow> (None, None)))
   \<and> (currentPathname E = Some p \<and> (p = ''/chat/new'' \<or> str_includes p ''/chat/temp-'')
      \<longrightarrow> difyConversationId (route_effect E h) = None
          \<and> dbConversationUUID (route_effect E h) = None
          \<and> conversationAppId (route_effect E h) = None)
   \<and> (currentPathname E = Some p
        \<and> \<not> (startsWith p ''/chat/'' \<and> \<not> str_includes p ''/chat/new''
              \<and> \<not> str_includes p ''/chat/temp-'')
        \<and> \<not> (p = ''/chat/new'' \<or> str_includes p ''/chat/temp-'')
      \<longrightarrow> route_effect E h = h)"
proof (intro conjI impI)
  assume a: "currentPathname E = Some (''/chat/'' @ x)
      \<and> \<not> str_includes (''/chat/'' @ x) ''/chat/new''
      \<and> \<not> str_includes (''/chat/'' @ x) ''/chat/temp-''"
  have r: "replace (''/chat/'' @ x) ''/chat/'' [] = x"
    using replace_prefix [of "''/chat/''" "''/chat/'' @ x" "[]"] by simp
  have e: "route_effect E h = fetchDbConversation E x (h\<lparr>difyConversationId := Some x\<rparr>)"
    using a r unfolding route_effect_def startsWith_def Let_def by simp
  show "difyConversationId (route_effect E h) = Some x"
    by (simp add: e)
  show "(dbConversationUUID (route_effect E h), conversationAppId (route_effect E h)) =
            (case getConversationByExternalId E x of
               Returns (success (Some c)) \<Rightarrow>
                 (Some (conv_id c), if present (app_id c) then app_id c else None)
             | other \<Rightarrow> (None, None))"
    unfolding e by (rule fetchDbConversation_ids)
next
  assume b: "currentPathname E = Some p \<and> (p = ''/chat/new'' \<or> str_includes p ''/chat/temp-'')"
  then have ne: "p \<noteq> []" by auto
  have inc: "p = ''/chat/new'' \<Longrightarrow> str_includes p ''/chat/new''" by simp
  have e: "route_effect E h =
      h\<lparr>difyConversationId := None, dbConversationUUID := None, conversationAppId := None\<rparr>"
    using b ne inc unfolding route_effect_def by auto
  show "difyConversationId (route_effect E h) = None" by (simp add: e)
  show "dbConversationUUID (route_effect E h) = None" by (simp add: e)
  show "conversationAppId (route_effect E h) = None" by (simp add: e)
next
  assume c: "currentPathname E = Some p
        \<and> \<not> (startsWith p ''/chat/'' \<and> \<not> str_includes p ''/chat/new''
              \<and> \<not> str_includes p ''/chat/temp-'')
        \<and> \<not> (p = ''/chat/new'' \<or> str_includes p ''/chat/temp-'')"
  then show "route_effect E h = h"
    unfolding route_effect_def by auto
qed

text \<open>
  The claim as stated fails at \<^verbatim>\<open>/chat/newton\<close>: the id is not \<^verbatim>\<open>new\<close> and does not start
  with \<^verbatim>\<open>temp-\<close>, yet the path contains \<^verbatim>\<open>/chat/new\<close>, so the effect does nothing and the
  Dify id stays that of the conversation shown before.
\<close>

theorem C4_counterexample:
  "''newton'' \<noteq> ''new'' \<and> \<not> prefix ''temp-'' ''newton''
   \<and> difyConversationId
        (route_effect (test_env\<lparr>currentPathname := Some ''/chat/newton''\<rparr>)
           (fresh_hook\<lparr>difyConversationId := Some ''previous''\<rparr>)) = Some ''previous''"
  by (simp add: route_effect_def startsWith_def test_env_def fresh_hook_def)

theorem C4_witness:
  "difyConversationId
     (route_effect (test_env\<lparr>currentPathname := Some ''/chat/conv-1''\<rparr>) fresh_hook) =
     Some ''conv-1''
   \<and> (dbConversationUUID
         (route_effect (test_env\<lparr>currentPathname := Some ''/chat/conv-1''\<rparr>) fresh_hook),
       conversationAppId
         (route_effect (test_env\<lparr>currentPathname := Some ''/chat/conv-1''\<rparr>) fresh_hook)) =
      (None, None)"
  using C4_route_effect [of "test_env\<lparr>currentPathname := Some ''/chat/conv-1''\<rparr>" "''conv-1''"
      fresh_hook]
  by (simp add: test_env_def)

subsection \<open>Messages in the store\<close>

lemma find_map_update:
  assumes "\<And>m. msg_id (f m) = msg_id m"
  shows "find (\<lambda>m. msg_id m = i) (map (\<lambda>m. if msg_id m = j then f m else m) xs) =
         (if i = j then map_option f (find (\<lambda>m. msg_id m = i) xs)
          else find (\<lambda>m. msg_id m = i) xs)"
  using assms by (induction xs) auto

lemma find_message_updateMessage:
  assumes "\<And>m. msg_id (f m) = msg_id m"
  shows "find_message i (updateMessage j f st) =
         (if i = j then map_option f (find_message i st) else find_message i st)"
  using find_map_update [OF assms] by (simp add: find_message_def updateMessage_def)

lemma find_message_id: "find_message i st = Some m \<Longrightarrow> msg_id m = i"
  by (auto simp add: find_message_def find_Some_iff)

lemma find_message_fields [simp]:
  "find_message i (st\<lparr>streamingMessageId := s\<rparr>) = find_message i st"
  "find_message i (st\<lparr>isWaitingForResponse := w\<rparr>) = find_message i st"
  "find_message i (st\<lparr>currentConversationId := c\<rparr>) = find_message i st"
  "find_message i (st\<lparr>currentTaskId := t\<rparr>) = find_message i st"
  by (simp_all add: find_message_def)

lemma updateMessage_fields [simp]:
  "streamingMessageId (updateMessage i f st) = streamingMessageId st"
  "isWaitingForResponse (updateMessage i f st) = isWaitingForResponse st"
  "currentConversationId (updateMessage i f st) = currentConversationId st"
  "currentTaskId (updateMessage i f st) = currentTaskId st"
  by (simp_all add: updateMessage_def)

lemma save_or_mark_error_hook:
  "save_or_mark_error E m c h =
     (h\<lparr>store := updateMessage (msg_id m)
                   (\<lambda>x. x\<lparr>persistenceStatus :=
                            Some (if saveMessage E m c then status_pending else status_error)\<rparr>)
                   (store h),
        effects := effects h @ [SaveMessage m c]\<rparr>)"
  by (simp add: save_or_mark_error_def save_def on_store_def log_effect_def Let_def
      updateMessage_def comp_def)

subsection \<open>The zombie-stream check\<close>

lemma repair_zombie_effect:
  assumes "find_message i (store h) = Some m"
  shows "map_option isStreaming (find_message i (store (repair_zombie E m h))) = Some False"
    and "streamingMessageId (store h) = Some i \<Longrightarrow>
         streamingMessageId (store (repair_zombie E m h)) = None"
    and "\<not> isWaitingForResponse (store (repair_zombie E m h))"
    and "\<not> present (currentTaskId (store (repair_zombie E m h)))"
    and "lastStreamingCheckRef (repair_zombie E m h) = None"
    and "effects (repair_zombie E m h) =
           (case dbConversationUUID h of
              None \<Rightarrow> effects h
            | Some conv \<Rightarrow>
                if conv \<noteq> [] \<and> unsaved m then effects h @ [SaveMessage m conv] else effects h)"
    and "map_option persistenceStatus (find_message i (store (repair_zombie E m h))) =
           Some (case dbConversationUUID h of
                   None \<Rightarrow> persistenceStatus m
                 | Some conv \<Rightarrow>
                     if conv \<noteq> [] \<and> unsaved m
                     then Some (if saveMessage E m conv then status_pending else status_error)
                     else persistenceStatus m)"
proof -
  have id: "msg_id m = i" using assms by (rule find_message_id)
  show "map_option isStreaming (find_message i (store (repair_zombie E m h))) = Some False"
    using assms id
    by (simp add: repair_zombie_def Let_def on_store_def finalizeStreamingMessage_def
        setIsWaitingForResponse_def setCurrentTaskId_def save_or_mark_error_hook
        find_message_updateMessage split: option.split)
  show "streamingMessageId (store h) = Some i \<Longrightarrow>
         streamingMessageId (store (repair_zombie E m h)) = None"
    using id
    by (simp add: repair_zombie_def Let_def on_store_def finalizeStreamingMessage_def
        setIsWaitingForResponse_def setCurrentTaskId_def save_or_mark_error_hook
        split: option.split)
  show "\<not> isWaitingForResponse (store (repair_zombie E m h))"
    by (simp add: repair_zombie_def Let_def on_store_def finalizeStreamingMessage_def
        setIsWaitingForResponse_def setCurrentTaskId_def save_or_mark_error_hook
        split: option.split)
  show "\<not> present (currentTaskId (store (repair_zombie E m h)))"
    by (simp add: repair_zombie_def Let_def on_store_def finalizeStreamingMessage_def
        setIsWaitingForResponse_def setCurrentTaskId_def save_or_mark_error_hook present_def
        split: option.split)
  show "lastStreamingCheckRef (repair_zombie E m h) = None"
    by (simp add: repair_zombie_def Let_def on_store_def finalizeStreamingMessage_def
        setIsWaitingForResponse_def setCurrentTaskId_def save_or_mark_error_hook
        split: option.split)
  show "effects (repair_zombie E m h) =
           (case dbConversationUUID h of
              None \<Rightarrow> effects h
            | Some conv \<Rightarrow>
                if conv \<noteq> [] \<and> unsaved m then effects h @ [SaveMessage m conv] else effects h)"
    by (simp add: repair_zombie_def Let_def on_store_def finalizeStreamingMessage_def
        setIsWaitingForResponse_def setCurrentTaskId_def save_or_mark_error_hook
        split: option.split)
  show "map_option persistenceStatus (find_message i (store (repair_zombie E m h))) =
           Some (case dbConversationUUID h of
                   None \<Rightarrow> persistenceStatus m
                 | Some conv \<Rightarrow>
                     if conv \<noteq> [] \<and> unsaved m
                     then Some (if saveMessage E m conv then status_pending else status_error)
                     else persistenceStatus m)"
    using assms id
    by (simp add: repair_zombie_def Let_def on_store_def finalizeStreamingMessage_def
        setIsWaitingForResponse_def setCurrentTaskId_def save_or_mark_error_hook
        find_message_updateMessage split: option.split)
qed

lemma repair_zombie_repaired:
  assumes "streamingMessageId (store h) = Some i" "find_message i (store h) = Some m"
  shows "zombie_repaired E m h (repair_zombie E m h)"
  using repair_zombie_effect [OF assms(2), of E] assms(1) find_message_id [OF assms(2)]
  by (simp add: zombie_repaired_def)

lemma checkStreamingState_idle:
  "streamingMessageId (store h) = None \<Longrightarrow>
   checkStreamingState E t h = h\<lparr>lastStreamingCheckRef := None\<rparr>"
  "streamingMessageId (store h) = Some [] \<Longrightarrow>
   checkStreamingState E t h = h\<lparr>lastStreamingCheckRef := None\<rparr>"
  "streamingMessageId (store h) = Some i \<Longrightarrow> find_message i (store h) = None \<Longrightarrow>
   checkStreamingState E t h = h\<lparr>lastStreamingCheckRef := None\<rparr>"
  "streamingMessageId (store h) = Some i \<Longrightarrow> find_message i (store h) = Some m \<Longrightarrow>
   \<not> isStreaming m \<Longrightarrow>
   checkStreamingState E t h = h\<lparr>lastStreamingCheckRef := None\<rparr>"
  by (simp_all add: checkStreamingState_def)

lemma checkStreamingState_streaming:
  assumes "streamingMessageId (store h) = Some i" "i \<noteq> []"
    and "find_message i (store h) = Some m" "isStreaming m"
  shows "checkStreamingState E t h =
           (case lastStreamingCheckRef h of
              None \<Rightarrow>
                h\<lparr>lastStreamingCheckRef :=
                    Some \<lparr>messageId = i, content = msg_text m, lastUpdateTime = t\<rparr>\<rparr>
            | Some lastCheck \<Rightarrow>
                if messageId lastCheck = i \<and> content lastCheck = msg_text m
                then (if 30000 < t - lastUpdateTime lastCheck then repair_zombie E m h else h)
                else h\<lparr>lastStreamingCheckRef :=
                        Some \<lparr>messageId = i, content = msg_text m, lastUpdateTime = t\<rparr>\<rparr>)"
  using assms find_message_id [OF assms(3)]
  by (auto simp add: checkStreamingState_def split: option.split)

lemma run_checks_idle:
  assumes "streamingMessageId (store h) = None" "lastStreamingCheckRef h = None"
  shows "run_checks E ts h = h"
proof (induction ts)
  case Nil
  show ?case by simp
next
  case (Cons t ts)
  have "h\<lparr>lastStreamingCheckRef := None\<rparr> = h"
    using assms(2) by (cases h) simp
  then show ?case
    using Cons checkStreamingState_idle(1) [OF assms(1), of E t] by simp
qed

lemma run_checks_recorded:
  assumes "streamingMessageId (store h) = Some i" "i \<noteq> []"
    and "find_message i (store h) = Some m" "isStreaming m"
    and "lastStreamingCheckRef h = Some c" "messageId c = i" "content c = msg_text m"
  shows "run_checks E ts h =
           (if \<exists>t \<in> set ts. 30000 < t - lastUpdateTime c then repair_zombie E m h else h)"
proof (induction ts)
  case Nil
  show ?case by simp
next
  case (Cons t ts)
  have step: "checkStreamingState E t h =
                (if 30000 < t - lastUpdateTime c then repair_zombie E m h else h)"
    using checkStreamingState_streaming [OF assms(1-4), of E t] assms(5-7) by simp
  note r = repair_zombie_effect [OF assms(3), of E]
  have idle: "run_checks E ts (repair_zombie E m h) = repair_zombie E m h"
    using run_checks_idle [OF r(2) [OF assms(1)] r(5)] .
  show ?case
    using Cons step idle by simp
qed

text \<open>
  C3. The interval callback runs every 10000 ms. While a message streams, one check does
  this: with no record of an earlier check, or with a record of another id or another text,
  it records the id, the text and the time; with a record of the same id and text it does
  nothing while no more than 30000 ms have passed since the record, and after more than
  30000 ms it repairs. The repair finalizes the message (its streaming flag is cleared, and
  with it the store's streaming id), sets \<^verbatim>\<open>isWaitingForResponse\<close> to false, clears the task
  id, drops the record, and when the hook knows the database id of the conversation and
  the message is unsaved (not \<^verbatim>\<open>saved\<close>, no \<^verbatim>\<open>db_id\<close>) it marks the message pending and calls
  \<^verbatim>\<open>saveMessage\<close> with it (and marks it error when that call rejects). So whatever the record
  was before (none, one of an earlier text, or one of this text taken no later than the
  first check): when a check at \<open>t1\<close> and a check at \<open>t2\<close>, more than 30000 ms later, find the
  same streaming message with the same text, with any checks in between and nothing else
  changing the state, the message has been repaired once by the check at \<open>t2\<close>. And
  when other handlers did change the state in between, but the check at \<open>t2\<close> still finds
  the message streaming with that text and the record the check at \<open>t1\<close> left, the check at
  \<open>t2\<close> repairs.
\<close>

theorem C3_zombie_check:
  assumes "streamingMessageId (store h) = Some i" "i \<noteq> []"
    and "find_message i (store h) = Some m" "isStreaming m"
    and "case lastStreamingCheckRef h of None \<Rightarrow> True | Some c \<Rightarrow> lastUpdateTime c \<le> t1"
    and "30000 < t2 - t1"
  shows
    "checkStreamingState E t h =
       (case lastStreamingCheckRef h of
          None \<Rightarrow>
            h\<lparr>lastStreamingCheckRef :=
                Some \<lparr>messageId = i, content = msg_text m, lastUpdateTime = t\<rparr>\<rparr>
        | Some lastCheck \<Rightarrow>
            if messageId lastCheck = i \<and> content lastCheck = msg_text m
            then (if 30000 < t - lastUpdateTime lastCheck then repair_zombie E m h else h)
            else h\<lparr>lastStreamingCheckRef :=
                    Some \<lparr>messageId = i, content = msg_text m, lastUpdateTime = t\<rparr>\<rparr>)
     \<and> zombie_repaired E m h (repair_zombie E m h)
     \<and> zombie_repaired E m h (run_checks E (t1 # ts @ [t2]) h)
     \<and> (streamingMessageId (store g) = Some i \<and> find_message i (store g) = Some m'
          \<and> isStreaming m' \<and> msg_text m' = msg_text m
          \<and> lastStreamingCheckRef g = lastStreamingCheckRef (checkStreamingState E t1 h)
          \<and> lastStreamingCheckRef g \<noteq> None \<longrightarrow>
          checkStreamingState E t2 g = repair_zombie E m' g
          \<and> zombie_repaired E m' g (checkStreamingState E t2 g))
     \<and> zombie_repaired E m h
          (run_checks E
             [t1, t1 + ZOMBIE_CHECK_INTERVAL, t1 + 2 * ZOMBIE_CHECK_INTERVAL,
              t1 + 3 * ZOMBIE_CHECK_INTERVAL, t1 + 4 * ZOMBIE_CHECK_INTERVAL] h)
     \<and> ZOMBIE_CHECK_INTERVAL = 10000"
proof -
  note one = checkStreamingState_streaming [OF assms(1-4)]
  note rep = repair_zombie_repaired [OF assms(1) assms(3), of E]
  have recorded:
    "run_checks E (us @ [u2]) (h\<lparr>lastStreamingCheckRef := Some c\<rparr>) =
       repair_zombie E m (h\<lparr>lastStreamingCheckRef := Some c\<rparr>)"
    if "messageId c = i" "content c = msg_text m" "lastUpdateTime c \<le> t1" "30000 < u2 - t1"
    for c us u2
    using run_checks_recorded [of "h\<lparr>lastStreamingCheckRef := Some c\<rparr>" i m c E "us @ [u2]"]
      assms(1-4) that
    by auto
  have same: "zombie_repaired E m h (repair_zombie E m (h\<lparr>lastStreamingCheckRef := r\<rparr>))" for r
    using repair_zombie_repaired [of "h\<lparr>lastStreamingCheckRef := r\<rparr>" i m E] assms(1,3)
    by (simp add: zombie_repaired_def split: option.split)
  have many: "zombie_repaired E m h (run_checks E (t1 # us @ [u2]) h)"
    if late: "30000 < u2 - t1" for us u2
  proof (cases "lastStreamingCheckRef h")
    case None
    have "run_checks E (t1 # us @ [u2]) h =
            repair_zombie E m
              (h\<lparr>lastStreamingCheckRef :=
                   Some \<lparr>messageId = i, content = msg_text m, lastUpdateTime = t1\<rparr>\<rparr>)"
      using one [of E t1] None
        recorded [of "\<lparr>messageId = i, content = msg_text m, lastUpdateTime = t1\<rparr>" u2 us] late
      by simp
    then show ?thesis using same by simp
  next
    case (Some c)
    show ?thesis
    proof (cases "messageId c = i \<and> content c = msg_text m")
      case False
      have "run_checks E (t1 # us @ [u2]) h =
              repair_zombie E m
                (h\<lparr>lastStreamingCheckRef :=
                     Some \<lparr>messageId = i, content = msg_text m, lastUpdateTime = t1\<rparr>\<rparr>)"
        using one [of E t1] Some False
          recorded [of "\<lparr>messageId = i, content = msg_text m, lastUpdateTime = t1\<rparr>" u2 us] late
        by auto
      then show ?thesis using same by simp
    next
      case True
      have le: "lastUpdateTime c \<le> t1" using assms(5) Some by simp
      have hc: "h\<lparr>lastStreamingCheckRef := Some c\<rparr> = h"
        using Some by (cases h) simp
      have "run_checks E (t1 # us @ [u2]) h = repair_zombie E m h"
        using run_checks_recorded [OF assms(1-4) Some, of E "t1 # us @ [u2]"] True le late
        by auto
      then show ?thesis using rep by simp
    qed
  qed
  have five: "zombie_repaired E m h
          (run_checks E
             [t1, t1 + ZOMBIE_CHECK_INTERVAL, t1 + 2 * ZOMBIE_CHECK_INTERVAL,
              t1 + 3 * ZOMBIE_CHECK_INTERVAL, t1 + 4 * ZOMBIE_CHECK_INTERVAL] h)"
    using many [of "t1 + 4 * ZOMBIE_CHECK_INTERVAL"
        "[t1 + ZOMBIE_CHECK_INTERVAL, t1 + 2 * ZOMBIE_CHECK_INTERVAL,
          t1 + 3 * ZOMBIE_CHECK_INTERVAL]"]
    by (simp add: ZOMBIE_CHECK_INTERVAL_def del: run_checks.simps)
  have rec1: "lastStreamingCheckRef (checkStreamingState E t1 h) = None
              \<or> (\<exists>c. lastStreamingCheckRef (checkStreamingState E t1 h) = Some c
                      \<and> messageId c = i \<and> content c = msg_text m \<and> lastUpdateTime c \<le> t1)"
    using one [of E t1] assms(5) repair_zombie_effect(5) [OF assms(3), of E]
    by (auto split: option.splits)
  have later: "checkStreamingState E t2 g = repair_zombie E m' g
               \<and> zombie_repaired E m' g (checkStreamingState E t2 g)"
    if g: "streamingMessageId (store g) = Some i \<and> find_message i (store g) = Some m'
          \<and> isStreaming m' \<and> msg_text m' = msg_text m
          \<and> lastStreamingCheckRef g = lastStreamingCheckRef (checkStreamingState E t1 h)
          \<and> lastStreamingCheckRef g \<noteq> None"
  proof -
    from g rec1 obtain c where c: "lastStreamingCheckRef g = Some c" "messageId c = i"
      "content c = msg_text m" "lastUpdateTime c \<le> t1"
      by auto
    have gs: "streamingMessageId (store g) = Some i" "find_message i (store g) = Some m'"
      "isStreaming m'" "msg_text m' = msg_text m"
      using g by simp_all
    have e: "checkStreamingState E t2 g = repair_zombie E m' g"
      using checkStreamingState_streaming [OF gs(1) assms(2) gs(2) gs(3), of E t2] c gs(4) assms(6)
      by simp
    show ?thesis
      using e repair_zombie_repaired [OF gs(1) gs(2), of E] by simp
  qed
  have period: "ZOMBIE_CHECK_INTERVAL = 10000"
    by (simp add: ZOMBIE_CHECK_INTERVAL_def)
  from one [of E t] rep many [OF assms(6), of ts] later five period
  show ?thesis by blast
qed

theorem C3_witness:
  "zombie_repaired test_env
     ((new_message ''Hel'' False)\<lparr>msg_id := ''msg-2'', isStreaming := True\<rparr>)
     (stalled_hook\<lparr>lastStreamingCheckRef :=
        Some \<lparr>messageId = ''msg-2'', content = ''He'', lastUpdateTime = 0\<rparr>\<rparr>)
     (run_checks test_env [10000, 20000, 30000, 40000, 50000]
        (stalled_hook\<lparr>lastStreamingCheckRef :=
           Some \<lparr>messageId = ''msg-2'', content = ''He'', lastUpdateTime = 0\<rparr>\<rparr>))
   \<and> effects (run_checks test_env [10000, 20000, 30000, 40000, 50000]
        (stalled_hook\<lparr>lastStreamingCheckRef :=
           Some \<lparr>messageId = ''msg-2'', content = ''He'', lastUpdateTime = 0\<rparr>\<rparr>)) =
      [SaveMessage ((new_message ''Hel'' False)\<lparr>msg_id := ''msg-2'', isStreaming := True\<rparr>) ''db-1'']
   \<and> checkStreamingState test_env 50000
        (stalled_hook\<lparr>lastStreamingCheckRef :=
           Some \<lparr>messageId = ''msg-2'', content = ''Hel'', lastUpdateTime = 10000\<rparr>,
           isSubmittingRef := False\<rparr>) =
      repair_zombie test_env
        ((new_message ''Hel'' False)\<lparr>msg_id := ''msg-2'', isStreaming := True\<rparr>)
        (stalled_hook\<lparr>lastStreamingCheckRef :=
           Some \<lparr>messageId = ''msg-2'', content = ''Hel'', lastUpdateTime = 10000\<rparr>,
           isSubmittingRef := False\<rparr>)"
proof -
  let ?h = "stalled_hook\<lparr>lastStreamingCheckRef :=
              Some \<lparr>messageId = ''msg-2'', content = ''He'', lastUpdateTime = 0\<rparr>\<rparr>"
  let ?g = "stalled_hook\<lparr>lastStreamingCheckRef :=
              Some \<lparr>messageId = ''msg-2'', content = ''Hel'', lastUpdateTime = 10000\<rparr>,
              isSubmittingRef := False\<rparr>"
  let ?m = "(new_message ''Hel'' False)\<lparr>msg_id := ''msg-2'', isStreaming := True\<rparr>"
  have a: "streamingMessageId (store ?h) = Some ''msg-2''"
    by (simp add: stalled_hook_def)
  have b: "find_message ''msg-2'' (store ?h) = Some ?m"
    by (simp add: stalled_hook_def find_message_def)
  have c: "case lastStreamingCheckRef ?h of None \<Rightarrow> True | Some c \<Rightarrow> lastUpdateTime c \<le> 10000"
    by simp
  have e: "isStreaming ?m"
    by simp
  have f: "''msg-2'' \<noteq> []" by simp
  have g: "30000 < (50000 :: int) - 10000" by simp
  have d: "effects ?h = []" "dbConversationUUID ?h = Some ''db-1''"
    by (simp_all add: stalled_hook_def fresh_hook_def)
  note th = C3_zombie_check [OF a f b e c g, where E = test_env and ts = "[20000, 30000, 40000]"
      and t = 10000 and g = ?g and m' = ?m]
  have z: "zombie_repaired test_env ?m ?h
             (run_checks test_env [10000, 20000, 30000, 40000, 50000] ?h)"
    using th [THEN conjunct2, THEN conjunct2, THEN conjunct1]
    by (simp only: append.simps)
  then have "effects (run_checks test_env [10000, 20000, 30000, 40000, 50000] ?h) =
      [SaveMessage ?m ''db-1'']"
    unfolding zombie_repaired_def d by (simp add: new_message_def unsaved_def present_def)
  moreover have first: "checkStreamingState test_env 10000 ?h =
                 ?h\<lparr>lastStreamingCheckRef :=
                      Some \<lparr>messageId = ''msg-2'', content = ''Hel'', lastUpdateTime = 10000\<rparr>\<rparr>"
    using th [THEN conjunct1] by (simp add: new_message_def)
  have "streamingMessageId (store ?g) = Some ''msg-2'' \<and> find_message ''msg-2'' (store ?g) = Some ?m
        \<and> isStreaming ?m \<and> msg_text ?m = msg_text ?m
        \<and> lastStreamingCheckRef ?g = lastStreamingCheckRef (checkStreamingState test_env 10000 ?h)
        \<and> lastStreamingCheckRef ?g \<noteq> None"
    unfolding first by (simp add: stalled_hook_def find_message_def)
  then have "checkStreamingState test_env 50000 ?g = repair_zombie test_env ?m ?g"
    using th [THEN conjunct2, THEN conjunct2, THEN conjunct2, THEN conjunct1] by blast
  ultimately show ?thesis using z by blast
qed

subsection \<open>Stopping by hand\<close>

lemma flushChunkBuffer_message:
  assumes "find_message i (store h) = Some m" "i \<noteq> []"
  shows "find_message i (store (flushChunkBuffer (Some i) h)) =
           Some (m\<lparr>msg_text := msg_text m @ chunkBufferRef h\<rparr>)"
  using assms
  by (simp add: flushChunkBuffer_def clear_append_timer_def on_store_def appendMessageChunk_def
      find_message_updateMessage Let_def)

lemma flushChunkBuffer_fields:
  "chunkBufferRef (flushChunkBuffer (Some i) h) = (if i = [] then chunkBufferRef h else [])"
  "\<not> appendTimerRef (flushChunkBuffer j h)"
  "streamingMessageId (store (flushChunkBuffer j h)) = streamingMessageId (store h)"
  "isWaitingForResponse (store (flushChunkBuffer j h)) = isWaitingForResponse (store h)"
  "currentConversationId (store (flushChunkBuffer j h)) = currentConversationId (store h)"
  "currentTaskId (store (flushChunkBuffer j h)) = currentTaskId (store h)"
  "effects (flushChunkBuffer j h) = effects h"
  "isSubmittingRef (flushChunkBuffer j h) = isSubmittingRef h"
  "location (flushChunkBuffer j h) = location h"
  by (simp_all add: flushChunkBuffer_def clear_append_timer_def on_store_def
      appendMessageChunk_def Let_def split: option.split)

lemma log_effect_fields [simp]:
  "store (log_effect e h) = store h"
  "chunkBufferRef (log_effect e h) = chunkBufferRef h"
  "appendTimerRef (log_effect e h) = appendTimerRef h"
  "timerPending (log_effect e h) = timerPending h"
  "isSubmittingRef (log_effect e h) = isSubmittingRef h"
  "difyConversationId (log_effect e h) = difyConversationId h"
  "dbConversationUUID (log_effect e h) = dbConversationUUID h"
  "conversationAppId (log_effect e h) = conversationAppId h"
  "location (log_effect e h) = location h"
  "lastStreamingCheckRef (log_effect e h) = lastStreamingCheckRef h"
  by (simp_all add: log_effect_def)

lemma on_store_fields [simp]:
  "store (on_store f h) = f (store h)"
  "chunkBufferRef (on_store f h) = chunkBufferRef h"
  "appendTimerRef (on_store f h) = appendTimerRef h"
  "timerPending (on_store f h) = timerPending h"
  "isSubmittingRef (on_store f h) = isSubmittingRef h"
  "difyConversationId (on_store f h) = difyConversationId h"
  "dbConversationUUID (on_store f h) = dbConversationUUID h"
  "conversationAppId (on_store f h) = conversationAppId h"
  "location (on_store f h) = location h"
  "lastStreamingCheckRef (on_store f h) = lastStreamingCheckRef h"
  "effects (on_store f h) = effects h"
  by (simp_all add: on_store_def)

lemma urlIndicatesNew_cong [simp]:
  "urlIndicatesNew (log_effect e h) = urlIndicatesNew h"
  "urlIndicatesNew (on_store f h) = urlIndicatesNew h"
  by (simp_all add: urlIndicatesNew_def)

lemma save_recent_user_message_fields [simp]:
  "store (save_recent_user_message E d c h) = store h"
  "chunkBufferRef (save_recent_user_message E d c h) = chunkBufferRef h"
  "appendTimerRef (save_recent_user_message E d c h) = appendTimerRef h"
  "timerPending (save_recent_user_message E d c h) = timerPending h"
  "isSubmittingRef (save_recent_user_message E d c h) = isSubmittingRef h"
  by (simp_all add: save_recent_user_message_def save_def split: option.split)

lemma save_user_message_after_lookup_fields [simp]:
  "store (save_user_message_after_lookup E d h) = store h"
  "chunkBufferRef (save_user_message_after_lookup E d h) = chunkBufferRef h"
  "appendTimerRef (save_user_message_after_lookup E d h) = appendTimerRef h"
  "timerPending (save_user_message_after_lookup E d h) = timerPending h"
  "isSubmittingRef (save_user_message_after_lookup E d h) = isSubmittingRef h"
  by (simp_all add: save_user_message_after_lookup_def lookupConversation_def
      split: option.split outcome.split Result.split)

lemma clear_append_timer_fields [simp]:
  "store (clear_append_timer h) = store h"
  "chunkBufferRef (clear_append_timer h) = chunkBufferRef h"
  "\<not> appendTimerRef (clear_append_timer h)"
  "isSubmittingRef (clear_append_timer h) = isSubmittingRef h"
  "effects (clear_append_timer h) = effects h"
  "location (clear_append_timer h) = location h"
  by (simp_all add: clear_append_timer_def)

lemma stopped_metadata_cong:
  "metadata m' = metadata m \<Longrightarrow> stopped_metadata E m' = stopped_metadata E m"
  by (simp add: stopped_metadata_def)


lemma note_stream_completed_fields [simp]:
  "store (note_stream_completed h) = store h"
  "chunkBufferRef (note_stream_completed h) = chunkBufferRef h"
  "appendTimerRef (note_stream_completed h) = appendTimerRef h"
  "isSubmittingRef (note_stream_completed h) = isSubmittingRef h"
  by (simp_all add: note_stream_completed_def Let_def split: option.split)

lemma stop_remote_task_fields [simp]:
  "messages (store (stop_remote_task E usr task h)) = messages (store h)"
  "streamingMessageId (store (stop_remote_task E usr task h)) = streamingMessageId (store h)"
  "isWaitingForResponse (store (stop_remote_task E usr task h)) = isWaitingForResponse (store h)"
  "chunkBufferRef (stop_remote_task E usr task h) = chunkBufferRef h"
  "appendTimerRef (stop_remote_task E usr task h) = appendTimerRef h"
  "isSubmittingRef (stop_remote_task E usr task h) = isSubmittingRef h"
  by (simp_all add: stop_remote_task_def Let_def setCurrentTaskId_def split: option.split)

lemma find_message_stop_remote_task [simp]:
  "find_message i (store (stop_remote_task E usr task h)) = find_message i (store h)"
  by (simp add: find_message_def)

lemma mark_stopped_message_fields [simp]:
  "streamingMessageId (store (mark_stopped_message E i h)) = streamingMessageId (store h)"
  "isWaitingForResponse (store (mark_stopped_message E i h)) = isWaitingForResponse (store h)"
  "chunkBufferRef (mark_stopped_message E i h) = chunkBufferRef h"
  "appendTimerRef (mark_stopped_message E i h) = appendTimerRef h"
  "isSubmittingRef (mark_stopped_message E i h) = isSubmittingRef h"
  by (simp_all add: mark_stopped_message_def split: option.split)


lemma save_user_message_on_stop_fields [simp]:
  "store (save_user_message_on_stop E h0 h) = store h"
  "chunkBufferRef (save_user_message_on_stop E h0 h) = chunkBufferRef h"
  "appendTimerRef (save_user_message_on_stop E h0 h) = appendTimerRef h"
  "isSubmittingRef (save_user_message_on_stop E h0 h) = isSubmittingRef h"
  by (simp_all add: save_user_message_on_stop_def split: option.split)








section \<open>Properties of the stream\<close>

subsection \<open>One chunk\<close>

lemma find_snoc:
  "find P (xs @ [x]) = (case find P xs of None \<Rightarrow> (if P x then Some x else None) | Some y \<Rightarrow> Some y)"
  by (induction xs) auto

lemma find_message_addMessage:
  "find_message a st = None \<Longrightarrow>
   find_message a (snd (addMessage a p st)) = Some (p\<lparr>msg_id := a\<rparr>)"
  by (simp add: find_message_def addMessage_def Let_def find_snoc)

lemma find_message_addMessage_other:
  "i \<noteq> a \<Longrightarrow> find_message i (snd (addMessage a p st)) = find_message i st"
  by (simp add: find_message_def addMessage_def Let_def find_snoc split: option.split)

lemma text_of_flush:
  assumes "text_of i (store h) = Some t" "i \<noteq> []"
  shows "text_of i (store (flushChunkBuffer (Some i) h)) = Some (t @ chunkBufferRef h)"
  using assms flushChunkBuffer_message [of i h]
  by (auto simp add: text_of_def)

lemma buffer_chunk_rule:
  assumes "find_message i (store (hk r)) = Some m" "i \<noteq> []"
  shows "buffer_chunk i answerChunk t_test t_flushed r =
           (if CHUNK_APPEND_INTERVAL \<le> t_test - lastAppendTime r
               \<or> CHR 0x0A \<in> set (chunkBufferRef (hk r) @ answerChunk)
               \<or> 200 < js_length (chunkBufferRef (hk r) @ answerChunk)
            then r\<lparr>hk := flushChunkBuffer (Some i)
                           ((hk r)\<lparr>chunkBufferRef := chunkBufferRef (hk r) @ answerChunk\<rparr>),
                   lastAppendTime := t_flushed\<rparr>
            else if appendTimerRef (hk r)
            then r\<lparr>hk := (hk r)\<lparr>chunkBufferRef := chunkBufferRef (hk r) @ answerChunk\<rparr>\<rparr>
            else r\<lparr>hk := (hk r)\<lparr>chunkBufferRef := chunkBufferRef (hk r) @ answerChunk,
                                appendTimerRef := True, timerPending := True\<rparr>\<rparr>)"
  by (simp add: buffer_chunk_def Let_def)

lemma buffer_chunk_text:
  assumes "text_of i (store (hk r)) = Some t" "i \<noteq> []"
  shows "\<exists>t'. text_of i (store (hk (buffer_chunk i answerChunk t_test t_flushed r))) = Some t'
              \<and> t' @ chunkBufferRef (hk (buffer_chunk i answerChunk t_test t_flushed r)) =
                  t @ chunkBufferRef (hk r) @ answerChunk"
proof -
  let ?h1 = "(hk r)\<lparr>chunkBufferRef := chunkBufferRef (hk r) @ answerChunk\<rparr>"
  have t1: "text_of i (store ?h1) = Some t" using assms by simp
  have fl: "text_of i (store (flushChunkBuffer (Some i) ?h1)) =
              Some (t @ chunkBufferRef (hk r) @ answerChunk)"
    using text_of_flush [OF t1 assms(2)] by simp
  have fb: "chunkBufferRef (flushChunkBuffer (Some i) ?h1) = []"
    using assms(2) by (simp add: flushChunkBuffer_fields)
  show ?thesis
    using assms fl fb by (simp add: buffer_chunk_def Let_def)
qed

lemma buffer_chunk_fields:
  "assistantMessageId (buffer_chunk i c t1 t2 r) = assistantMessageId r"
  "broke (buffer_chunk i c t1 t2 r) = broke r"
  "streamingMessageId (store (hk (buffer_chunk i c t1 t2 r))) = streamingMessageId (store (hk r))"
  by (simp_all add: buffer_chunk_def Let_def flushChunkBuffer_fields)

lemma start_assistant_message_facts:
  assumes "find_message (newAssistantMessageId E) (store (hk r)) = None"
  shows "assistantMessageId (start_assistant_message E S r) = Some (newAssistantMessageId E)"
    and "streamingMessageId (store (hk (start_assistant_message E S r))) =
           Some (newAssistantMessageId E)"
    and "find_message (newAssistantMessageId E) (store (hk (start_assistant_message E S r))) =
           Some ((new_message [] False)
                   \<lparr>msg_id := newAssistantMessageId E, isStreaming := True\<rparr>)"
    and "chunkBufferRef (hk (start_assistant_message E S r)) = chunkBufferRef (hk r)"
    and "broke (start_assistant_message E S r) = broke r"
proof -
  have f: "find_message (newAssistantMessageId E)
             (snd (addMessage (newAssistantMessageId E)
                     ((new_message [] False)\<lparr>isStreaming := True\<rparr>) (store (hk r)))) =
           Some ((new_message [] False)\<lparr>msg_id := newAssistantMessageId E, isStreaming := True\<rparr>)"
    using find_message_addMessage [OF assms, of "(new_message [] False)\<lparr>isStreaming := True\<rparr>"]
    by (simp add: new_message_def)
  have i: "msg_id (fst (addMessage (newAssistantMessageId E) p st)) = newAssistantMessageId E"
    for p st
    by (simp add: addMessage_def Let_def)
  show "assistantMessageId (start_assistant_message E S r) = Some (newAssistantMessageId E)"
    by (simp add: start_assistant_message_def Let_def i split: prod.split)
       (metis i fst_conv)
  show "streamingMessageId (store (hk (start_assistant_message E S r))) =
           Some (newAssistantMessageId E)"
    by (simp add: start_assistant_message_def Let_def when_present_def setIsWaitingForResponse_def
        split: prod.split option.split)
       (metis i fst_conv)
  show "find_message (newAssistantMessageId E) (store (hk (start_assistant_message E S r))) =
           Some ((new_message [] False)
                   \<lparr>msg_id := newAssistantMessageId E, isStreaming := True\<rparr>)"
    using f
    by (simp add: start_assistant_message_def Let_def when_present_def setIsWaitingForResponse_def
        split: prod.split option.split)
       (metis snd_conv)
  show "chunkBufferRef (hk (start_assistant_message E S r)) = chunkBufferRef (hk r)"
    by (simp add: start_assistant_message_def Let_def when_present_def
        split: prod.split option.split)
  show "broke (start_assistant_message E S r) = broke r"
    by (simp add: start_assistant_message_def Let_def split: prod.split)
qed

lemma on_chunk_inv:
  assumes inv: "streaming_inv (newAssistantMessageId E) received r"
    and ne: "newAssistantMessageId E \<noteq> []"
  shows "streaming_inv (newAssistantMessageId E) (received @ [answerChunk])
           (on_chunk E S answerChunk t_test t_flushed r)"
proof (cases "assistantMessageId r")
  case None
  let ?a = "newAssistantMessageId E"
  let ?r1 = "start_assistant_message E S r"
  from inv None have pre: "\<not> broke r" "streamingMessageId (store (hk r)) = None" "received = []"
    "chunkBufferRef (hk r) = []" "find_message ?a (store (hk r)) = None"
    by (simp_all add: streaming_inv_def)
  note s = start_assistant_message_facts [OF pre(5), of S]
  have e: "on_chunk E S answerChunk t_test t_flushed r =
             buffer_chunk ?a answerChunk t_test t_flushed ?r1"
    using None pre(2) s(1) s(2) ne by (simp add: on_chunk_def Let_def when_present_def)
  have t: "text_of ?a (store (hk ?r1)) = Some []"
    using s(3) by (simp add: text_of_def new_message_def)
  from buffer_chunk_text [OF t ne, of answerChunk t_test t_flushed]
  obtain t' where t': "text_of ?a (store (hk (buffer_chunk ?a answerChunk t_test t_flushed ?r1))) = Some t'"
    "t' @ chunkBufferRef (hk (buffer_chunk ?a answerChunk t_test t_flushed ?r1)) =
       [] @ chunkBufferRef (hk ?r1) @ answerChunk"
    by blast
  show ?thesis
    unfolding e
    using t' s pre by (simp add: streaming_inv_def buffer_chunk_fields)
next
  case (Some i)
  let ?a = "newAssistantMessageId E"
  from inv Some have pre: "\<not> broke r" "i = ?a" "streamingMessageId (store (hk r)) = Some ?a"
    by (simp_all add: streaming_inv_def)
  from inv Some obtain t where t: "text_of ?a (store (hk r)) = Some t"
    "t @ chunkBufferRef (hk r) = concat received"
    by (auto simp add: streaming_inv_def split: option.splits)
  have e: "on_chunk E S answerChunk t_test t_flushed r =
             buffer_chunk ?a answerChunk t_test t_flushed r"
    using Some pre ne by (simp add: on_chunk_def Let_def when_present_def)
  from buffer_chunk_text [OF t(1) ne, of answerChunk t_test t_flushed]
  obtain t' where t': "text_of ?a (store (hk (buffer_chunk ?a answerChunk t_test t_flushed r))) = Some t'"
    "t' @ chunkBufferRef (hk (buffer_chunk ?a answerChunk t_test t_flushed r)) =
       t @ chunkBufferRef (hk r) @ answerChunk"
    by blast
  show ?thesis
    unfolding e
    using t' t Some pre by (simp add: streaming_inv_def buffer_chunk_fields)
qed

lemma on_timer_inv:
  assumes inv: "streaming_inv a received r" and ne: "a \<noteq> []"
  shows "streaming_inv a received (on_timer t r)"
proof (cases "timerPending (hk r)")
  case False
  then show ?thesis using inv by (simp add: on_timer_def)
next
  case True
  show ?thesis
  proof (cases "assistantMessageId r")
    case None
    then show ?thesis
      using inv True
      by (simp add: on_timer_def streaming_inv_def flushChunkBuffer_def
          clear_append_timer_def Let_def)
  next
    case (Some i)
    from inv Some have pre: "\<not> broke r" "i = a" "streamingMessageId (store (hk r)) = Some a"
      by (simp_all add: streaming_inv_def)
    from inv Some obtain tx where tx: "text_of a (store (hk r)) = Some tx"
      "tx @ chunkBufferRef (hk r) = concat received" "received \<noteq> []"
      by (auto simp add: streaming_inv_def split: option.splits)
    let ?h = "(hk r)\<lparr>timerPending := False\<rparr>"
    have t1: "text_of a (store ?h) = Some tx" using tx by simp
    have fl: "text_of a (store (flushChunkBuffer (Some a) ?h)) = Some (tx @ chunkBufferRef (hk r))"
      using text_of_flush [OF t1 ne] by simp
    have fb: "chunkBufferRef (flushChunkBuffer (Some a) ?h) = []"
      using ne by (simp add: flushChunkBuffer_fields)
    show ?thesis
      using True Some pre tx fl fb
      by (simp add: on_timer_def streaming_inv_def flushChunkBuffer_fields)
  qed
qed

lemma stream_loop_inv:
  assumes "StopPressed \<notin> set es"
    and "streaming_inv (newAssistantMessageId E) received r"
    and "newAssistantMessageId E \<noteq> []"
  shows "streaming_inv (newAssistantMessageId E) (received @ chunks_of es)
           (stream_loop E S es r)"
  using assms
proof (induction es arbitrary: received r)
  case Nil
  then show ?case by simp
next
  case (Cons e es)
  show ?case
  proof (cases e)
    case (Chunk answerChunk t_test t_flushed)
    have step: "streaming_inv (newAssistantMessageId E) (received @ [answerChunk])
                  (on_chunk E S answerChunk t_test t_flushed r)"
      using on_chunk_inv [OF Cons.prems(2) Cons.prems(3)] .
    then have nb: "\<not> broke (on_chunk E S answerChunk t_test t_flushed r)"
      by (simp add: streaming_inv_def)
    have "streaming_inv (newAssistantMessageId E)
            ((received @ [answerChunk]) @ chunks_of es)
            (stream_loop E S es (on_chunk E S answerChunk t_test t_flushed r))"
      using Cons.IH [OF _ step Cons.prems(3)] Cons.prems(1) by simp
    then show ?thesis
      using Chunk nb by (simp add: Let_def)
  next
    case (TimerFired t)
    have step: "streaming_inv (newAssistantMessageId E) received (on_timer t r)"
      using on_timer_inv [OF Cons.prems(2) Cons.prems(3)] .
    then have nb: "\<not> broke (on_timer t r)"
      by (simp add: streaming_inv_def)
    have "streaming_inv (newAssistantMessageId E) (received @ chunks_of es)
            (stream_loop E S es (on_timer t r))"
      using Cons.IH [OF _ step Cons.prems(3)] Cons.prems(1) by simp
    then show ?thesis
      using TimerFired nb by (simp add: Let_def)
  next
    case StopPressed
    then show ?thesis using Cons.prems(1) by simp
  qed
qed

subsection \<open>The whole stream\<close>

lemma read_stream_result:
  assumes "StopPressed \<notin> set (answerChunks E)"
    and "streaming_inv (newAssistantMessageId E) [] r"
    and "newAssistantMessageId E \<noteq> []"
    and "streamFailure E = None"
  shows "fst (read_stream E S r) = None"
    and "chunks_of (answerChunks E) = [] \<Longrightarrow>
         assistantMessageId (snd (read_stream E S r)) = None
         \<and> find_message (newAssistantMessageId E) (store (hk (snd (read_stream E S r)))) = None"
    and "chunks_of (answerChunks E) \<noteq> [] \<Longrightarrow>
         assistantMessageId (snd (read_stream E S r)) = Some (newAssistantMessageId E)
         \<and> text_of (newAssistantMessageId E) (store (hk (snd (read_stream E S r)))) =
             Some (concat (chunks_of (answerChunks E)))
         \<and> chunkBufferRef (hk (snd (read_stream E S r))) = []"
proof -
  let ?a = "newAssistantMessageId E"
  let ?rl = "stream_loop E S (answerChunks E) r"
  have inv: "streaming_inv ?a (chunks_of (answerChunks E)) ?rl"
    using stream_loop_inv [OF assms(1) assms(2) assms(3), of S] by simp
  have e: "read_stream E S r = (None, in_hook (flushChunkBuffer (assistantMessageId ?rl)) ?rl)"
    using assms(4) by (simp add: read_stream_def Let_def)
  show "fst (read_stream E S r) = None" by (simp add: e)
  show "chunks_of (answerChunks E) = [] \<Longrightarrow>
         assistantMessageId (snd (read_stream E S r)) = None
         \<and> find_message ?a (store (hk (snd (read_stream E S r)))) = None"
    using inv
    by (cases "assistantMessageId ?rl")
       (simp_all add: e streaming_inv_def in_hook_def flushChunkBuffer_def
          clear_append_timer_def Let_def)
  show "chunks_of (answerChunks E) \<noteq> [] \<Longrightarrow>
         assistantMessageId (snd (read_stream E S r)) = Some ?a
         \<and> text_of ?a (store (hk (snd (read_stream E S r)))) =
             Some (concat (chunks_of (answerChunks E)))
         \<and> chunkBufferRef (hk (snd (read_stream E S r))) = []"
  proof -
    assume ne: "chunks_of (answerChunks E) \<noteq> []"
    from inv ne have i: "assistantMessageId ?rl = Some ?a"
      by (auto simp add: streaming_inv_def split: option.splits)
    from inv i obtain t where t: "text_of ?a (store (hk ?rl)) = Some t"
      "t @ chunkBufferRef (hk ?rl) = concat (chunks_of (answerChunks E))"
      by (auto simp add: streaming_inv_def split: option.splits)
    show ?thesis
      using i t text_of_flush [OF t(1) assms(3)] assms(3)
      by (simp add: e in_hook_def flushChunkBuffer_fields)
  qed
qed

subsection \<open>Opening the stream leaves the messages alone\<close>

lemma keeps_run_refl [simp]: "keeps_run r r"
  by (simp add: keeps_run_def keeps_stream_def)

lemma keeps_run_trans: "keeps_run r r1 \<Longrightarrow> keeps_run r1 r2 \<Longrightarrow> keeps_run r r2"
  by (simp add: keeps_run_def keeps_stream_def)

lemma keeps_run_fields [simp]:
  "keeps_run r (r'\<lparr>finalDbConvUUID := x\<rparr>) = keeps_run r r'"
  "keeps_run r (r'\<lparr>finalRealConvId := y\<rparr>) = keeps_run r r'"
  "keeps_run r (r'\<lparr>finalTaskId := z\<rparr>) = keeps_run r r'"
  "keeps_run r (r'\<lparr>hasAnswerStream := b\<rparr>) = keeps_run r r'"
  "keeps_run r (r'\<lparr>hasCompletionPromise := c\<rparr>) = keeps_run r r'"
  "keeps_run r (r'\<lparr>lateLookup := d\<rparr>) = keeps_run r r'"
  by (simp_all add: keeps_run_def)

lemma keeps_run_when_present:
  assumes "\<And>v s. keeps_run s (f v s)"
  shows "keeps_run r (when_present x f r)"
  using assms by (simp add: when_present_def split: option.split)

lemma keeps_run_effect [simp]:
  "keeps_run r (in_hook (log_effect e) r)"
  "keeps_run r (in_hook (setDbConversationUUID u) r)"
  "keeps_run r (in_hook (setDifyConversationId v) r)"
  "keeps_run r (in_hook (on_store (setCurrentConversationId c)) r)"
  "keeps_run r (in_hook (on_store (setCurrentTaskId t)) r)"
  "keeps_run r (in_hook (save_logged E m k) r)"
  "keeps_run r (in_hook (route_to_conversation E i) r)"
  by (simp_all add: keeps_run_def keeps_stream_def in_hook_def setDbConversationUUID_def
      setDifyConversationId_def setCurrentConversationId_def setCurrentTaskId_def
      save_logged_def save_def route_to_conversation_def)

lemma keeps_run_adopt: "keeps_run r (adopt_found_conversation E i reset r)"
  by (simp add: adopt_found_conversation_def lookupConversation_def keeps_run_def
      keeps_stream_def setDbConversationUUID_def
      split: outcome.split Result.split option.split)

lemma keeps_run_on_db_id: "keeps_run r (on_db_id E S dbId r)"
  by (simp add: on_db_id_def Let_def keeps_run_def keeps_stream_def in_hook_def
      setDbConversationUUID_def save_logged_def save_def)

lemma keeps_run_on_conversation_id: "keeps_run r (on_conversation_id E S x r)"
  unfolding on_conversation_id_def
proof (rule keeps_run_when_present)
  fix v s
  have a: "keeps_run s (in_hook (setDifyConversationId (Some v)) s)" by simp
  have b: "keeps_run s (in_hook (on_store (setCurrentConversationId (Some v)))
             (in_hook (setDifyConversationId (Some v)) s))"
    by (rule keeps_run_trans [OF a]) simp
  have c: "keeps_run s (in_hook (route_to_conversation E v)
             (in_hook (on_store (setCurrentConversationId (Some v)))
               (in_hook (setDifyConversationId (Some v)) s)))"
    by (rule keeps_run_trans [OF b]) simp
  have d: "keeps_run s (adopt_found_conversation E v False (in_hook (route_to_conversation E v)
             (in_hook (on_store (setCurrentConversationId (Some v)))
               (in_hook (setDifyConversationId (Some v)) s))))"
    by (rule keeps_run_trans [OF c keeps_run_adopt])
  show "keeps_run s
          (if closureDifyConversationId S \<noteq> Some v
           then let ra = in_hook (setDifyConversationId (Some v)) s;
                    rb = in_hook (on_store (setCurrentConversationId (Some v))) ra;
                    rc = in_hook (route_to_conversation E v) rb
                in if \<not> present (finalDbConvUUID rc)
                   then adopt_found_conversation E v False rc else rc
           else s)"
    using c d by (simp add: Let_def)
qed

lemma keeps_runD:
  assumes "keeps_run r r'"
  shows "messages (store (hk r')) = messages (store (hk r))"
    and "streamingMessageId (store (hk r')) = streamingMessageId (store (hk r))"
    and "chunkBufferRef (hk r') = chunkBufferRef (hk r)"
    and "assistantMessageId r' = assistantMessageId r"
    and "broke r' = broke r"
    and "lastAppendTime r' = lastAppendTime r"
  using assms by (simp_all add: keeps_run_def keeps_stream_def)

lemmas keeps_run_effect_simps [simp] =
  keeps_runD [OF keeps_run_effect(1)] keeps_runD [OF keeps_run_effect(2)]
  keeps_runD [OF keeps_run_effect(3)] keeps_runD [OF keeps_run_effect(4)]
  keeps_runD [OF keeps_run_effect(5)] keeps_runD [OF keeps_run_effect(6)]
  keeps_runD [OF keeps_run_effect(7)]

lemmas keeps_run_adopt_simps [simp] = keeps_runD [OF keeps_run_adopt]

lemmas keeps_run_on_db_id_simps [simp] = keeps_runD [OF keeps_run_on_db_id]

lemmas keeps_run_on_conversation_id_simps [simp] = keeps_runD [OF keeps_run_on_conversation_id]

lemma keeps_run_find_existing: "keeps_run r (find_existing_db_id E S r)"
  by (simp add: find_existing_db_id_def keeps_run_def keeps_stream_def when_present_def
      split: option.split)

lemma keeps_run_save_early: "keeps_run r (save_user_message_early E S r)"
  by (simp add: save_user_message_early_def keeps_run_def keeps_stream_def when_present_def
      split: option.split)

lemma keeps_run_adopt_creation: "keeps_run r (adopt_creation_result E creationResult r)"
  by (simp add: adopt_creation_result_def Let_def keeps_run_def keeps_stream_def
      when_present_def split: option.split)

lemma keeps_run_adopt_response: "keeps_run r (adopt_stream_response E S streamServiceResponse r)"
proof -
  have task: "keeps_run s (when_present x
                (\<lambda>t r. if currentTaskId (store (hk r)) \<noteq> Some t
                       then in_hook (on_store (setCurrentTaskId (Some t))) r
                       else r) s)" for s x
    by (rule keeps_run_when_present) simp
  have conv: "keeps_run s (when_present x
                (\<lambda>i r.
                    if Some i \<noteq> closureDifyConversationId S
                    then (let ra = in_hook (setDifyConversationId (Some i)) r
                          in if \<not> present (finalDbConvUUID ra)
                             then adopt_found_conversation E i False ra
                             else ra)
                    else r) s)" for s x
    by (rule keeps_run_when_present) (simp add: Let_def keeps_run_def keeps_stream_def)
  show ?thesis
    unfolding adopt_stream_response_def Let_def
    by (rule keeps_run_trans [OF _ task], rule keeps_run_trans [OF _ conv [unfolded Let_def]])
       simp
qed

lemma keeps_run_open_new: "keeps_run r (snd (open_new_conversation E S r))"
proof -
  define r0 where "r0 = in_hook (log_effect
                  (InitiateNewConversation (new_conversation_payload S) (appId S) (user S))) r"
  define r1 where "r1 = (case dbIdCallback E of
                  None \<Rightarrow> r0
                | Some (difyId, dbId) \<Rightarrow> on_db_id E S dbId r0)"
  have k0: "keeps_run r r0" by (simp add: r0_def)
  have k1: "keeps_run r r1"
    unfolding r1_def using k0 keeps_run_trans [OF k0 keeps_run_on_db_id]
    by (simp split: option.split prod.split)
  have k2: "keeps_run r (adopt_creation_result E creationResult r1)" for creationResult
    by (rule keeps_run_trans [OF k1 keeps_run_adopt_creation])
  show ?thesis
    unfolding open_new_conversation_def Let_def r0_def [symmetric] r1_def [symmetric]
    using k1 k2 by (simp split: outcome.split option.split)
qed

lemma keeps_run_open_existing: "keeps_run r (snd (open_existing_conversation E S r))"
proof -
  define r4 where "r4 = on_conversation_id E S (conversationIdCallback E)
                          (in_hook (log_effect
                             (StreamDifyChat (existing_conversation_payload S) (appId S)))
                             (save_user_message_early E S (find_existing_db_id E S r)))"
  have k4: "keeps_run r r4"
    unfolding r4_def
    by (rule keeps_run_trans [OF _ keeps_run_on_conversation_id],
        rule keeps_run_trans [OF _ keeps_run_effect(1)],
        rule keeps_run_trans [OF _ keeps_run_save_early],
        rule keeps_run_find_existing)
  have k5: "keeps_run r (adopt_stream_response E S streamServiceResponse r4)"
    for streamServiceResponse
    by (rule keeps_run_trans [OF k4 keeps_run_adopt_response])
  show ?thesis
    unfolding open_existing_conversation_def Let_def r4_def [symmetric]
    using k4 k5 by (simp split: outcome.split)
qed

lemma snd_open_stream:
  "snd (open_stream E S r) =
     snd (if isNewConversationFlow S then open_new_conversation E S r
          else open_existing_conversation E S r)"
  by (simp add: open_stream_def split: prod.split option.split)

lemma keeps_run_open_stream: "keeps_run r (snd (open_stream E S r))"
  unfolding snd_open_stream using keeps_run_open_new keeps_run_open_existing by simp

subsection \<open>After the stream, no text changes\<close>

lemma texts_updateMessage:
  assumes "\<And>m. msg_id (f m) = msg_id m" "\<And>m. msg_text (f m) = msg_text m"
  shows "texts (updateMessage j f st) = texts st"
  using assms by (simp add: texts_def updateMessage_def)

lemma texts_fields [simp]:
  "texts (st\<lparr>streamingMessageId := s\<rparr>) = texts st"
  "texts (st\<lparr>isWaitingForResponse := w\<rparr>) = texts st"
  "texts (st\<lparr>currentConversationId := c\<rparr>) = texts st"
  "texts (st\<lparr>currentTaskId := t\<rparr>) = texts st"
  by (simp_all add: texts_def)

lemma texts_store_actions [simp]:
  "texts (finalizeStreamingMessage i st) = texts st"
  "texts (markAsManuallyStopped i st) = texts st"
  "texts (setMessageError i e st) = texts st"
  "texts (setIsWaitingForResponse b st) = texts st"
  "texts (setCurrentConversationId c st) = texts st"
  "texts (setCurrentTaskId t st) = texts st"
  "texts (updateMessage i (\<lambda>m. m\<lparr>persistenceStatus := p\<rparr>) st) = texts st"
  "texts (updateMessage i (\<lambda>m. m\<lparr>metadata := md, token_count := tc, persistenceStatus := p\<rparr>) st) = texts st"
  by (simp_all add: finalizeStreamingMessage_def markAsManuallyStopped_def setMessageError_def
      setIsWaitingForResponse_def setCurrentConversationId_def setCurrentTaskId_def
      texts_updateMessage)

lemma find_texts:
  "map_option msg_text (find (\<lambda>m. msg_id m = a) xs) =
     map_option snd (find (\<lambda>p. fst p = a) (map (\<lambda>m. (msg_id m, msg_text m)) xs))"
  by (induction xs) auto

lemma text_of_texts: "texts st' = texts st \<Longrightarrow> text_of a st' = text_of a st"
  by (simp add: text_of_def find_message_def find_texts texts_def)

lemma hook_setters_fields [simp]:
  "store (setDbConversationUUID u h) = store h"
  "chunkBufferRef (setDbConversationUUID u h) = chunkBufferRef h"
  "store (setDifyConversationId v h) = store h"
  "chunkBufferRef (setDifyConversationId v h) = chunkBufferRef h"
  "store (save_logged E m k h) = store h"
  "chunkBufferRef (save_logged E m k h) = chunkBufferRef h"
  "store (route_to_conversation E i h) = store h"
  "chunkBufferRef (route_to_conversation E i h) = chunkBufferRef h"
  "store (snd (save E m k h)) = store h"
  "chunkBufferRef (snd (save E m k h)) = chunkBufferRef h"
  "store (snd (lookupConversation E i h)) = store h"
  "chunkBufferRef (snd (lookupConversation E i h)) = chunkBufferRef h"
  by (simp_all add: setDbConversationUUID_def setDifyConversationId_def save_logged_def
      save_def route_to_conversation_def lookupConversation_def)

lemma keeps_texts_refl [simp]: "keeps_texts h h"
  by (simp add: keeps_texts_def)

lemma keeps_texts_trans: "keeps_texts h h1 \<Longrightarrow> keeps_texts h1 h2 \<Longrightarrow> keeps_texts h h2"
  by (simp add: keeps_texts_def)

lemma keeps_texts_save_assistant: "keeps_texts h (save_assistant_message E i c h)"
  by (simp add: save_assistant_message_def Let_def keeps_texts_def save_def
      split: option.split prod.split)

lemma keeps_texts_save_in_finally: "keeps_texts h (save_in_finally E i c h)"
  by (simp add: save_in_finally_def Let_def keeps_texts_def split: option.split)

lemma keeps_texts_apply_completion: "keeps_texts (hk r) (hk (apply_completion E r))"
  by (simp add: apply_completion_def Let_def keeps_texts_def when_present_def in_hook_def
      split: option.split outcome.split)

lemma keeps_textsD:
  assumes "keeps_texts h h'"
  shows "texts (store h') = texts (store h)" and "chunkBufferRef h' = chunkBufferRef h"
  using assms by (simp_all add: keeps_texts_def)

lemmas keeps_texts_save_simps [simp] =
  keeps_textsD [OF keeps_texts_save_assistant] keeps_textsD [OF keeps_texts_save_in_finally]

lemma in_hook_hk [simp]: "hk (in_hook f r) = f (hk r)"
  by (simp add: in_hook_def)


lemma keeps_texts_when_present:
  assumes "\<And>v s. keeps_texts (hk s) (hk (f v s))"
  shows "keeps_texts (hk r) (hk (when_present x f r))"
  using assms by (simp add: when_present_def split: option.split)

lemma keeps_texts_sync_ids: "keeps_texts (hk r) (hk (sync_ids E S r))"
proof -
  define step1 where "step1 = (\<lambda>i r.
                    (let ra = (if closureDifyConversationId S \<noteq> Some i
                               then in_hook (setDifyConversationId (Some i)) r else r);
                         rb = (if currentConversationId (store (hk ra)) \<noteq> Some i
                               then in_hook (on_store (setCurrentConversationId (Some i))) ra
                               else ra)
                     in in_hook (route_to_conversation E i) rb))"
  define step2 where "step2 = (\<lambda>t r. if currentTaskId (store (hk r)) \<noteq> Some t
                        then in_hook (on_store (setCurrentTaskId (Some t))) r
                        else r)"
  define step3 where "step3 =
    (\<lambda>i. in_hook (log_effect (UpdatePendingStatus i ''stream_completed_title_pending'')))"
  define r1 where "r1 = when_present (finalRealConvId r) step1 r"
  define r2 where "r2 = when_present (finalTaskId r1) step2 r1"
  have "keeps_texts (hk s) (hk (step1 i s))" for i s
    by (simp add: step1_def Let_def keeps_texts_def)
  then have k1: "keeps_texts (hk r) (hk r1)"
    unfolding r1_def by (rule keeps_texts_when_present)
  have "keeps_texts (hk s) (hk (step2 i s))" for i s
    by (simp add: step2_def keeps_texts_def)
  then have k2: "keeps_texts (hk r1) (hk r2)"
    unfolding r2_def by (rule keeps_texts_when_present)
  have "keeps_texts (hk s) (hk (step3 i s))" for i s
    by (simp add: step3_def keeps_texts_def)
  then have k3: "keeps_texts (hk r2) (hk (when_present (finalRealConvId r2) step3 r2))"
    by (rule keeps_texts_when_present)
  have "sync_ids E S r =
      (if isNewConversationFlow S then when_present (finalRealConvId r2) step3 r2 else r2)"
    by (simp add: sync_ids_def Let_def r2_def r1_def step1_def step2_def step3_def)
  then show ?thesis
    using keeps_texts_trans [OF k1 k2] keeps_texts_trans [OF keeps_texts_trans [OF k1 k2] k3]
    by simp
qed
lemma keeps_texts_db_id: "keeps_texts (hk r) (hk (snd (db_id_for_saving E S r)))"
  by (simp add: db_id_for_saving_def Let_def keeps_texts_def lookupConversation_def
      split: option.split outcome.split Result.split)

lemma keeps_texts_save_both: "keeps_texts (hk r) (hk (save_both_messages E S c r))"
  by (simp add: save_both_messages_def Let_def keeps_texts_def when_present_def
      split: option.split)

lemma keeps_texts_persist: "keeps_texts (hk r) (hk (persist_after_stream E S r))"
proof -
  obtain c r1 where d: "db_id_for_saving E S r = (c, r1)" by (cases "db_id_for_saving E S r")
  have k1: "keeps_texts (hk r) (hk r1)" using keeps_texts_db_id [of r E S] d by simp
  have k2: "keeps_texts (hk r1) (hk (when_present c (save_both_messages E S) r1))"
    by (rule keeps_texts_when_present) (rule keeps_texts_save_both)
  show ?thesis
    using k1 keeps_texts_trans [OF k1 k2]
    by (simp add: persist_after_stream_def d keeps_texts_def)
qed
lemma keeps_texts_finish: "keeps_texts (hk r) (hk (finish_streaming_message E S i fm r))"
proof -
  define ra where "ra = in_hook (on_store (finalizeStreamingMessage i)) r"
  define stepb where "stepb = (\<lambda>c r. if unsaved fm
                        then in_hook (save_in_finally E i c) r
                        else r)"
  define stepc where "stepc = (\<lambda>c r. if location (hk r) = chat_path c
                        then in_hook (log_effect (SelectItem ''chat'' c True)) r
                        else r)"
  define stepd where "stepd = (\<lambda>c. in_hook (log_effect
                   (UpdatePendingStatus c ''stream_completed_title_pending'')))"
  define rb where "rb = when_present (if present (finalDbConvUUID ra) then finalDbConvUUID ra
                             else closureDbConversationUUID S) stepb ra"
  define rc where "rc = when_present (currentConversationId (store (hk rb))) stepc rb"
  have ka: "keeps_texts (hk r) (hk ra)"
    by (simp add: ra_def keeps_texts_def)
  have "keeps_texts (hk s) (hk (stepb c s))" for c s
    by (simp add: stepb_def keeps_texts_def)
  then have kb: "keeps_texts (hk ra) (hk rb)"
    unfolding rb_def by (rule keeps_texts_when_present)
  have "keeps_texts (hk s) (hk (stepc c s))" for c s
    by (simp add: stepc_def keeps_texts_def)
  then have kc: "keeps_texts (hk rb) (hk rc)"
    unfolding rc_def by (rule keeps_texts_when_present)
  have "keeps_texts (hk s) (hk (stepd c s))" for c s
    by (simp add: stepd_def keeps_texts_def)
  then have kd: "keeps_texts (hk rc) (hk (when_present (finalRealConvId rc) stepd rc))"
    by (rule keeps_texts_when_present)
  have kabc: "keeps_texts (hk r) (hk rc)"
    using ka kb kc by (blast intro: keeps_texts_trans)
  have "finish_streaming_message E S i fm r =
      (if isNewConversationFlow S then when_present (finalRealConvId rc) stepd rc else rc)"
    unfolding finish_streaming_message_def Let_def rc_def rb_def ra_def stepb_def stepc_def
      stepd_def ..
  then show ?thesis
    using kabc keeps_texts_trans [OF kabc kd] by simp
qed

lemma keeps_texts_finally: "keeps_texts (hk r) (hk (finally_block E S r))"
proof -
  define r0 where "r0 = in_hook (\<lambda>h. if appendTimerRef h then h\<lparr>timerPending := False\<rparr> else h) r"
  define g where "g = (\<lambda>i r. case find_message i (store (hk r)) of
                      None \<Rightarrow> r
                    | Some finalMessageState \<Rightarrow>
                        if isStreaming finalMessageState
                        then finish_streaming_message E S i finalMessageState r
                        else r)"
  have k0: "keeps_texts (hk r) (hk r0)" by (simp add: r0_def keeps_texts_def)
  have "keeps_texts (hk s) (hk (g i s))" for s i
    using keeps_texts_finish by (simp add: g_def split: option.split)
  then have k1: "keeps_texts (hk r0) (hk (when_present (assistantMessageId r0) g r0))"
    by (rule keeps_texts_when_present)
  have "finally_block E S r =
      (let r2 = in_hook (on_store (setIsWaitingForResponse False))
                  (when_present (assistantMessageId r0) g r0)
       in r2\<lparr>hk := (hk r2)\<lparr>isSubmittingRef := False\<rparr>\<rparr>)"
    unfolding finally_block_def Let_def r0_def g_def ..
  then show ?thesis
    using keeps_texts_trans [OF k0 k1] by (simp add: Let_def keeps_texts_def)
qed
lemma keeps_texts_late_lookup: "keeps_texts (hk r) (hk (late_lookup E S r))"
  by (simp add: late_lookup_def Let_def keeps_texts_def when_present_def lookupConversation_def
      split: option.split outcome.split Result.split)

subsection \<open>From the submission to the stream\<close>

lemma select_app_store [simp]: "store (snd (select_app E h)) = store h"
  by (simp add: select_app_def Let_def split: option.split outcome.split)

lemma leave_welcome_screen_store [simp]: "store (leave_welcome_screen E h) = store h"
  by (simp add: leave_welcome_screen_def Let_def)

lemma begin_submission_run:
  "assistantMessageId (snd (begin_submission E usr app msg files inp h)) = None"
  "\<not> broke (snd (begin_submission E usr app msg files inp h))"
  "lastAppendTime (snd (begin_submission E usr app msg files inp h)) = dateNow E"
  "chunkBufferRef (hk (snd (begin_submission E usr app msg files inp h))) = []"
  by (simp_all add: begin_submission_def Let_def split_def)

lemma begin_submission_store:
  "streamingMessageId (store (hk (snd (begin_submission E usr app msg files inp h)))) =
     streamingMessageId (store h)"
  "messages (store (hk (snd (begin_submission E usr app msg files inp h)))) =
     messages (store h) @ [fst (addMessage (newUserMessageId E)
              ((new_message msg True)
                 \<lparr>attachments := messageAttachments files,
                  persistenceStatus := Some status_pending\<rparr>) (store h))]"
  by (simp_all add: begin_submission_def Let_def split_def addMessage_def
      setIsWaitingForResponse_def setCurrentTaskId_def setCurrentConversationId_def
      setDifyConversationId_def)

lemma begin_submission_inv:
  assumes "\<not> selectIsProcessing (store h)" "find_message a (store h) = None"
    "a \<noteq> newUserMessageId E"
  shows "streaming_inv a [] (snd (begin_submission E usr app msg files inp h))"
  using assms
  by (simp add: streaming_inv_def begin_submission_run begin_submission_store
      selectIsProcessing_def find_message_def find_snoc addMessage_def Let_def)

lemma streaming_inv_keeps_run:
  "keeps_run r r' \<Longrightarrow> streaming_inv a xs r \<Longrightarrow> streaming_inv a xs r'"
  by (cases "assistantMessageId r")
     (auto simp add: keeps_run_def keeps_stream_def streaming_inv_def text_of_def
        find_message_def split: option.splits)

lemma handleSubmit_submit:
  assumes "\<not> isSubmittingRef h" "\<not> selectIsProcessing (store h)"
    "currentUserId E = Some usr" "usr \<noteq> []"
    "fst (select_app E h) = Returns app"
  shows "handleSubmit E msg files inp h =
           submit E (fst (begin_submission E usr app msg files inp (snd (select_app E h))))
                    (snd (begin_submission E usr app msg files inp (snd (select_app E h))))"
  using assms by (cases "select_app E h") (simp add: handleSubmit_def split_def Let_def)

lemma submit_normal_end:
  assumes "fst (open_stream E S r) = None"
    "fst (read_stream E S (snd (open_stream E S r))) = None"
  shows "keeps_texts (hk (snd (read_stream E S (snd (open_stream E S r))))) (submit E S r)"
proof -
  obtain r1 where o: "open_stream E S r = (None, r1)"
    using assms(1) by (cases "open_stream E S r") simp
  obtain r2 where rd: "read_stream E S r1 = (None, r2)"
    using assms(2) o by (cases "read_stream E S r1") simp
  let ?r3 = "persist_after_stream E S (sync_ids E S (apply_completion E r2))"
  have t: "try_block E S r = (None, ?r3)"
    by (simp add: try_block_def o rd)
  have k: "keeps_texts (hk r2) (hk ?r3)"
    by (blast intro: keeps_texts_trans keeps_texts_apply_completion keeps_texts_sync_ids
        keeps_texts_persist)
  have "keeps_texts (hk r2) (hk (late_lookup E S (finally_block E S ?r3)))"
    by (blast intro: keeps_texts_trans k keeps_texts_finally keeps_texts_late_lookup)
  then show ?thesis by (simp add: submit_def t o rd)
qed

subsection \<open>Chunks that stay in the buffer\<close>

lemma js_length_append [simp]: "js_length (a @ b) = js_length a + js_length b"
  by (simp add: js_length_def)

lemma start_assistant_message_lastAppendTime:
  "lastAppendTime (start_assistant_message E S r) = lastAppendTime r"
  by (simp add: start_assistant_message_def Let_def split: prod.split)

lemma on_chunk_buffer_chunk:
  assumes inv: "streaming_inv (newAssistantMessageId E) received r"
    and ne: "newAssistantMessageId E \<noteq> []"
  shows "\<exists>r1. on_chunk E S c t_test t_flushed r =
                 buffer_chunk (newAssistantMessageId E) c t_test t_flushed r1
              \<and> chunkBufferRef (hk r1) = chunkBufferRef (hk r)
              \<and> lastAppendTime r1 = lastAppendTime r"
proof (cases "assistantMessageId r")
  case None
  let ?a = "newAssistantMessageId E"
  let ?r1 = "start_assistant_message E S r"
  from inv None have pre: "streamingMessageId (store (hk r)) = None"
    "find_message ?a (store (hk r)) = None"
    by (simp_all add: streaming_inv_def)
  note s = start_assistant_message_facts [OF pre(2), of S]
  have "on_chunk E S c t_test t_flushed r = buffer_chunk ?a c t_test t_flushed ?r1"
    using None pre(1) s(1) s(2) ne by (simp add: on_chunk_def Let_def when_present_def)
  then show ?thesis
    using s(4) start_assistant_message_lastAppendTime by blast
next
  case (Some i)
  let ?a = "newAssistantMessageId E"
  from inv Some have pre: "i = ?a" "streamingMessageId (store (hk r)) = Some ?a"
    by (simp_all add: streaming_inv_def)
  have "on_chunk E S c t_test t_flushed r = buffer_chunk ?a c t_test t_flushed r"
    using Some pre ne by (simp add: on_chunk_def Let_def when_present_def)
  then show ?thesis by blast
qed

lemma on_chunk_early:
  assumes inv: "streaming_inv (newAssistantMessageId E) received r"
    and ne: "newAssistantMessageId E \<noteq> []"
    and early: "t_test - lastAppendTime r < CHUNK_APPEND_INTERVAL"
    and nl: "CHR 0x0A \<notin> set (chunkBufferRef (hk r) @ c)"
    and short: "js_length (chunkBufferRef (hk r) @ c) \<le> 200"
  shows "chunkBufferRef (hk (on_chunk E S c t_test t_flushed r)) = chunkBufferRef (hk r) @ c"
    and "lastAppendTime (on_chunk E S c t_test t_flushed r) = lastAppendTime r"
proof -
  from on_chunk_buffer_chunk [OF inv ne, of S c t_test t_flushed]
  obtain r1 where r1: "on_chunk E S c t_test t_flushed r =
                 buffer_chunk (newAssistantMessageId E) c t_test t_flushed r1"
    "chunkBufferRef (hk r1) = chunkBufferRef (hk r)" "lastAppendTime r1 = lastAppendTime r"
    by blast
  show "chunkBufferRef (hk (on_chunk E S c t_test t_flushed r)) = chunkBufferRef (hk r) @ c"
    using r1 early nl short by (simp add: buffer_chunk_def Let_def)
  show "lastAppendTime (on_chunk E S c t_test t_flushed r) = lastAppendTime r"
    using r1 early nl short by (simp add: buffer_chunk_def Let_def)
qed

lemma stream_loop_early:
  assumes "streaming_inv (newAssistantMessageId E) received r"
    and "newAssistantMessageId E \<noteq> []"
    and "list_all (arrives_early (lastAppendTime r)) es"
    and "CHR 0x0A \<notin> set (chunkBufferRef (hk r) @ concat (chunks_of es))"
    and "js_length (chunkBufferRef (hk r) @ concat (chunks_of es)) \<le> 200"
  shows "chunkBufferRef (hk (stream_loop E S es r)) = chunkBufferRef (hk r) @ concat (chunks_of es)"
  using assms
proof (induction es arbitrary: received r)
  case Nil
  then show ?case by simp
next
  case (Cons e es)
  from Cons.prems(3) obtain c t_test t_flushed where e: "e = Chunk c t_test t_flushed"
    by (cases e) simp_all
  let ?r1 = "on_chunk E S c t_test t_flushed r"
  have early: "t_test - lastAppendTime r < CHUNK_APPEND_INTERVAL"
    using Cons.prems(3) e by simp
  have nl: "CHR 0x0A \<notin> set (chunkBufferRef (hk r) @ c)"
    using Cons.prems(4) e by simp
  have short: "js_length (chunkBufferRef (hk r) @ c) \<le> 200"
    using Cons.prems(5) e by simp
  note q = on_chunk_early [OF Cons.prems(1) Cons.prems(2) early nl short, of S t_flushed]
  have step: "streaming_inv (newAssistantMessageId E) (received @ [c]) ?r1"
    using on_chunk_inv [OF Cons.prems(1) Cons.prems(2)] .
  then have nb: "\<not> broke ?r1" by (simp add: streaming_inv_def)
  have "chunkBufferRef (hk (stream_loop E S es ?r1)) =
          chunkBufferRef (hk ?r1) @ concat (chunks_of es)"
    using Cons.IH [OF step Cons.prems(2)] Cons.prems(3,4,5) e q by simp
  then show ?case using e nb q by (simp add: Let_def)
qed

subsection \<open>When the stream throws\<close>

lemma keeps_texts_save_errored: "keeps_texts (hk r) (hk (save_errored_message E i c r))"
proof (cases "find_message i (store (hk r))")
  case None
  then show ?thesis by (simp add: save_errored_message_def)
next
  case (Some m)
  have "keeps_texts h
          (let h1 = on_store (updateMessage i
                             (\<lambda>m. m\<lparr>persistenceStatus := Some status_pending\<rparr>)) h;
                      (ok, h2) = save E m c h1
                  in if ok then h2
                     else on_store (updateMessage i
                            (\<lambda>m. m\<lparr>persistenceStatus := Some status_error\<rparr>)) h2)" for h
    by (simp add: Let_def split_def keeps_texts_def)
  then show ?thesis using Some by (simp add: save_errored_message_def)
qed

lemma on_stream_error_present:
  assumes "assistantMessageId r = Some a" "a \<noteq> []"
  shows "on_stream_error E S e r =
           when_present
             (finalDbConvUUID (in_hook (on_store (setMessageError a (stream_error_message e))) r))
             (save_errored_message E a)
             (in_hook (on_store (setMessageError a (stream_error_message e))) r)"
proof -
  have p: "present (Some a)" using assms(2) by (simp add: present_def)
  show ?thesis
    unfolding on_stream_error_def Let_def assms(1) if_P [OF p]
    using assms(2) by (simp add: when_present_def [of "Some a"])
qed

lemma keeps_texts_on_stream_error:
  assumes "assistantMessageId r = Some a" "a \<noteq> []"
  shows "keeps_texts (hk r) (hk (on_stream_error E S e r))"
proof -
  define ra where "ra = in_hook (on_store (setMessageError a (stream_error_message e))) r"
  have ka: "keeps_texts (hk r) (hk ra)" by (simp add: ra_def keeps_texts_def)
  have kb: "keeps_texts (hk ra) (hk (when_present (finalDbConvUUID ra) (save_errored_message E a) ra))"
    using keeps_texts_save_errored by (rule keeps_texts_when_present)
  show ?thesis
    unfolding on_stream_error_present [OF assms] ra_def [symmetric]
    using keeps_texts_trans [OF ka kb] .
qed


lemma submit_stream_error:
  assumes "fst (open_stream E S r) = None"
    "fst (read_stream E S (snd (open_stream E S r))) = Some e"
    "assistantMessageId (snd (read_stream E S (snd (open_stream E S r)))) = Some a"
    "a \<noteq> []"
  shows "keeps_texts (hk (snd (read_stream E S (snd (open_stream E S r))))) (submit E S r)"
proof -
  obtain r1 where o: "open_stream E S r = (None, r1)"
    using assms(1) by (cases "open_stream E S r") simp
  obtain r2 where rd: "read_stream E S r1 = (Some e, r2)"
    using assms(2) o by (cases "read_stream E S r1") simp
  have a: "assistantMessageId r2 = Some a" using assms(3) o rd by simp
  have t: "try_block E S r = (Some e, r2)"
    by (simp add: try_block_def o rd)
  have "keeps_texts (hk r2) (hk (late_lookup E S (finally_block E S (on_stream_error E S e r2))))"
    by (rule keeps_texts_trans [OF keeps_texts_trans
          [OF keeps_texts_on_stream_error [OF a assms(4)] keeps_texts_finally]
          keeps_texts_late_lookup])
  then show ?thesis by (simp add: submit_def t o rd)
qed

lemma keeps_texts_text_of:
  "keeps_texts h h' \<Longrightarrow> text_of a (store h') = text_of a (store h)"
  using text_of_texts [of "store h'" "store h" a] by (simp add: keeps_texts_def)

subsection \<open>The whole submission\<close>

text \<open>
  A submission that passes the guards, opens its stream and reads it to a normal end, with
  no stop pressed: whenever the timer fires and however the chunks fall, the assistant
  message ends with the chunks in the order they arrived, and the buffer is empty. (Each
  chunk is handled by the rule of \<open>buffer_chunk_rule\<close>: appended with the buffer at once when
  30 ms have passed since the last append, or the buffer holds a line feed, or is longer
  than 200; kept in the buffer otherwise.)
\<close>

lemma handleSubmit_streams_every_chunk:
  fixes E usr app msg files inp h
  defines "S \<equiv> fst (begin_submission E usr app msg files inp (snd (select_app E h)))"
    and "r \<equiv> snd (begin_submission E usr app msg files inp (snd (select_app E h)))"
  assumes guard: "\<not> isSubmittingRef h" "\<not> selectIsProcessing (store h)"
    and user: "currentUserId E = Some usr" "usr \<noteq> []"
    and app: "fst (select_app E h) = Returns app"
    and opened: "fst (open_stream E S r) = None"
    and ends: "streamFailure E = None" "StopPressed \<notin> set (answerChunks E)"
    and some: "chunks_of (answerChunks E) \<noteq> []"
    and fresh: "newAssistantMessageId E \<noteq> []" "newAssistantMessageId E \<noteq> newUserMessageId E"
      "find_message (newAssistantMessageId E) (store h) = None"
  shows "text_of (newAssistantMessageId E) (store (handleSubmit E msg files inp h)) =
           Some (concat (chunks_of (answerChunks E)))
         \<and> chunkBufferRef (handleSubmit E msg files inp h) = []"
proof -
  let ?a = "newAssistantMessageId E"
  let ?r1 = "snd (open_stream E S r)"
  let ?r2 = "snd (read_stream E S ?r1)"
  have hs: "handleSubmit E msg files inp h = submit E S r"
    unfolding S_def r_def using handleSubmit_submit [OF guard user app] .
  have "streaming_inv ?a [] r"
    unfolding r_def using guard(2) fresh(2,3) by (simp add: begin_submission_inv)
  then have inv: "streaming_inv ?a [] ?r1"
    using keeps_run_open_stream streaming_inv_keeps_run by blast
  note rs = read_stream_result [OF ends(2) inv fresh(1) ends(1), of S]
  have k: "keeps_texts (hk ?r2) (submit E S r)"
    using submit_normal_end [OF opened rs(1)] .
  show ?thesis
    using rs(3) [OF some] keeps_texts_text_of [OF k] k by (simp add: hs keeps_texts_def)
qed

lemma test_opened:
  "fst (open_stream test_env
          (fst (begin_submission test_env ''u1'' ''app1'' ''hello'' None Undefined
                  (snd (select_app test_env fresh_hook))))
          (snd (begin_submission test_env ''u1'' ''app1'' ''hello'' None Undefined
                  (snd (select_app test_env fresh_hook))))) = None"
  by code_simp

lemma handleSubmit_streams_every_chunk_example:
  "text_of ''msg-2'' (store (handleSubmit test_env ''hello'' None Undefined fresh_hook)) =
     Some ''Hello''
   \<and> chunkBufferRef (handleSubmit test_env ''hello'' None Undefined fresh_hook) = []"
proof -
  have app: "fst (select_app test_env fresh_hook) = Returns ''app1''"
    by (simp add: select_app_def test_env_def fresh_hook_def)
  have e: "currentUserId test_env = Some ''u1''" "streamFailure test_env = None"
    "answerChunks test_env = [Chunk ''Hel'' 1001 1001, Chunk ''lo'' 1006 1006]"
    "newAssistantMessageId test_env = ''msg-2''" "newUserMessageId test_env = ''msg-1''"
    by (simp_all add: test_env_def)
  have h: "\<not> isSubmittingRef fresh_hook" "\<not> selectIsProcessing (store fresh_hook)"
    "find_message ''msg-2'' (store fresh_hook) = None"
    by (simp_all add: fresh_hook_def empty_store_def selectIsProcessing_def find_message_def)
  show ?thesis
    using handleSubmit_streams_every_chunk [where E = test_env and h = fresh_hook
        and usr = "''u1''" and app = "''app1''" and msg = "''hello''" and files = None
        and inp = Undefined, OF h(1,2) e(1) _ app test_opened e(2)]
      h(3)
    by (simp add: e)
qed

text \<open>
  When the stream throws instead, what the buffer holds is never appended: the \<^verbatim>\<open>catch\<close>
  block does not flush, and the \<^verbatim>\<open>finally\<close> block clears the append timer. For chunks that
  all arrive less than 30 ms after the submission, without a line feed and no longer than
  200 together, the message ends empty and the buffer holds every chunk.
\<close>

lemma handleSubmit_stream_error:
  fixes E usr app msg files inp h
  defines "S \<equiv> fst (begin_submission E usr app msg files inp (snd (select_app E h)))"
    and "r \<equiv> snd (begin_submission E usr app msg files inp (snd (select_app E h)))"
  assumes guard: "\<not> isSubmittingRef h" "\<not> selectIsProcessing (store h)"
    and user: "currentUserId E = Some usr" "usr \<noteq> []"
    and app: "fst (select_app E h) = Returns app"
    and opened: "fst (open_stream E S r) = None"
    and fails: "streamFailure E = Some e"
    and early: "list_all (arrives_early (dateNow E)) (answerChunks E)"
    and some: "chunks_of (answerChunks E) \<noteq> []"
    and nl: "CHR 0x0A \<notin> set (concat (chunks_of (answerChunks E)))"
    and short: "js_length (concat (chunks_of (answerChunks E))) \<le> 200"
    and fresh: "newAssistantMessageId E \<noteq> []" "newAssistantMessageId E \<noteq> newUserMessageId E"
      "find_message (newAssistantMessageId E) (store h) = None"
  shows "text_of (newAssistantMessageId E) (store (handleSubmit E msg files inp h)) = Some []
         \<and> chunkBufferRef (handleSubmit E msg files inp h) = concat (chunks_of (answerChunks E))"
proof -
  let ?a = "newAssistantMessageId E"
  let ?r1 = "snd (open_stream E S r)"
  let ?rl = "stream_loop E S (answerChunks E) ?r1"
  have hs: "handleSubmit E msg files inp h = submit E S r"
    unfolding S_def r_def using handleSubmit_submit [OF guard user app] .
  have inv0: "streaming_inv ?a [] r"
    unfolding r_def using guard(2) fresh(2,3) by (simp add: begin_submission_inv)
  then have inv: "streaming_inv ?a [] ?r1"
    using keeps_run_open_stream streaming_inv_keeps_run by blast
  have kr: "keeps_run r ?r1" by (rule keeps_run_open_stream)
  have b1: "chunkBufferRef (hk ?r1) = []"
    using inv by (simp add: streaming_inv_def split: option.splits)
  have l1: "lastAppendTime ?r1 = dateNow E"
    using keeps_runD(6) [OF kr] by (simp add: r_def begin_submission_run)
  have ns: "StopPressed \<notin> set (answerChunks E)"
    using early by (auto simp add: list_all_iff)
  have invl: "streaming_inv ?a (chunks_of (answerChunks E)) ?rl"
    using stream_loop_inv [OF ns inv fresh(1), of S] by simp
  have buf: "chunkBufferRef (hk ?rl) = concat (chunks_of (answerChunks E))"
    using stream_loop_early [OF inv fresh(1), of "answerChunks E" S] early nl short b1 l1
    by simp
  have rd: "read_stream E S ?r1 = (Some e, ?rl)"
    using invl fails by (simp add: read_stream_def Let_def streaming_inv_def)
  have am: "assistantMessageId ?rl = Some ?a"
    using invl some by (simp add: streaming_inv_def split: option.splits)
  have tx: "text_of ?a (store (hk ?rl)) = Some []"
    using invl some buf am by (simp add: streaming_inv_def split: option.splits)
  have k: "keeps_texts (hk ?rl) (submit E S r)"
    using submit_stream_error [OF opened, of e ?a] rd am fresh(1) by simp
  show ?thesis
    using tx buf keeps_texts_text_of [OF k] k by (simp add: hs keeps_texts_def)
qed

lemma failing_opened:
  "fst (open_stream failing_env
          (fst (begin_submission failing_env ''u1'' ''app1'' ''hello'' None Undefined
                  (snd (select_app failing_env fresh_hook))))
          (snd (begin_submission failing_env ''u1'' ''app1'' ''hello'' None Undefined
                  (snd (select_app failing_env fresh_hook))))) = None"
  by code_simp

text \<open>
  C2. The claim fails for a stream that throws. A signed-in user submits on \<^verbatim>\<open>/chat/new\<close>;
  the stream yields \<^verbatim>\<open>Hel\<close> 1 ms and \<^verbatim>\<open>lo\<close> 6 ms after the submission and then throws, before
  the 30 ms append timer fires; nobody presses stop. The chunks received are \<^verbatim>\<open>Hello\<close>, but
  the assistant message ends with the empty text and \<^verbatim>\<open>Hello\<close> is left in the buffer: the
  flush that follows the loop is skipped by the exception, the \<^verbatim>\<open>catch\<close> block does not
  flush (the stop handler and the normal end do), and the \<^verbatim>\<open>finally\<close> block clears the timer
  that would have.
\<close>

theorem C2_stream_error_drops_buffer:
  "concat (chunks_of (answerChunks failing_env)) = ''Hello''
   \<and> StopPressed \<notin> set (answerChunks failing_env)
   \<and> text_of ''msg-2'' (store (handleSubmit failing_env ''hello'' None Undefined fresh_hook)) =
       Some []
   \<and> chunkBufferRef (handleSubmit failing_env ''hello'' None Undefined fresh_hook) = ''Hello''"
proof -
  have app: "fst (select_app failing_env fresh_hook) = Returns ''app1''"
    by (simp add: select_app_def failing_env_def test_env_def fresh_hook_def)
  have e: "currentUserId failing_env = Some ''u1''" "streamFailure failing_env = Some (ErrorObj ''network error'')"
    "answerChunks failing_env = [Chunk ''Hel'' 1001 1001, Chunk ''lo'' 1006 1006]"
    "dateNow failing_env = 1000" "newAssistantMessageId failing_env = ''msg-2''"
    "newUserMessageId failing_env = ''msg-1''"
    by (simp_all add: failing_env_def test_env_def)
  have h: "\<not> isSubmittingRef fresh_hook" "\<not> selectIsProcessing (store fresh_hook)"
    "find_message ''msg-2'' (store fresh_hook) = None"
    by (simp_all add: fresh_hook_def empty_store_def selectIsProcessing_def find_message_def)
  show ?thesis
    using handleSubmit_stream_error [where E = failing_env and h = fresh_hook and usr = "''u1''"
        and app = "''app1''" and msg = "''hello''" and files = None and inp = Undefined
        and e = "ErrorObj ''network error''", OF h(1,2) e(1) _ app failing_opened e(2)]
      h(3)
    by (simp add: e CHUNK_APPEND_INTERVAL_def js_length_def)
qed

section \<open>The persistence status\<close>

lemma status_of_fields [simp]:
  "status_of i (log_effect e h) = status_of i h"
  "status_of i (h\<lparr>isSubmittingRef := b\<rparr>) = status_of i h"
  "status_of i (h\<lparr>lastStreamingCheckRef := c\<rparr>) = status_of i h"
  by (simp_all add: status_of_def)






lemma begin_submission_user_message:
  "userMessage (fst (begin_submission E usr app msg files inp h)) =
     (new_message msg True)
       \<lparr>attachments := messageAttachments files, persistenceStatus := Some status_pending,
        msg_id := newUserMessageId E\<rparr>"
  by (simp add: begin_submission_def Let_def split_def addMessage_def)

lemma begin_submission_user_message_stored:
  assumes "find_message (newUserMessageId E) (store h) = None"
  shows "find_message (newUserMessageId E)
           (store (hk (snd (begin_submission E usr app msg files inp h)))) =
         Some (userMessage (fst (begin_submission E usr app msg files inp h)))"
  using assms
  by (simp add: find_message_def begin_submission_store(2) find_snoc addMessage_def Let_def
      begin_submission_user_message)








end
